theory Spec2Isabelle
  imports Main "HOL-Library.AList"
begin

section \<open>Frame resources of the two Direct3D 12 demo applications\<close>

text \<open>
  The development embeds the frame-resource ring of \<^verbatim>\<open>TexWavesApp\<close>
  (\<^verbatim>\<open>Assignment1/Castle_Woonhak_Kong.cpp\<close>) and of \<^verbatim>\<open>ShapesApp\<close>
  (\<^verbatim>\<open>Week4-5-ShapePractice.cpp\<close>).

  Conventions.
  \<^item> \<^verbatim>\<open>const int gNumFrameResources = 3\<close> is a compile-time constant of both files.
    Every function that reads it takes it as its first argument \<open>n\<close>, so that the
    properties are proved for every ring size; the constant itself is
    \<open>gNumFrameResources\<close> below.
  \<^item> \<^verbatim>\<open>float\<close> values are only moved around by the code under study; they are values of
    a type variable \<open>'a\<close>. A 4x4 matrix is the list of its rows.
  \<^item> Fence values (\<^verbatim>\<open>UINT64\<close>) are natural numbers: a counter that is only ever
    incremented by one per frame.
  \<^item> \<^verbatim>\<open>UINT\<close> products in address computations are written with their wrap-around
    \<open>mod 2 ^ 32\<close>.
  \<^item> The fields of a render item that only feed \<^verbatim>\<open>DrawIndexedInstanced\<close> (mesh,
    topology, index ranges), the per-pass constants and the wave vertex stream are left out.
\<close>

definition gNumFrameResources :: nat where
  "gNumFrameResources = 3"

datatype error =
    OutOfRange        \<comment> \<open>an upload region is written beyond its capacity\<close>
  | NullPointer       \<comment> \<open>\<^verbatim>\<open>mMaterials["water"]\<close> holds no material\<close>
  | InvalidIndex      \<comment> \<open>\<^verbatim>\<open>mFrameResources[i]\<close> with \<open>i\<close> beyond the vector\<close>

type_synonym 'a XMFLOAT4X4 = "'a list list"

definition XMMatrixTranspose :: "'a XMFLOAT4X4 \<Rightarrow> 'a XMFLOAT4X4" where
  "XMMatrixTranspose M = transpose M"


subsection \<open>Upload regions\<close>

text \<open>
  Modelled from the spec: \<^verbatim>\<open>Common/d3dUtil.h\<close> is not among the sources. The spec (4.1)
  asks that each record be aligned to the constant-buffer requirement, "round up to 256
  bytes".
\<close>

definition CalcConstantBufferByteSize :: "nat \<Rightarrow> nat" where
  "CalcConstantBufferByteSize byteSize = ((byteSize + 255) div 256) * 256"

text \<open>
  Modelled from the spec: \<^verbatim>\<open>Common/UploadBuffer.h\<close> is not among the sources. Spec 4.1:
  an upload region is constructed with a record size and a capacity, exposes its base
  GPU-visible address, and \<^verbatim>\<open>write(index, record)\<close> "copies into the mapped region at
  \<^verbatim>\<open>index * alignedRecordSize\<close> - fails if \<^verbatim>\<open>index >= capacity\<close>".
  The mapped region is a partial map from byte offsets to the records stored there.
  \<open>copies\<close> is not a member of the class: it lists the element indices of the writes
  performed so far, newest first, so that the number of uploads can be stated.
\<close>

record 'c UploadBuffer =
  alignedRecordSize :: nat
  capacity :: nat
  GetGPUVirtualAddress :: nat
  mapped :: "nat \<rightharpoonup> 'c"
  copies :: "nat list"

definition UploadBuffer_new :: "nat \<Rightarrow> nat \<Rightarrow> nat \<Rightarrow> 'c UploadBuffer" where
  "UploadBuffer_new base recordSize elementCount =
     \<lparr> alignedRecordSize = CalcConstantBufferByteSize recordSize,
       capacity = elementCount,
       GetGPUVirtualAddress = base,
       mapped = Map.empty,
       copies = [] \<rparr>"

definition CopyData :: "nat \<Rightarrow> 'c \<Rightarrow> 'c UploadBuffer \<Rightarrow> error + 'c UploadBuffer" where
  "CopyData elementIndex data b =
     (if capacity b \<le> elementIndex then Inl OutOfRange
      else Inr (b\<lparr>mapped := (mapped b)(elementIndex * alignedRecordSize b \<mapsto> data),
                copies := elementIndex # copies b\<rparr>))"

text \<open>What the GPU finds at a virtual address that was bound from this buffer.\<close>

definition gpu_read :: "'c UploadBuffer \<Rightarrow> nat \<Rightarrow> 'c option" where
  "gpu_read b addr =
     (if GetGPUVirtualAddress b \<le> addr then mapped b (addr - GetGPUVirtualAddress b) else None)"


subsection \<open>Render items, materials, frame resources\<close>

text \<open>
  \<^verbatim>\<open>struct RenderItem\<close> of \<^verbatim>\<open>ShapesApp\<close>; the one of \<^verbatim>\<open>TexWavesApp\<close> extends it by
  the texture transform and the material pointer (here the material's key in
  \<^verbatim>\<open>mMaterials\<close>).
\<close>

record 'a ShapesRenderItem =
  World :: "'a XMFLOAT4X4"
  NumFramesDirty :: int
  ObjCBIndex :: nat

record 'a RenderItem = "'a ShapesRenderItem" +
  TexTransform :: "'a XMFLOAT4X4"
  Mat :: string

record 'a Material =
  MatCBIndex :: nat
  DiffuseSrvHeapIndex :: nat
  DiffuseAlbedo :: "'a list"
  FresnelR0 :: "'a list"
  Roughness :: 'a
  MatNumFramesDirty :: int
  MatTransform :: "'a XMFLOAT4X4"

text \<open>The constant-buffer records: \<^verbatim>\<open>ObjectConstants\<close> and \<^verbatim>\<open>MaterialConstants\<close>.\<close>

record 'a ShapesObjectConstants =
  cbWorld :: "'a XMFLOAT4X4"

record 'a ObjectConstants = "'a ShapesObjectConstants" +
  cbTexTransform :: "'a XMFLOAT4X4"

record 'a MaterialConstants =
  cbDiffuseAlbedo :: "'a list"
  cbFresnelR0 :: "'a list"
  cbRoughness :: 'a
  cbMatTransform :: "'a XMFLOAT4X4"

text \<open>
  Modelled from the spec: \<^verbatim>\<open>FrameResource.h\<close> is not among the sources. Spec 3: a frame
  resource set holds a per-object upload region sized to the total drawable count, an
  optional per-material upload region, and a fence checkpoint value, 0 until first use.
\<close>

record 'o ShapesFrameResource =
  ObjectCB :: "'o UploadBuffer"
  Fence :: nat

record ('o, 'm) FrameResource = "'o ShapesFrameResource" +
  MaterialCB :: "'m UploadBuffer"


subsection \<open>Application state\<close>

text \<open>
  The members that both applications declare. \<open>clock\<close> is the instant of the GPU
  timeline at which the CPU thread stands; it moves only while the thread is blocked.
\<close>

record ('fr, 'ri) App =
  mFrameResources :: "'fr list"
  mCurrFrameResourceIndex :: nat
  mAllRitems :: "'ri list"
  mCurrentFence :: nat
  clock :: nat

record ('fr, 'ri, 'a) TexWavesApp = "('fr, 'ri) App" +
  mMaterials :: "(string \<times> 'a Material) list"

text \<open>A constant-buffer view descriptor of the heap \<^verbatim>\<open>mCbvHeap\<close> of \<^verbatim>\<open>ShapesApp\<close>.\<close>

record D3D12_CONSTANT_BUFFER_VIEW_DESC =
  BufferLocation :: nat
  SizeInBytes :: nat

record ('fr, 'ri) ShapesApp = "('fr, 'ri) App" +
  mCbvHeap :: "D3D12_CONSTANT_BUFFER_VIEW_DESC option list"
  mPassCbvOffset :: nat


subsection \<open>Update: selecting the ring slot and waiting for it\<close>

text \<open>
  \<^verbatim>\<open>WaitForSingleObject(eventHandle, INFINITE)\<close> after
  \<^verbatim>\<open>mFence->SetEventOnCompletion(fence, eventHandle)\<close>: the thread sleeps until the
  fence object's completed value has reached \<open>fence\<close>. The GPU timeline \<open>gpu\<close> gives the
  completed value at every instant; the result is the instant at which the thread wakes
  up, and \<open>None\<close> when the value is never reached.
\<close>

partial_function (option) WaitForSingleObject :: "(nat \<Rightarrow> nat) \<Rightarrow> nat \<Rightarrow> nat \<Rightarrow> nat option" where
  "WaitForSingleObject gpu fence t =
     (if fence \<le> gpu t then Some t else WaitForSingleObject gpu fence (t + 1))"

text \<open>
  The first half of \<^verbatim>\<open>Update\<close>, the same text in both applications: cycle through the
  circular frame resource array, then wait until the GPU has completed the commands of
  the selected frame resource.
\<close>

definition Update_wait ::
  "nat \<Rightarrow> (nat \<Rightarrow> nat) \<Rightarrow> (('o, 'x) ShapesFrameResource_scheme, 'ri, 'z) App_scheme
     \<Rightarrow> (error + (('o, 'x) ShapesFrameResource_scheme, 'ri, 'z) App_scheme) option" where
  "Update_wait n gpu s =
     (let i = (mCurrFrameResourceIndex s + 1) mod n in
      if length (mFrameResources s) \<le> i then Some (Inl InvalidIndex)
      else
        let s1 = s\<lparr>mCurrFrameResourceIndex := i\<rparr>;
            f = Fence (mFrameResources s ! i)
        in if f \<noteq> 0 \<and> gpu (clock s) < f
           then (case WaitForSingleObject gpu f (clock s) of
                   None \<Rightarrow> None
                 | Some t \<Rightarrow> Some (Inr (s1\<lparr>clock := t\<rparr>)))
           else Some (Inr s1))"


subsection \<open>Update: the constant buffers\<close>

text \<open>
  \<^verbatim>\<open>AnimateMaterials\<close>. The arithmetic on the two \<^verbatim>\<open>float\<close> entries of the water
  material's transform is the parameter \<open>scroll\<close>. \<^verbatim>\<open>mMaterials["water"].get()\<close> is a
  null pointer when the table has no such material.
\<close>

definition AnimateMaterials ::
  "nat \<Rightarrow> ('a XMFLOAT4X4 \<Rightarrow> 'a XMFLOAT4X4) \<Rightarrow> ('fr, 'ri, 'a, 'z) TexWavesApp_scheme
     \<Rightarrow> error + ('fr, 'ri, 'a, 'z) TexWavesApp_scheme" where
  "AnimateMaterials n scroll s =
     (case map_of (mMaterials s) ''water'' of
        None \<Rightarrow> Inl NullPointer
      | Some waterMat \<Rightarrow>
          Inr (s\<lparr>mMaterials :=
                 AList.update ''water''
                   (waterMat\<lparr>MatTransform := scroll (MatTransform waterMat),
                             MatNumFramesDirty := int n\<rparr>)
                   (mMaterials s)\<rparr>))"

text \<open>The records that the two \<^verbatim>\<open>UpdateObjectCBs\<close> and \<^verbatim>\<open>UpdateMaterialCBs\<close> build.\<close>

definition objConstants :: "('a, 'z) RenderItem_scheme \<Rightarrow> 'a ObjectConstants" where
  "objConstants e =
     \<lparr> cbWorld = XMMatrixTranspose (World e),
       cbTexTransform = XMMatrixTranspose (TexTransform e) \<rparr>"

definition ShapesApp_objConstants :: "('a, 'z) ShapesRenderItem_scheme \<Rightarrow> 'a ShapesObjectConstants" where
  "ShapesApp_objConstants e = \<lparr> cbWorld = XMMatrixTranspose (World e) \<rparr>"

definition matConstants :: "'a Material \<Rightarrow> 'a MaterialConstants" where
  "matConstants mat =
     \<lparr> cbDiffuseAlbedo = DiffuseAlbedo mat,
       cbFresnelR0 = FresnelR0 mat,
       cbRoughness = Roughness mat,
       cbMatTransform = XMMatrixTranspose (MatTransform mat) \<rparr>"

text \<open>
  The loop of \<^verbatim>\<open>UpdateObjectCBs\<close> over \<^verbatim>\<open>mAllRitems\<close>. The two applications differ
  only in the record \<open>mk e\<close> that they build from the item.
\<close>

fun UpdateObjectCBs_loop ::
  "(('a, 'z) ShapesRenderItem_scheme \<Rightarrow> 'c) \<Rightarrow> 'c UploadBuffer
     \<Rightarrow> ('a, 'z) ShapesRenderItem_scheme list
     \<Rightarrow> error + ('c UploadBuffer \<times> ('a, 'z) ShapesRenderItem_scheme list)" where
  "UpdateObjectCBs_loop mk currObjectCB [] = Inr (currObjectCB, [])"
| "UpdateObjectCBs_loop mk currObjectCB (e # es) =
     (if NumFramesDirty e > 0 then
        (case CopyData (ObjCBIndex e) (mk e) currObjectCB of
           Inl err \<Rightarrow> Inl err
         | Inr cb \<Rightarrow>
            (case UpdateObjectCBs_loop mk cb es of
               Inl err \<Rightarrow> Inl err
             | Inr (cb', es') \<Rightarrow> Inr (cb', e\<lparr>NumFramesDirty := NumFramesDirty e - 1\<rparr> # es')))
      else
        (case UpdateObjectCBs_loop mk currObjectCB es of
           Inl err \<Rightarrow> Inl err
         | Inr (cb', es') \<Rightarrow> Inr (cb', e # es')))"

text \<open>The loop of \<^verbatim>\<open>UpdateMaterialCBs\<close> over the material table.\<close>

fun UpdateMaterialCBs_loop ::
  "'a MaterialConstants UploadBuffer \<Rightarrow> (string \<times> 'a Material) list
     \<Rightarrow> error + ('a MaterialConstants UploadBuffer \<times> (string \<times> 'a Material) list)" where
  "UpdateMaterialCBs_loop currMaterialCB [] = Inr (currMaterialCB, [])"
| "UpdateMaterialCBs_loop currMaterialCB ((k, mat) # es) =
     (if MatNumFramesDirty mat > 0 then
        (case CopyData (MatCBIndex mat) (matConstants mat) currMaterialCB of
           Inl err \<Rightarrow> Inl err
         | Inr cb \<Rightarrow>
            (case UpdateMaterialCBs_loop cb es of
               Inl err \<Rightarrow> Inl err
             | Inr (cb', es') \<Rightarrow>
                 Inr (cb', (k, mat\<lparr>MatNumFramesDirty := MatNumFramesDirty mat - 1\<rparr>) # es')))
      else
        (case UpdateMaterialCBs_loop currMaterialCB es of
           Inl err \<Rightarrow> Inl err
         | Inr (cb', es') \<Rightarrow> Inr (cb', (k, mat) # es')))"

text \<open>
  \<^verbatim>\<open>mCurrFrameResource\<close> is \<^verbatim>\<open>mFrameResources[mCurrFrameResourceIndex].get()\<close>;
  the passes below reach the current frame resource through the index.
\<close>

definition UpdateObjectCBs ::
  "(('a ObjectConstants, 'x) ShapesFrameResource_scheme, 'a RenderItem, 'z) App_scheme
     \<Rightarrow> error + (('a ObjectConstants, 'x) ShapesFrameResource_scheme, 'a RenderItem, 'z) App_scheme" where
  "UpdateObjectCBs s =
     (let i = mCurrFrameResourceIndex s in
      if length (mFrameResources s) \<le> i then Inl InvalidIndex
      else
        (case UpdateObjectCBs_loop objConstants (ObjectCB (mFrameResources s ! i)) (mAllRitems s) of
           Inl err \<Rightarrow> Inl err
         | Inr (cb, es) \<Rightarrow>
             Inr (s\<lparr>mFrameResources := (mFrameResources s)[i := (mFrameResources s ! i)\<lparr>ObjectCB := cb\<rparr>],
                    mAllRitems := es\<rparr>)))"

definition ShapesApp_UpdateObjectCBs ::
  "(('a ShapesObjectConstants, 'x) ShapesFrameResource_scheme, 'a ShapesRenderItem, 'z) App_scheme
     \<Rightarrow> error + (('a ShapesObjectConstants, 'x) ShapesFrameResource_scheme, 'a ShapesRenderItem, 'z) App_scheme" where
  "ShapesApp_UpdateObjectCBs s =
     (let i = mCurrFrameResourceIndex s in
      if length (mFrameResources s) \<le> i then Inl InvalidIndex
      else
        (case UpdateObjectCBs_loop ShapesApp_objConstants (ObjectCB (mFrameResources s ! i)) (mAllRitems s) of
           Inl err \<Rightarrow> Inl err
         | Inr (cb, es) \<Rightarrow>
             Inr (s\<lparr>mFrameResources := (mFrameResources s)[i := (mFrameResources s ! i)\<lparr>ObjectCB := cb\<rparr>],
                    mAllRitems := es\<rparr>)))"

definition UpdateMaterialCBs ::
  "((('o, 'a MaterialConstants, 'x) FrameResource_scheme), 'ri, 'a, 'z) TexWavesApp_scheme
     \<Rightarrow> error + ((('o, 'a MaterialConstants, 'x) FrameResource_scheme), 'ri, 'a, 'z) TexWavesApp_scheme" where
  "UpdateMaterialCBs s =
     (let i = mCurrFrameResourceIndex s in
      if length (mFrameResources s) \<le> i then Inl InvalidIndex
      else
        (case UpdateMaterialCBs_loop (MaterialCB (mFrameResources s ! i)) (mMaterials s) of
           Inl err \<Rightarrow> Inl err
         | Inr (cb, ms) \<Rightarrow>
             Inr (s\<lparr>mFrameResources := (mFrameResources s)[i := (mFrameResources s ! i)\<lparr>MaterialCB := cb\<rparr>],
                    mMaterials := ms\<rparr>)))"

type_synonym 'a TexWaves =
  "(('a ObjectConstants, 'a MaterialConstants) FrameResource, 'a RenderItem, 'a) TexWavesApp"

type_synonym 'a Shapes =
  "('a ShapesObjectConstants ShapesFrameResource, 'a ShapesRenderItem) ShapesApp"

text \<open>The calls that follow the wait in \<^verbatim>\<open>TexWavesApp::Update\<close>.\<close>

definition Update_CBs ::
  "nat \<Rightarrow> ('a XMFLOAT4X4 \<Rightarrow> 'a XMFLOAT4X4) \<Rightarrow> 'a TexWaves \<Rightarrow> error + 'a TexWaves" where
  "Update_CBs n scroll s =
     (case AnimateMaterials n scroll s of
        Inl err \<Rightarrow> Inl err
      | Inr s1 \<Rightarrow>
         (case UpdateObjectCBs s1 of
            Inl err \<Rightarrow> Inl err
          | Inr s2 \<Rightarrow> UpdateMaterialCBs s2))"

definition Update ::
  "nat \<Rightarrow> (nat \<Rightarrow> nat) \<Rightarrow> ('a XMFLOAT4X4 \<Rightarrow> 'a XMFLOAT4X4) \<Rightarrow> 'a TexWaves
     \<Rightarrow> (error + 'a TexWaves) option" where
  "Update n gpu scroll s =
     (case Update_wait n gpu s of
        None \<Rightarrow> None
      | Some (Inl err) \<Rightarrow> Some (Inl err)
      | Some (Inr s1) \<Rightarrow> Some (Update_CBs n scroll s1))"

definition ShapesApp_Update ::
  "nat \<Rightarrow> (nat \<Rightarrow> nat) \<Rightarrow> 'a Shapes \<Rightarrow> (error + 'a Shapes) option" where
  "ShapesApp_Update n gpu s =
     (case Update_wait n gpu s of
        None \<Rightarrow> None
      | Some (Inl err) \<Rightarrow> Some (Inl err)
      | Some (Inr s1) \<Rightarrow> Some (ShapesApp_UpdateObjectCBs s1))"


subsection \<open>Draw: stamping the fence\<close>

text \<open>
  The end of \<^verbatim>\<open>Draw\<close>, the same text in both applications:
  \<^verbatim>\<open>mCurrFrameResource->Fence = ++mCurrentFence\<close>, followed by the signal of that value
  on the command queue.
\<close>

definition Draw ::
  "(('o, 'x) ShapesFrameResource_scheme, 'ri, 'z) App_scheme
     \<Rightarrow> error + (('o, 'x) ShapesFrameResource_scheme, 'ri, 'z) App_scheme" where
  "Draw s =
     (let i = mCurrFrameResourceIndex s in
      if length (mFrameResources s) \<le> i then Inl InvalidIndex
      else
        Inr (s\<lparr>mCurrentFence := mCurrentFence s + 1,
               mFrameResources :=
                 (mFrameResources s)[i := (mFrameResources s ! i)\<lparr>Fence := mCurrentFence s + 1\<rparr>]\<rparr>))"

text \<open>One turn of the message loop, \<^verbatim>\<open>Update\<close> then \<^verbatim>\<open>Draw\<close>, and \<open>k\<close> turns of it.\<close>

definition Frame :: "('s \<Rightarrow> (error + 's) option) \<Rightarrow> ('s \<Rightarrow> error + 's) \<Rightarrow> 's \<Rightarrow> (error + 's) option" where
  "Frame upd drw s =
     (case upd s of
        None \<Rightarrow> None
      | Some (Inl err) \<Rightarrow> Some (Inl err)
      | Some (Inr s1) \<Rightarrow> Some (drw s1))"

fun Run :: "('s \<Rightarrow> (error + 's) option) \<Rightarrow> ('s \<Rightarrow> error + 's) \<Rightarrow> nat \<Rightarrow> 's \<Rightarrow> (error + 's) option" where
  "Run upd drw 0 s = Some (Inr s)"
| "Run upd drw (Suc k) s =
     (case Frame upd drw s of
        None \<Rightarrow> None
      | Some (Inl err) \<Rightarrow> Some (Inl err)
      | Some (Inr s1) \<Rightarrow> Run upd drw k s1)"


subsection \<open>Binding the constant buffers for a draw\<close>

text \<open>
  \<^verbatim>\<open>TexWavesApp::DrawRenderItems\<close>: for each render item the two root constant-buffer
  views \<^verbatim>\<open>objCBAddress\<close> and \<^verbatim>\<open>matCBAddress\<close>. The products are \<^verbatim>\<open>UINT\<close>, the
  sums \<^verbatim>\<open>D3D12_GPU_VIRTUAL_ADDRESS\<close> (64 bits). \<^verbatim>\<open>sizeof(ObjectConstants)\<close> and
  \<^verbatim>\<open>sizeof(MaterialConstants)\<close> are the parameters \<open>szObj\<close> and \<open>szMat\<close>.
  \<^verbatim>\<open>ri->Mat\<close> is a null pointer when the item names no material of the table.
\<close>

fun DrawRenderItems_loop ::
  "nat \<Rightarrow> nat \<Rightarrow> 'o UploadBuffer \<Rightarrow> 'm UploadBuffer \<Rightarrow> (string \<times> 'a Material) list
     \<Rightarrow> 'a RenderItem list \<Rightarrow> error + (nat \<times> nat) list" where
  "DrawRenderItems_loop objCBByteSize matCBByteSize objectCB matCB mats [] = Inr []"
| "DrawRenderItems_loop objCBByteSize matCBByteSize objectCB matCB mats (ri # ritems) =
     (case map_of mats (Mat ri) of
        None \<Rightarrow> Inl NullPointer
      | Some mat \<Rightarrow>
          let objCBAddress =
                (GetGPUVirtualAddress objectCB + (ObjCBIndex ri * objCBByteSize) mod 2 ^ 32) mod 2 ^ 64;
              matCBAddress =
                (GetGPUVirtualAddress matCB + (MatCBIndex mat * matCBByteSize) mod 2 ^ 32) mod 2 ^ 64
          in (case DrawRenderItems_loop objCBByteSize matCBByteSize objectCB matCB mats ritems of
                Inl err \<Rightarrow> Inl err
              | Inr binds \<Rightarrow> Inr ((objCBAddress, matCBAddress) # binds)))"

definition DrawRenderItems ::
  "nat \<Rightarrow> nat \<Rightarrow> 'a TexWaves \<Rightarrow> 'a RenderItem list \<Rightarrow> error + (nat \<times> nat) list" where
  "DrawRenderItems szObj szMat s ritems =
     (let objCBByteSize = CalcConstantBufferByteSize szObj;
          matCBByteSize = CalcConstantBufferByteSize szMat;
          i = mCurrFrameResourceIndex s
      in if length (mFrameResources s) \<le> i then Inl InvalidIndex
         else DrawRenderItems_loop objCBByteSize matCBByteSize
                (ObjectCB (mFrameResources s ! i)) (MaterialCB (mFrameResources s ! i))
                (mMaterials s) ritems)"

text \<open>
  \<^verbatim>\<open>ShapesApp::BuildDescriptorHeaps\<close> and \<^verbatim>\<open>ShapesApp::BuildConstantBufferViews\<close>.
  \<^verbatim>\<open>mOpaqueRitems\<close> holds one pointer to every element of \<^verbatim>\<open>mAllRitems\<close>, so its size
  is the length of \<open>mAllRitems\<close>. A descriptor that was never created is \<open>None\<close>.
  The second loop of \<^verbatim>\<open>BuildConstantBufferViews\<close> creates the pass views in the last
  \<open>n\<close> descriptors, from \<open>mPassCbvOffset\<close> on; the per-pass buffers are not modelled and
  those descriptors stay \<open>None\<close>.
\<close>

definition BuildDescriptorHeaps :: "nat \<Rightarrow> 'a Shapes \<Rightarrow> 'a Shapes" where
  "BuildDescriptorHeaps n s =
     (let objCount = length (mAllRitems s);
          numDescriptors = ((objCount + 1) * n) mod 2 ^ 32
      in s\<lparr>mPassCbvOffset := (objCount * n) mod 2 ^ 32,
            mCbvHeap := replicate numDescriptors None\<rparr>)"

text \<open>The inner loop, over the objects of one frame resource.\<close>

fun BuildConstantBufferViews_objects ::
  "nat \<Rightarrow> nat \<Rightarrow> nat \<Rightarrow> nat \<Rightarrow> nat list
     \<Rightarrow> D3D12_CONSTANT_BUFFER_VIEW_DESC option list
     \<Rightarrow> D3D12_CONSTANT_BUFFER_VIEW_DESC option list" where
  "BuildConstantBufferViews_objects objCBByteSize objCount base frameIndex [] heap = heap"
| "BuildConstantBufferViews_objects objCBByteSize objCount base frameIndex (i # is) heap =
     (let cbAddress = (base + (i * objCBByteSize) mod 2 ^ 32) mod 2 ^ 64;
          heapIndex = (frameIndex * objCount + i) mod 2 ^ 32;
          cbvDesc = \<lparr> BufferLocation = cbAddress, SizeInBytes = objCBByteSize \<rparr>
      in BuildConstantBufferViews_objects objCBByteSize objCount base frameIndex is
           (heap[heapIndex := Some cbvDesc]))"

text \<open>The outer loop, over the frame resources.\<close>

fun BuildConstantBufferViews_frames ::
  "nat \<Rightarrow> nat \<Rightarrow> ('o, 'x) ShapesFrameResource_scheme list \<Rightarrow> nat list
     \<Rightarrow> D3D12_CONSTANT_BUFFER_VIEW_DESC option list
     \<Rightarrow> D3D12_CONSTANT_BUFFER_VIEW_DESC option list" where
  "BuildConstantBufferViews_frames objCBByteSize objCount frs [] heap = heap"
| "BuildConstantBufferViews_frames objCBByteSize objCount frs (frameIndex # fs) heap =
     BuildConstantBufferViews_frames objCBByteSize objCount frs fs
       (BuildConstantBufferViews_objects objCBByteSize objCount
          (GetGPUVirtualAddress (ObjectCB (frs ! frameIndex))) frameIndex [0..<objCount] heap)"

definition BuildConstantBufferViews :: "nat \<Rightarrow> nat \<Rightarrow> 'a Shapes \<Rightarrow> error + 'a Shapes" where
  "BuildConstantBufferViews n szObj s =
     (let objCBByteSize = CalcConstantBufferByteSize szObj;
          objCount = length (mAllRitems s)
      in if length (mFrameResources s) < n then Inl InvalidIndex
         else Inr (s\<lparr>mCbvHeap :=
                       BuildConstantBufferViews_frames objCBByteSize objCount (mFrameResources s)
                         [0..<n] (mCbvHeap s)\<rparr>))"

text \<open>
  \<^verbatim>\<open>ShapesApp::DrawRenderItems\<close>: for each render item the index \<^verbatim>\<open>cbvIndex\<close> of the
  descriptor that is bound as root descriptor table 0.
\<close>

definition ShapesApp_DrawRenderItems :: "'a Shapes \<Rightarrow> 'a ShapesRenderItem list \<Rightarrow> nat list" where
  "ShapesApp_DrawRenderItems s ritems =
     map (\<lambda>ri. (mCurrFrameResourceIndex s * length (mAllRitems s) + ObjCBIndex ri) mod 2 ^ 32) ritems"


subsection \<open>Initialisation\<close>

text \<open>
  Modelled from the spec: the constructor of \<^verbatim>\<open>FrameResource\<close> (\<^verbatim>\<open>FrameResource.h\<close>
  is not among the sources). Spec 3: a per-object upload region sized to the total
  drawable count, a per-material upload region, the fence checkpoint 0. The device
  chooses the addresses of the two buffers: \<open>objBase\<close> and \<open>matBase\<close>.
\<close>

definition FrameResource_new ::
  "nat \<Rightarrow> nat \<Rightarrow> nat \<Rightarrow> nat \<Rightarrow> nat \<Rightarrow> nat \<Rightarrow> ('o, 'm) FrameResource" where
  "FrameResource_new objBase matBase szObj szMat objectCount materialCount =
     \<lparr> ObjectCB = UploadBuffer_new objBase szObj objectCount,
       Fence = 0,
       MaterialCB = UploadBuffer_new matBase szMat materialCount \<rparr>"

definition ShapesFrameResource_new :: "nat \<Rightarrow> nat \<Rightarrow> nat \<Rightarrow> 'o ShapesFrameResource" where
  "ShapesFrameResource_new objBase szObj objectCount =
     \<lparr> ObjectCB = UploadBuffer_new objBase szObj objectCount, Fence = 0 \<rparr>"

text \<open>
  \<^verbatim>\<open>BuildRenderItems\<close> is a sequence of blocks, one per item, each of which sets the
  item's matrices and material, takes \<^verbatim>\<open>ObjCBIndex = cbindex++\<close> and pushes the item
  on \<^verbatim>\<open>mAllRitems\<close>. The argument lists what the blocks set; \<^verbatim>\<open>NumFramesDirty\<close> keeps
  its default \<^verbatim>\<open>gNumFrameResources\<close>.
\<close>

fun BuildRenderItems_from ::
  "nat \<Rightarrow> nat \<Rightarrow> ('a XMFLOAT4X4 \<times> 'a XMFLOAT4X4 \<times> string) list \<Rightarrow> 'a RenderItem list" where
  "BuildRenderItems_from n cbindex [] = []"
| "BuildRenderItems_from n cbindex ((world, texTransform, mat) # blocks) =
     \<lparr> World = world, NumFramesDirty = int n, ObjCBIndex = cbindex,
       TexTransform = texTransform, Mat = mat \<rparr>
     # BuildRenderItems_from n (cbindex + 1) blocks"

definition BuildRenderItems ::
  "nat \<Rightarrow> ('a XMFLOAT4X4 \<times> 'a XMFLOAT4X4 \<times> string) list \<Rightarrow> 'a RenderItem list" where
  "BuildRenderItems n blocks = BuildRenderItems_from n 0 blocks"

fun ShapesApp_BuildRenderItems_from ::
  "nat \<Rightarrow> nat \<Rightarrow> 'a XMFLOAT4X4 list \<Rightarrow> 'a ShapesRenderItem list" where
  "ShapesApp_BuildRenderItems_from n cbindex [] = []"
| "ShapesApp_BuildRenderItems_from n cbindex (world # blocks) =
     \<lparr> World = world, NumFramesDirty = int n, ObjCBIndex = cbindex \<rparr>
     # ShapesApp_BuildRenderItems_from n (cbindex + 1) blocks"

definition ShapesApp_BuildRenderItems :: "nat \<Rightarrow> 'a XMFLOAT4X4 list \<Rightarrow> 'a ShapesRenderItem list" where
  "ShapesApp_BuildRenderItems n blocks = ShapesApp_BuildRenderItems_from n 0 blocks"

text \<open>
  \<^verbatim>\<open>BuildMaterials\<close>: the four materials of the table, with constant-buffer and
  texture indices 0 to 3. The \<^verbatim>\<open>float\<close> literals of a material are the argument
  \<open>lit\<close> (albedo, reflectance, roughness, by name); \<open>ident\<close> is
  \<^verbatim>\<open>MathHelper::Identity4x4()\<close>. \<^verbatim>\<open>NumFramesDirty\<close> keeps its default
  \<^verbatim>\<open>gNumFrameResources\<close> (spec 3: the dirty count of a material starts at N).
\<close>

definition new_Material ::
  "nat \<Rightarrow> 'a XMFLOAT4X4 \<Rightarrow> nat \<Rightarrow> ('a list \<times> 'a list \<times> 'a) \<Rightarrow> 'a Material" where
  "new_Material n ident k l =
     \<lparr> MatCBIndex = k, DiffuseSrvHeapIndex = k,
       DiffuseAlbedo = fst l, FresnelR0 = fst (snd l), Roughness = snd (snd l),
       MatNumFramesDirty = int n, MatTransform = ident \<rparr>"

definition BuildMaterials ::
  "nat \<Rightarrow> 'a XMFLOAT4X4 \<Rightarrow> (string \<Rightarrow> 'a list \<times> 'a list \<times> 'a) \<Rightarrow> (string \<times> 'a Material) list" where
  "BuildMaterials n ident lit =
     (let grass = new_Material n ident 0 (lit ''grass'');
          water = new_Material n ident 1 (lit ''water'');
          wirefence = new_Material n ident 2 (lit ''wirefence'');
          stone = new_Material n ident 3 (lit ''stone'')
      in AList.update ''stone'' stone
           (AList.update ''wirefence'' wirefence
              (AList.update ''water'' water
                 (AList.update ''grass'' grass []))))"

text \<open>\<^verbatim>\<open>BuildFrameResources\<close>: \<open>n\<close> frame resources, each sized to the tables built before.\<close>

definition BuildFrameResources ::
  "nat \<Rightarrow> (nat \<Rightarrow> nat) \<Rightarrow> (nat \<Rightarrow> nat) \<Rightarrow> nat \<Rightarrow> nat \<Rightarrow> 'a RenderItem list
     \<Rightarrow> (string \<times> 'a Material) list \<Rightarrow> ('a ObjectConstants, 'a MaterialConstants) FrameResource list" where
  "BuildFrameResources n objBase matBase szObj szMat ritems mats =
     map (\<lambda>i. FrameResource_new (objBase i) (matBase i) szObj szMat (length ritems) (length mats))
       [0..<n]"

definition ShapesApp_BuildFrameResources ::
  "nat \<Rightarrow> (nat \<Rightarrow> nat) \<Rightarrow> nat \<Rightarrow> 'a ShapesRenderItem list
     \<Rightarrow> 'a ShapesObjectConstants ShapesFrameResource list" where
  "ShapesApp_BuildFrameResources n objBase szObj ritems =
     map (\<lambda>i. ShapesFrameResource_new (objBase i) szObj (length ritems)) [0..<n]"

text \<open>
  The part of \<^verbatim>\<open>Initialize\<close> that builds the tables above; the members start at
  their in-class initialisers.
\<close>

definition Initialize ::
  "nat \<Rightarrow> (nat \<Rightarrow> nat) \<Rightarrow> (nat \<Rightarrow> nat) \<Rightarrow> nat \<Rightarrow> nat \<Rightarrow> 'a XMFLOAT4X4
     \<Rightarrow> (string \<Rightarrow> 'a list \<times> 'a list \<times> 'a) \<Rightarrow> ('a XMFLOAT4X4 \<times> 'a XMFLOAT4X4 \<times> string) list
     \<Rightarrow> 'a TexWaves" where
  "Initialize n objBase matBase szObj szMat ident lit blocks =
     (let mats = BuildMaterials n ident lit;
          ritems = BuildRenderItems n blocks
      in \<lparr> mFrameResources = BuildFrameResources n objBase matBase szObj szMat ritems mats,
           mCurrFrameResourceIndex = 0,
           mAllRitems = ritems,
           mCurrentFence = 0,
           clock = 0,
           mMaterials = mats \<rparr>)"

definition ShapesApp_Initialize ::
  "nat \<Rightarrow> (nat \<Rightarrow> nat) \<Rightarrow> nat \<Rightarrow> 'a XMFLOAT4X4 list \<Rightarrow> error + 'a Shapes" where
  "ShapesApp_Initialize n objBase szObj blocks =
     (let ritems = ShapesApp_BuildRenderItems n blocks;
          s = \<lparr> mFrameResources = ShapesApp_BuildFrameResources n objBase szObj ritems,
                mCurrFrameResourceIndex = 0,
                mAllRitems = ritems,
                mCurrentFence = 0,
                clock = 0,
                mCbvHeap = [],
                mPassCbvOffset = 0 \<rparr>
      in BuildConstantBufferViews n szObj (BuildDescriptorHeaps n s))"


subsection \<open>Auxiliary notions for the statements\<close>

text \<open>What one pass of either update loop does to the dirty count of an element.\<close>

definition tick :: "('a, 'z) ShapesRenderItem_scheme \<Rightarrow> ('a, 'z) ShapesRenderItem_scheme" where
  "tick e = (if NumFramesDirty e > 0 then e\<lparr>NumFramesDirty := NumFramesDirty e - 1\<rparr> else e)"

definition mat_tick :: "'a Material \<Rightarrow> 'a Material" where
  "mat_tick m =
     (if MatNumFramesDirty m > 0 then m\<lparr>MatNumFramesDirty := MatNumFramesDirty m - 1\<rparr> else m)"

text \<open>
  \<open>t\<close> is the first instant, from the instant at which \<^verbatim>\<open>Update\<close> is entered, at which
  the completed value of the fence has reached the checkpoint of the frame resource that
  \<^verbatim>\<open>Update\<close> selects.
\<close>

definition waited_until ::
  "nat \<Rightarrow> (nat \<Rightarrow> nat) \<Rightarrow> (('o, 'x) ShapesFrameResource_scheme, 'ri, 'z) App_scheme \<Rightarrow> nat \<Rightarrow> bool" where
  "waited_until n gpu s t \<longleftrightarrow>
     (let f = Fence (mFrameResources s ! ((mCurrFrameResourceIndex s + 1) mod n))
      in clock s \<le> t \<and> f \<le> gpu t \<and> (\<forall>u\<in>{clock s..<t}. gpu u < f))"


text \<open>
  What one turn of the message loop does to the per-object data, in either application
  (\<open>mk\<close> is the record built from an item): the next frame resource is selected, its
  per-object buffer is the result of the update loop on the items, every other
  per-object buffer is untouched.
\<close>

definition object_pass ::
  "nat \<Rightarrow> (('a, 'y) ShapesRenderItem_scheme \<Rightarrow> 'c)
     \<Rightarrow> (('c, 'x) ShapesFrameResource_scheme, ('a, 'y) ShapesRenderItem_scheme, 'z) App_scheme
     \<Rightarrow> (('c, 'x) ShapesFrameResource_scheme, ('a, 'y) ShapesRenderItem_scheme, 'z) App_scheme
     \<Rightarrow> bool" where
  "object_pass n mk s s' \<longleftrightarrow>
     (let i = (mCurrFrameResourceIndex s + 1) mod n in
      i < length (mFrameResources s) \<and>
      mCurrFrameResourceIndex s' = i \<and>
      length (mFrameResources s') = length (mFrameResources s) \<and>
      mAllRitems s' = map tick (mAllRitems s) \<and>
      UpdateObjectCBs_loop mk (ObjectCB (mFrameResources s ! i)) (mAllRitems s)
        = Inr (ObjectCB (mFrameResources s' ! i), map tick (mAllRitems s)) \<and>
      (\<forall>j<length (mFrameResources s). j \<noteq> i \<longrightarrow>
         ObjectCB (mFrameResources s' ! j) = ObjectCB (mFrameResources s ! j)))"


text \<open>
  The frame resources that \<open>k\<close> successive calls of \<^verbatim>\<open>Update\<close> select when the current
  index is \<open>a\<close> before the first of them.
\<close>

definition visited :: "nat \<Rightarrow> nat \<Rightarrow> nat \<Rightarrow> nat set" where
  "visited n a k = (\<lambda>i. (a + i) mod n) ` {1..k}"

text \<open>The upload region holds the record \<open>c\<close> at element \<open>i\<close>.\<close>

definition holds_constants :: "'c UploadBuffer \<Rightarrow> nat \<Rightarrow> 'c \<Rightarrow> bool" where
  "holds_constants cb i c \<longleftrightarrow> mapped cb (i * alignedRecordSize cb) = Some c"

text \<open>
  The ring has \<open>n\<close> frame resources with records of positive size, and no two render
  items share a constant-buffer index.
\<close>

definition ring_ready ::
  "nat \<Rightarrow> (('c, 'x) ShapesFrameResource_scheme, ('a, 'y) ShapesRenderItem_scheme, 'z) App_scheme \<Rightarrow> bool" where
  "ring_ready n s \<longleftrightarrow>
     0 < n \<and> length (mFrameResources s) = n \<and>
     distinct (map ObjCBIndex (mAllRitems s)) \<and>
     (\<forall>fr\<in>set (mFrameResources s). 0 < alignedRecordSize (ObjectCB fr))"

text \<open>
  The state of the per-object data \<open>k\<close> frames after the state \<open>s\<close>, for the item at
  position \<open>p\<close> of \<open>mAllRitems\<close>, whose dirty count in \<open>s\<close> is \<open>n\<close>: the count has gone
  down by \<open>k\<close>; each frame resource that these frames selected holds the item's record
  at the item's index and has received exactly one more write at that index; every other
  frame resource still has the per-object buffer it had in \<open>s\<close>.
\<close>

definition propagated ::
  "nat \<Rightarrow> (('a, 'y) ShapesRenderItem_scheme \<Rightarrow> 'c) \<Rightarrow> nat \<Rightarrow> nat
     \<Rightarrow> (('c, 'x) ShapesFrameResource_scheme, ('a, 'y) ShapesRenderItem_scheme, 'z) App_scheme
     \<Rightarrow> (('c, 'x) ShapesFrameResource_scheme, ('a, 'y) ShapesRenderItem_scheme, 'z) App_scheme
     \<Rightarrow> bool" where
  "propagated n mk k p s s' \<longleftrightarrow>
     (let e = mAllRitems s ! p in
      NumFramesDirty (mAllRitems s' ! p) = int n - int k \<and>
      (\<forall>j<n. if j \<in> visited n (mCurrFrameResourceIndex s) k
              then holds_constants (ObjectCB (mFrameResources s' ! j)) (ObjCBIndex e) (mk e) \<and>
                   count_list (copies (ObjectCB (mFrameResources s' ! j))) (ObjCBIndex e)
                     = count_list (copies (ObjectCB (mFrameResources s ! j))) (ObjCBIndex e) + 1
              else ObjectCB (mFrameResources s' ! j) = ObjectCB (mFrameResources s ! j)))"


text \<open>
  The tables fit the upload regions of every frame resource: the ring has \<open>n\<close> frame
  resources and every constant-buffer index is below the capacity of the region it is
  written to; the material table has the material that \<^verbatim>\<open>AnimateMaterials\<close> looks up.
\<close>

definition objects_fit ::
  "nat \<Rightarrow> (('c, 'x) ShapesFrameResource_scheme, ('a, 'y) ShapesRenderItem_scheme, 'z) App_scheme \<Rightarrow> bool" where
  "objects_fit n s \<longleftrightarrow>
     0 < n \<and> length (mFrameResources s) = n \<and>
     (\<forall>fr\<in>set (mFrameResources s). \<forall>e\<in>set (mAllRitems s). ObjCBIndex e < capacity (ObjectCB fr))"

definition materials_fit :: "'a TexWaves \<Rightarrow> bool" where
  "materials_fit s \<longleftrightarrow>
     map_of (mMaterials s) ''water'' \<noteq> None \<and>
     (\<forall>fr\<in>set (mFrameResources s). \<forall>m\<in>set (mMaterials s). MatCBIndex (snd m) < capacity (MaterialCB fr))"

text \<open>No frame resource carries a checkpoint that has not been handed out yet.\<close>

definition fences_bounded ::
  "(('c, 'x) ShapesFrameResource_scheme, 'ri, 'z) App_scheme \<Rightarrow> bool" where
  "fences_bounded s \<longleftrightarrow> (\<forall>fr\<in>set (mFrameResources s). Fence fr \<le> mCurrentFence s)"

text \<open>Every dirty count lies between 0 and \<open>n\<close>.\<close>

definition items_in_range ::
  "nat \<Rightarrow> ('fr, ('a, 'y) ShapesRenderItem_scheme, 'z) App_scheme \<Rightarrow> bool" where
  "items_in_range n s \<longleftrightarrow>
     (\<forall>e\<in>set (mAllRitems s). 0 \<le> NumFramesDirty e \<and> NumFramesDirty e \<le> int n)"

definition materials_in_range :: "nat \<Rightarrow> ('fr, 'ri, 'a, 'z) TexWavesApp_scheme \<Rightarrow> bool" where
  "materials_in_range n s \<longleftrightarrow>
     (\<forall>m\<in>set (mMaterials s). 0 \<le> MatNumFramesDirty (snd m) \<and> MatNumFramesDirty (snd m) \<le> int n)"


definition dirty_in_range :: "nat \<Rightarrow> 'a TexWaves \<Rightarrow> bool" where
  "dirty_in_range n s \<longleftrightarrow> items_in_range n s \<and> materials_in_range n s"


text \<open>
  The element indices written to an upload region between an earlier state \<open>old\<close> of it
  and a later state \<open>new\<close>, newest first.
\<close>

definition uploads_since :: "'c UploadBuffer \<Rightarrow> 'c UploadBuffer \<Rightarrow> nat list" where
  "uploads_since old new = take (length (copies new) - length (copies old)) (copies new)"


text \<open>
  The GPU-visible address of the bytes that \<open>CopyData i\<close> overwrites in the region \<open>b\<close>:
  the base of the buffer plus the byte offset of element \<open>i\<close>.
\<close>

definition write_address :: "'c UploadBuffer \<Rightarrow> nat \<Rightarrow> nat" where
  "write_address b i = GetGPUVirtualAddress b + i * alignedRecordSize b"

text \<open>
  The per-object regions are as initialisation builds them: \<open>n\<close> frame resources, the
  current index below \<open>n\<close>, every region with the aligned record size of the object
  constants and one element per render item, every constant-buffer index below the
  number of items; a region's byte size fits a \<^verbatim>\<open>UINT\<close> and the region lies in the 64-bit
  address space.
\<close>

definition object_regions_ok ::
  "nat \<Rightarrow> nat \<Rightarrow> (('c, 'x) ShapesFrameResource_scheme, ('a, 'y) ShapesRenderItem_scheme, 'z) App_scheme
     \<Rightarrow> bool" where
  "object_regions_ok n szObj s \<longleftrightarrow>
     0 < n \<and> length (mFrameResources s) = n \<and> mCurrFrameResourceIndex s < n \<and>
     distinct (map ObjCBIndex (mAllRitems s)) \<and>
     (\<forall>e\<in>set (mAllRitems s). ObjCBIndex e < length (mAllRitems s)) \<and>
     (\<forall>fr\<in>set (mFrameResources s).
        alignedRecordSize (ObjectCB fr) = CalcConstantBufferByteSize szObj \<and>
        capacity (ObjectCB fr) = length (mAllRitems s) \<and>
        length (mAllRitems s) * CalcConstantBufferByteSize szObj < 2 ^ 32 \<and>
        GetGPUVirtualAddress (ObjectCB fr) + length (mAllRitems s) * CalcConstantBufferByteSize szObj
          < 2 ^ 64)"

text \<open>
  The descriptor heap of \<^verbatim>\<open>ShapesApp\<close> holds, for frame resource \<open>c\<close> and object \<open>i\<close>, at
  index \<open>c * objCount + i\<close>, a view of element \<open>i\<close> of the per-object region of frame
  resource \<open>c\<close>.
\<close>

definition cbv_heap_ok :: "nat \<Rightarrow> nat \<Rightarrow> 'a Shapes \<Rightarrow> bool" where
  "cbv_heap_ok n szObj s \<longleftrightarrow>
     (\<forall>c<n. \<forall>i<length (mAllRitems s).
        c * length (mAllRitems s) + i < length (mCbvHeap s) \<and>
        mCbvHeap s ! (c * length (mAllRitems s) + i) =
          Some \<lparr> BufferLocation = write_address (ObjectCB (mFrameResources s ! c)) i,
                 SizeInBytes = CalcConstantBufferByteSize szObj \<rparr>)"


text \<open>
  The material side of the ring: \<open>n\<close> frame resources whose per-material regions have
  records of positive size, and no two materials share a constant-buffer index.
\<close>

definition materials_ready :: "nat \<Rightarrow> 'a TexWaves \<Rightarrow> bool" where
  "materials_ready n s \<longleftrightarrow>
     0 < n \<and> length (mFrameResources s) = n \<and>
     distinct (map (MatCBIndex \<circ> snd) (mMaterials s)) \<and>
     (\<forall>fr\<in>set (mFrameResources s). 0 < alignedRecordSize (MaterialCB fr))"

text \<open>
  What one turn of the message loop of \<^verbatim>\<open>TexWavesApp\<close> does to the per-material data:
  the next frame resource is selected, the water material is marked (\<open>w'\<close> is the marked
  material), the per-material buffer of the selected frame resource is the result of the
  update loop on the table, every other per-material buffer is untouched.
\<close>

definition material_pass :: "nat \<Rightarrow> 'a TexWaves \<Rightarrow> 'a TexWaves \<Rightarrow> bool" where
  "material_pass n s s' \<longleftrightarrow>
     (let i = (mCurrFrameResourceIndex s + 1) mod n in
      i < length (mFrameResources s) \<and>
      mCurrFrameResourceIndex s' = i \<and>
      length (mFrameResources s') = length (mFrameResources s) \<and>
      (\<exists>w w'. map_of (mMaterials s) ''water'' = Some w \<and> MatCBIndex w' = MatCBIndex w \<and>
         mMaterials s' = map (apsnd mat_tick) (AList.update ''water'' w' (mMaterials s)) \<and>
         UpdateMaterialCBs_loop (MaterialCB (mFrameResources s ! i))
             (AList.update ''water'' w' (mMaterials s))
           = Inr (MaterialCB (mFrameResources s' ! i),
                  map (apsnd mat_tick) (AList.update ''water'' w' (mMaterials s)))) \<and>
      (\<forall>j<length (mFrameResources s). j \<noteq> i \<longrightarrow>
         MaterialCB (mFrameResources s' ! j) = MaterialCB (mFrameResources s ! j)))"

text \<open>
  The state of the per-material data \<open>k\<close> frames after the state \<open>s\<close>, for the material at
  position \<open>p\<close> of the table, whose dirty count in \<open>s\<close> is \<open>n\<close>: it is still the entry
  of the same name, its count has gone down by \<open>k\<close>; each frame resource that these frames
  selected holds the material's record at the material's index and has received exactly
  one more write at that index; every other frame resource still has the per-material
  buffer it had in \<open>s\<close>.
\<close>

definition material_propagated :: "nat \<Rightarrow> nat \<Rightarrow> nat \<Rightarrow> 'a TexWaves \<Rightarrow> 'a TexWaves \<Rightarrow> bool" where
  "material_propagated n k p s s' \<longleftrightarrow>
     (let m = snd (mMaterials s ! p) in
      fst (mMaterials s' ! p) = fst (mMaterials s ! p) \<and>
      MatNumFramesDirty (snd (mMaterials s' ! p)) = int n - int k \<and>
      (\<forall>j<n. if j \<in> visited n (mCurrFrameResourceIndex s) k
              then holds_constants (MaterialCB (mFrameResources s' ! j)) (MatCBIndex m) (matConstants m) \<and>
                   count_list (copies (MaterialCB (mFrameResources s' ! j))) (MatCBIndex m)
                     = count_list (copies (MaterialCB (mFrameResources s ! j))) (MatCBIndex m) + 1
              else MaterialCB (mFrameResources s' ! j) = MaterialCB (mFrameResources s ! j)))"


text \<open>
  The number that the specification gives as the offset of the constants of object \<open>i\<close>
  for the frame resource \<open>slot\<close>: slot index times drawable count plus object index.
\<close>

definition ring_offset :: "nat \<Rightarrow> nat \<Rightarrow> nat \<Rightarrow> nat" where
  "ring_offset slot drawableCount i = slot * drawableCount + i"


subsection \<open>Concrete states for the examples\<close>

definition clean_water :: "nat Material" where
  "clean_water =
     \<lparr> MatCBIndex = 1, DiffuseSrvHeapIndex = 1, DiffuseAlbedo = [1, 1, 1, 1],
       FresnelR0 = [2, 2, 2], Roughness = 0, MatNumFramesDirty = 0, MatTransform = [] \<rparr>"

text \<open>
  A three-slot ring after three frames that the GPU has not started to execute: the
  slots 1, 2 and 0 carry the checkpoints 1, 2 and 3. The GPU timeline \<open>stalled_gpu\<close>
  completes nothing before the instant 5 and everything at it.
\<close>

definition busy_slot :: "nat \<Rightarrow> (nat ObjectConstants, nat MaterialConstants) FrameResource" where
  "busy_slot f =
     \<lparr> ObjectCB = UploadBuffer_new 0 128 1, Fence = f, MaterialCB = UploadBuffer_new 0 80 2 \<rparr>"

definition busy_ring :: "nat TexWaves" where
  "busy_ring =
     \<lparr> mFrameResources = [busy_slot 3, busy_slot 1, busy_slot 2],
       mCurrFrameResourceIndex = 0,
       mAllRitems = [\<lparr> World = [[1]], NumFramesDirty = 0, ObjCBIndex = 0,
                       TexTransform = [[1]], Mat = ''water'' \<rparr>],
       mCurrentFence = 3,
       clock = 0,
       mMaterials = [(''water'', clean_water)] \<rparr>"

definition busy_shapes :: "nat Shapes" where
  "busy_shapes =
     \<lparr> mFrameResources =
         [\<lparr> ObjectCB = UploadBuffer_new 0 64 1, Fence = 3 \<rparr>,
          \<lparr> ObjectCB = UploadBuffer_new 0 64 1, Fence = 1 \<rparr>,
          \<lparr> ObjectCB = UploadBuffer_new 0 64 1, Fence = 2 \<rparr>],
       mCurrFrameResourceIndex = 0,
       mAllRitems = [\<lparr> World = [[1]], NumFramesDirty = 0, ObjCBIndex = 0 \<rparr>],
       mCurrentFence = 3,
       clock = 0,
       mCbvHeap = [],
       mPassCbvOffset = 0 \<rparr>"

definition stalled_gpu :: "nat \<Rightarrow> nat" where
  "stalled_gpu t = (if t < 5 then 0 else 3)"

text \<open>
  A small scene for \<^verbatim>\<open>TexWavesApp\<close> with three frame resources and two render items,
  and the worlds of two render items for \<^verbatim>\<open>ShapesApp\<close>. The GPU timeline \<open>steady_gpu\<close>
  completes one fence value per instant.
\<close>

definition castle :: "nat TexWaves" where
  "castle =
     Initialize 3 (\<lambda>i. 4096 * i) (\<lambda>i. 65536 + 4096 * i) 128 80 [[1, 0], [0, 1]]
       (\<lambda>name. ([1, 1, 1, 1], [0, 0, 0], 0))
       [([[1, 2], [3, 4]], [[5, 0], [0, 5]], ''water''), ([[2, 0], [0, 2]], [[1, 0], [0, 1]], ''stone'')]"

definition shape_worlds :: "nat XMFLOAT4X4 list" where
  "shape_worlds = [[[1, 2], [3, 4]], [[2, 0], [0, 2]]]"

definition steady_gpu :: "nat \<Rightarrow> nat" where
  "steady_gpu t = t"

text \<open>Two render items that share the water material.\<close>

definition shared_items :: "nat RenderItem list" where
  "shared_items =
     BuildRenderItems 3
       [([[1, 2], [3, 4]], [[5, 0], [0, 5]], ''water''), ([[2, 0], [0, 2]], [[1, 0], [0, 1]], ''water'')]"


section \<open>Properties\<close>

subsection \<open>The blocking wait\<close>

lemma wait_reaches:
  "fence \<le> gpu (t + k) \<Longrightarrow>
   \<exists>t'. WaitForSingleObject gpu fence t = Some t' \<and> t \<le> t' \<and> t' \<le> t + k \<and> fence \<le> gpu t'
        \<and> (\<forall>u\<in>{t..<t'}. gpu u < fence)"
proof (induction k arbitrary: t)
  case 0
  then show ?case by (subst WaitForSingleObject.simps) simp
next
  case (Suc k)
  show ?case
  proof (cases "fence \<le> gpu t")
    case True
    then show ?thesis by (subst WaitForSingleObject.simps) simp
  next
    case False
    from Suc.prems have "fence \<le> gpu ((t + 1) + k)" by simp
    from Suc.IH [OF this] obtain t' where
      w: "WaitForSingleObject gpu fence (t + 1) = Some t'" and b: "t + 1 \<le> t'" "t' \<le> t + 1 + k"
      and r: "fence \<le> gpu t'" and e: "\<forall>u\<in>{t + 1..<t'}. gpu u < fence" by blast
    have "WaitForSingleObject gpu fence t = Some t'"
      using False w by (subst WaitForSingleObject.simps) simp
    moreover have "\<forall>u\<in>{t..<t'}. gpu u < fence"
    proof
      fix u assume "u \<in> {t..<t'}"
      then have "u = t \<or> u \<in> {t + 1..<t'}" by auto
      then show "gpu u < fence" using False e by auto
    qed
    ultimately show ?thesis using b r by auto
  qed
qed

lemma wait_Some:
  assumes "WaitForSingleObject gpu fence t = Some t'"
  shows "t \<le> t' \<and> fence \<le> gpu t' \<and> (\<forall>u\<in>{t..<t'}. gpu u < fence)"
proof (rule WaitForSingleObject.raw_induct
    [where P = "\<lambda>g f t y. t \<le> y \<and> f \<le> g y \<and> (\<forall>u\<in>{t..<y}. g u < f)", OF _ assms])
  fix W :: "(nat \<Rightarrow> nat) \<Rightarrow> nat \<Rightarrow> nat \<Rightarrow> nat option" and g f t y
  assume IH: "\<And>g f t y. W g f t = Some y \<Longrightarrow> t \<le> y \<and> f \<le> g y \<and> (\<forall>u\<in>{t..<y}. g u < f)"
    and eq: "(if f \<le> g t then Some t else W g f (t + 1)) = Some y"
  show "t \<le> y \<and> f \<le> g y \<and> (\<forall>u\<in>{t..<y}. g u < f)"
  proof (cases "f \<le> g t")
    case True
    with eq show ?thesis by simp
  next
    case False
    with eq have w: "W g f (t + 1) = Some y" by simp
    from IH [OF w] have b: "t + 1 \<le> y" "f \<le> g y" "\<forall>u\<in>{t + 1..<y}. g u < f" by auto
    have "\<forall>u\<in>{t..<y}. g u < f"
    proof
      fix u assume "u \<in> {t..<y}"
      then have "u = t \<or> u \<in> {t + 1..<y}" by auto
      then show "g u < f" using False b(3) by auto
    qed
    then show ?thesis using b by auto
  qed
qed

lemma wait_None:
  assumes "\<forall>u. t \<le> u \<longrightarrow> gpu u < fence"
  shows "WaitForSingleObject gpu fence t = None"
proof (cases "WaitForSingleObject gpu fence t")
  case None then show ?thesis .
next
  case (Some t')
  from wait_Some [OF Some] assms show ?thesis by (auto simp: not_le [symmetric])
qed

subsection \<open>The update loops\<close>

lemma tick_fields [simp]:
  "ObjCBIndex (tick e) = ObjCBIndex e" "World (tick e) = World e"
  "ShapesRenderItem.more (tick e) = ShapesRenderItem.more e"
  by (simp_all add: tick_def)

lemma CopyData_Inr:
  "CopyData i d b = Inr b' \<longleftrightarrow>
     i < capacity b \<and>
     b' = b\<lparr>mapped := (mapped b)(i * alignedRecordSize b \<mapsto> d), copies := i # copies b\<rparr>"
  by (auto simp: CopyData_def)

lemma CopyData_Inl:
  "CopyData i d b = Inl e \<longleftrightarrow> capacity b \<le> i \<and> e = OutOfRange"
  by (auto simp: CopyData_def)

lemma UpdateObjectCBs_loop_Inr:
  "UpdateObjectCBs_loop mk cb es = Inr (cb', es') \<Longrightarrow>
     es' = map tick es \<and> capacity cb' = capacity cb
     \<and> alignedRecordSize cb' = alignedRecordSize cb
     \<and> GetGPUVirtualAddress cb' = GetGPUVirtualAddress cb
     \<and> copies cb' = rev (map ObjCBIndex (filter (\<lambda>e. NumFramesDirty e > 0) es)) @ copies cb"
proof (induction es arbitrary: cb cb' es')
  case Nil
  then show ?case by simp
next
  case (Cons e es)
  show ?case
  proof (cases "NumFramesDirty e > 0")
    case True
    with Cons.prems obtain cb1 es1 where
      c: "CopyData (ObjCBIndex e) (mk e) cb = Inr cb1"
      and l: "UpdateObjectCBs_loop mk cb1 es = Inr (cb', es1)"
      and e: "es' = e\<lparr>NumFramesDirty := NumFramesDirty e - 1\<rparr> # es1"
      by (auto split: sum.splits)
    from Cons.IH [OF l] c e True show ?thesis
      by (simp add: CopyData_Inr tick_def)
  next
    case False
    with Cons.prems obtain es1 where
      l: "UpdateObjectCBs_loop mk cb es = Inr (cb', es1)" and e: "es' = e # es1"
      by (auto split: sum.splits)
    from Cons.IH [OF l] e False show ?thesis
      by (simp add: tick_def)
  qed
qed

lemma UpdateObjectCBs_loop_total:
  "(\<forall>e\<in>set es. NumFramesDirty e > 0 \<longrightarrow> ObjCBIndex e < capacity cb) \<Longrightarrow>
     \<exists>cb'. UpdateObjectCBs_loop mk cb es = Inr (cb', map tick es)"
proof (induction es arbitrary: cb)
  case Nil
  then show ?case by simp
next
  case (Cons e es)
  show ?case
  proof (cases "NumFramesDirty e > 0")
    case True
    with Cons.prems have i: "ObjCBIndex e < capacity cb" by simp
    define cb1 where "cb1 = cb\<lparr>mapped := (mapped cb)(ObjCBIndex e * alignedRecordSize cb \<mapsto> mk e),
                                copies := ObjCBIndex e # copies cb\<rparr>"
    have c: "CopyData (ObjCBIndex e) (mk e) cb = Inr cb1"
      using i by (simp add: CopyData_Inr cb1_def)
    have "\<forall>e\<in>set es. NumFramesDirty e > 0 \<longrightarrow> ObjCBIndex e < capacity cb1"
      using Cons.prems by (simp add: cb1_def)
    from Cons.IH [OF this] obtain cb' where "UpdateObjectCBs_loop mk cb1 es = Inr (cb', map tick es)" ..
    with c True show ?thesis by (simp add: tick_def)
  next
    case False
    from Cons.prems have "\<forall>e\<in>set es. NumFramesDirty e > 0 \<longrightarrow> ObjCBIndex e < capacity cb" by simp
    from Cons.IH [OF this] obtain cb' where "UpdateObjectCBs_loop mk cb es = Inr (cb', map tick es)" ..
    with False show ?thesis by (simp add: tick_def)
  qed
qed

lemma UpdateObjectCBs_loop_Inl:
  "UpdateObjectCBs_loop mk cb es = Inl err \<Longrightarrow>
     err = OutOfRange \<and> (\<exists>e\<in>set es. NumFramesDirty e > 0 \<and> capacity cb \<le> ObjCBIndex e)"
proof (induction es arbitrary: cb)
  case Nil
  then show ?case by simp
next
  case (Cons e es)
  show ?case
  proof (cases "NumFramesDirty e > 0")
    case True
    show ?thesis
    proof (cases "CopyData (ObjCBIndex e) (mk e) cb")
      case (Inl x)
      with Cons.prems True show ?thesis by (auto simp: CopyData_Inl)
    next
      case (Inr cb1)
      with Cons.prems True have "UpdateObjectCBs_loop mk cb1 es = Inl err"
        by (auto split: sum.splits)
      from Cons.IH [OF this] Inr show ?thesis by (auto simp: CopyData_Inr)
    qed
  next
    case False
    with Cons.prems have "UpdateObjectCBs_loop mk cb es = Inl err"
      by (auto split: sum.splits)
    from Cons.IH [OF this] show ?thesis by auto
  qed
qed

lemma UpdateObjectCBs_loop_mapped_other:
  "UpdateObjectCBs_loop mk cb es = Inr (cb', es') \<Longrightarrow>
   (\<forall>e\<in>set es. NumFramesDirty e > 0 \<longrightarrow> ObjCBIndex e * alignedRecordSize cb \<noteq> off) \<Longrightarrow>
   mapped cb' off = mapped cb off"
proof (induction es arbitrary: cb cb' es')
  case Nil
  then show ?case by simp
next
  case (Cons e es)
  show ?case
  proof (cases "NumFramesDirty e > 0")
    case True
    with Cons.prems(1) obtain cb1 es1 where
      c: "CopyData (ObjCBIndex e) (mk e) cb = Inr cb1"
      and l: "UpdateObjectCBs_loop mk cb1 es = Inr (cb', es1)"
      by (auto split: sum.splits)
    from c have s: "alignedRecordSize cb1 = alignedRecordSize cb"
      and m: "mapped cb1 = (mapped cb)(ObjCBIndex e * alignedRecordSize cb \<mapsto> mk e)"
      by (simp_all add: CopyData_Inr)
    have "mapped cb' off = mapped cb1 off"
      using Cons.IH [OF l] Cons.prems(2) s by simp
    also have "\<dots> = mapped cb off" using m Cons.prems(2) True by simp
    finally show ?thesis .
  next
    case False
    with Cons.prems(1) obtain es1 where
      l: "UpdateObjectCBs_loop mk cb es = Inr (cb', es1)"
      by (auto split: sum.splits)
    from Cons.IH [OF l] Cons.prems(2) show ?thesis by simp
  qed
qed

lemma UpdateObjectCBs_loop_mapped_written:
  "UpdateObjectCBs_loop mk cb es = Inr (cb', es') \<Longrightarrow> distinct (map ObjCBIndex es) \<Longrightarrow>
   0 < alignedRecordSize cb \<Longrightarrow> e \<in> set es \<Longrightarrow> NumFramesDirty e > 0 \<Longrightarrow>
   mapped cb' (ObjCBIndex e * alignedRecordSize cb) = Some (mk e)"
proof (induction es arbitrary: cb cb' es')
  case Nil
  then show ?case by simp
next
  case (Cons x es)
  show ?case
  proof (cases "x = e")
    case True
    with Cons.prems obtain cb1 es1 where
      c: "CopyData (ObjCBIndex e) (mk e) cb = Inr cb1"
      and l: "UpdateObjectCBs_loop mk cb1 es = Inr (cb', es1)"
      by (auto split: sum.splits)
    from c have s: "alignedRecordSize cb1 = alignedRecordSize cb"
      and m: "mapped cb1 = (mapped cb)(ObjCBIndex e * alignedRecordSize cb \<mapsto> mk e)"
      by (simp_all add: CopyData_Inr)
    have "\<forall>y\<in>set es. NumFramesDirty y > 0 \<longrightarrow>
            ObjCBIndex y * alignedRecordSize cb1 \<noteq> ObjCBIndex e * alignedRecordSize cb"
      using Cons.prems(2,3) True s by (auto simp: image_iff)
    from UpdateObjectCBs_loop_mapped_other [OF l this] m show ?thesis by simp
  next
    case False
    with Cons.prems(4) have mem: "e \<in> set es" by simp
    from Cons.prems(2) have d: "distinct (map ObjCBIndex es)" by simp
    show ?thesis
    proof (cases "NumFramesDirty x > 0")
      case True
      with Cons.prems(1) obtain cb1 es1 where
        c: "CopyData (ObjCBIndex x) (mk x) cb = Inr cb1"
        and l: "UpdateObjectCBs_loop mk cb1 es = Inr (cb', es1)"
        by (auto split: sum.splits)
      from c have s: "alignedRecordSize cb1 = alignedRecordSize cb" by (simp add: CopyData_Inr)
      from Cons.IH [OF l d _ mem Cons.prems(5)] Cons.prems(3) s show ?thesis by simp
    next
      case F: False
      with Cons.prems(1) obtain es1 where
        l: "UpdateObjectCBs_loop mk cb es = Inr (cb', es1)"
        by (auto split: sum.splits)
      from Cons.IH [OF l d Cons.prems(3) mem Cons.prems(5)] show ?thesis .
    qed
  qed
qed

subsection \<open>Marking the water material dirty\<close>

lemma AnimateMaterials_Inr:
  "AnimateMaterials n scroll s = Inr s' \<longleftrightarrow>
     (\<exists>waterMat. map_of (mMaterials s) ''water'' = Some waterMat \<and>
        s' = s\<lparr>mMaterials :=
                 AList.update ''water''
                   (waterMat\<lparr>MatTransform := scroll (MatTransform waterMat),
                             MatNumFramesDirty := int n\<rparr>)
                   (mMaterials s)\<rparr>)"
  by (auto simp: AnimateMaterials_def split: option.splits)

lemma AnimateMaterials_water:
  assumes "map_of (mMaterials s) ''water'' = Some m"
  shows "\<exists>s1. AnimateMaterials n scroll s = Inr s1 \<and>
           map_of (mMaterials s1) ''water'' =
             Some (m\<lparr>MatTransform := scroll (MatTransform m), MatNumFramesDirty := int n\<rparr>)"
  using assms by (simp add: AnimateMaterials_def update_conv')

text \<open>
  C6. Marking dirty is an assignment of \<open>n\<close> to the dirty count, not an increment. The one
  place where either application marks anything dirty is \<^verbatim>\<open>AnimateMaterials\<close>, for the
  water material: whatever the count was, after one call it is \<open>n\<close>, and after a second
  call with no update pass in between it is still exactly \<open>n\<close>.
\<close>

theorem AnimateMaterials_twice_saturates:
  assumes "map_of (mMaterials s) ''water'' = Some m"
  shows "\<exists>s1 s2 m1 m2.
           AnimateMaterials n scroll s = Inr s1 \<and>
           map_of (mMaterials s1) ''water'' = Some m1 \<and> MatNumFramesDirty m1 = int n \<and>
           AnimateMaterials n scroll s1 = Inr s2 \<and>
           map_of (mMaterials s2) ''water'' = Some m2 \<and> MatNumFramesDirty m2 = int n"
proof -
  from AnimateMaterials_water [OF assms] obtain s1 where
    a1: "AnimateMaterials n scroll s = Inr s1" and
    w1: "map_of (mMaterials s1) ''water'' =
           Some (m\<lparr>MatTransform := scroll (MatTransform m), MatNumFramesDirty := int n\<rparr>)"
    by blast
  from AnimateMaterials_water [OF w1] obtain s2 m2 where
    a2: "AnimateMaterials n scroll s1 = Inr s2" and
    w2: "map_of (mMaterials s2) ''water'' = Some m2" and "MatNumFramesDirty m2 = int n"
    by fastforce
  with a1 w1 show ?thesis by fastforce
qed

theorem AnimateMaterials_twice_saturates_witness:
  "\<exists>s1 s2 m1 m2.
     AnimateMaterials 3 id
       (\<lparr> mFrameResources = [], mCurrFrameResourceIndex = 0, mAllRitems = [],
          mCurrentFence = 0, clock = 0,
          mMaterials = [(''water'', clean_water)] \<rparr> :: nat TexWaves) = Inr s1 \<and>
     map_of (mMaterials s1) ''water'' = Some m1 \<and> MatNumFramesDirty m1 = 3 \<and>
     AnimateMaterials 3 id s1 = Inr s2 \<and>
     map_of (mMaterials s2) ''water'' = Some m2 \<and> MatNumFramesDirty m2 = 3"
  using AnimateMaterials_twice_saturates
    [of "\<lparr> mFrameResources = [], mCurrFrameResourceIndex = 0, mAllRitems = [],
          mCurrentFence = 0, clock = 0,
          mMaterials = [(''water'', clean_water)] \<rparr> :: nat TexWaves" clean_water 3 id]
  by simp

lemma mat_tick_fields [simp]:
  "MatCBIndex (mat_tick m) = MatCBIndex m" "MatTransform (mat_tick m) = MatTransform m"
  "DiffuseAlbedo (mat_tick m) = DiffuseAlbedo m" "FresnelR0 (mat_tick m) = FresnelR0 m"
  "Roughness (mat_tick m) = Roughness m" "DiffuseSrvHeapIndex (mat_tick m) = DiffuseSrvHeapIndex m"
  by (simp_all add: mat_tick_def)

lemma UpdateMaterialCBs_loop_Inr:
  "UpdateMaterialCBs_loop cb ms = Inr (cb', ms') \<Longrightarrow>
     ms' = map (apsnd mat_tick) ms \<and> capacity cb' = capacity cb
     \<and> alignedRecordSize cb' = alignedRecordSize cb
     \<and> GetGPUVirtualAddress cb' = GetGPUVirtualAddress cb
     \<and> copies cb' =
         rev (map (MatCBIndex \<circ> snd) (filter (\<lambda>e. MatNumFramesDirty (snd e) > 0) ms)) @ copies cb"
proof (induction ms arbitrary: cb cb' ms')
  case Nil
  then show ?case by simp
next
  case (Cons e ms)
  obtain k mat where e: "e = (k, mat)" by (cases e)
  show ?case
  proof (cases "MatNumFramesDirty mat > 0")
    case True
    with Cons.prems e obtain cb1 ms1 where
      c: "CopyData (MatCBIndex mat) (matConstants mat) cb = Inr cb1"
      and l: "UpdateMaterialCBs_loop cb1 ms = Inr (cb', ms1)"
      and r: "ms' = (k, mat\<lparr>MatNumFramesDirty := MatNumFramesDirty mat - 1\<rparr>) # ms1"
      by (auto split: sum.splits)
    from Cons.IH [OF l] c r e True show ?thesis
      by (simp add: CopyData_Inr mat_tick_def)
  next
    case False
    with Cons.prems e obtain ms1 where
      l: "UpdateMaterialCBs_loop cb ms = Inr (cb', ms1)" and r: "ms' = (k, mat) # ms1"
      by (auto split: sum.splits)
    from Cons.IH [OF l] r e False show ?thesis
      by (simp add: mat_tick_def)
  qed
qed

lemma UpdateMaterialCBs_loop_total:
  "(\<forall>e\<in>set ms. MatNumFramesDirty (snd e) > 0 \<longrightarrow> MatCBIndex (snd e) < capacity cb) \<Longrightarrow>
     \<exists>cb'. UpdateMaterialCBs_loop cb ms = Inr (cb', map (apsnd mat_tick) ms)"
proof (induction ms arbitrary: cb)
  case Nil
  then show ?case by simp
next
  case (Cons e ms)
  obtain k mat where e: "e = (k, mat)" by (cases e)
  show ?case
  proof (cases "MatNumFramesDirty mat > 0")
    case True
    with Cons.prems e have i: "MatCBIndex mat < capacity cb" by simp
    define cb1 where "cb1 = cb\<lparr>mapped := (mapped cb)(MatCBIndex mat * alignedRecordSize cb \<mapsto> matConstants mat),
                                copies := MatCBIndex mat # copies cb\<rparr>"
    have c: "CopyData (MatCBIndex mat) (matConstants mat) cb = Inr cb1"
      using i by (simp add: CopyData_Inr cb1_def)
    have "\<forall>e\<in>set ms. MatNumFramesDirty (snd e) > 0 \<longrightarrow> MatCBIndex (snd e) < capacity cb1"
      using Cons.prems by (simp add: cb1_def)
    from Cons.IH [OF this] obtain cb' where
      "UpdateMaterialCBs_loop cb1 ms = Inr (cb', map (apsnd mat_tick) ms)" ..
    with c True e show ?thesis by (simp add: mat_tick_def)
  next
    case False
    from Cons.prems have
      "\<forall>e\<in>set ms. MatNumFramesDirty (snd e) > 0 \<longrightarrow> MatCBIndex (snd e) < capacity cb" by simp
    from Cons.IH [OF this] obtain cb' where
      "UpdateMaterialCBs_loop cb ms = Inr (cb', map (apsnd mat_tick) ms)" ..
    with False e show ?thesis by (simp add: mat_tick_def)
  qed
qed

lemma UpdateMaterialCBs_loop_Inl:
  "UpdateMaterialCBs_loop cb ms = Inl err \<Longrightarrow>
     err = OutOfRange \<and> (\<exists>e\<in>set ms. MatNumFramesDirty (snd e) > 0 \<and> capacity cb \<le> MatCBIndex (snd e))"
proof (induction ms arbitrary: cb)
  case Nil
  then show ?case by simp
next
  case (Cons e ms)
  obtain k mat where e: "e = (k, mat)" by (cases e)
  show ?case
  proof (cases "MatNumFramesDirty mat > 0")
    case True
    show ?thesis
    proof (cases "CopyData (MatCBIndex mat) (matConstants mat) cb")
      case (Inl x)
      with Cons.prems True e show ?thesis by (auto simp: CopyData_Inl)
    next
      case (Inr cb1)
      with Cons.prems True e have "UpdateMaterialCBs_loop cb1 ms = Inl err"
        by (auto split: sum.splits)
      from Cons.IH [OF this] Inr show ?thesis by (auto simp: CopyData_Inr)
    qed
  next
    case False
    with Cons.prems e have "UpdateMaterialCBs_loop cb ms = Inl err"
      by (auto split: sum.splits)
    from Cons.IH [OF this] show ?thesis by auto
  qed
qed

subsection \<open>The steps of a frame\<close>

lemma Update_wait_Inr:
  assumes "Update_wait n gpu s = Some (Inr s1)"
  shows "(mCurrFrameResourceIndex s + 1) mod n < length (mFrameResources s)"
    and "s1 = s\<lparr>mCurrFrameResourceIndex := (mCurrFrameResourceIndex s + 1) mod n, clock := clock s1\<rparr>"
    and "clock s \<le> clock s1"
    and "Fence (mFrameResources s ! ((mCurrFrameResourceIndex s + 1) mod n)) \<le> gpu (clock s1)"
    and "\<forall>u\<in>{clock s..<clock s1}.
           gpu u < Fence (mFrameResources s ! ((mCurrFrameResourceIndex s + 1) mod n))"
proof -
  let ?i = "(mCurrFrameResourceIndex s + 1) mod n"
  let ?f = "Fence (mFrameResources s ! ?i)"
  from assms show r: "?i < length (mFrameResources s)"
    by (auto simp: Update_wait_def Let_def split: if_splits)
  show "s1 = s\<lparr>mCurrFrameResourceIndex := ?i, clock := clock s1\<rparr>
      " "clock s \<le> clock s1" "?f \<le> gpu (clock s1)" "\<forall>u\<in>{clock s..<clock s1}. gpu u < ?f"
  proof -
    have "s1 = s\<lparr>mCurrFrameResourceIndex := ?i, clock := clock s1\<rparr> \<and> clock s \<le> clock s1
          \<and> ?f \<le> gpu (clock s1) \<and> (\<forall>u\<in>{clock s..<clock s1}. gpu u < ?f)"
    proof (cases "?f \<noteq> 0 \<and> gpu (clock s) < ?f")
      case True
      with assms r obtain t where w: "WaitForSingleObject gpu ?f (clock s) = Some t"
        and s1: "s1 = s\<lparr>mCurrFrameResourceIndex := ?i, clock := t\<rparr>"
        by (auto simp: Update_wait_def Let_def split: option.splits)
      from wait_Some [OF w] s1 show ?thesis by simp
    next
      case False
      with assms r have s1: "s1 = s\<lparr>mCurrFrameResourceIndex := ?i\<rparr>"
        by (auto simp: Update_wait_def Let_def split: if_splits)
      with False show ?thesis by auto
    qed
    then show "s1 = s\<lparr>mCurrFrameResourceIndex := ?i, clock := clock s1\<rparr>
      " "clock s \<le> clock s1" "?f \<le> gpu (clock s1)" "\<forall>u\<in>{clock s..<clock s1}. gpu u < ?f"
      by blast+
  qed
qed

lemma Update_wait_Inl:
  "Update_wait n gpu s = Some (Inl e) \<Longrightarrow>
     e = InvalidIndex \<and> length (mFrameResources s) \<le> (mCurrFrameResourceIndex s + 1) mod n"
  by (auto simp: Update_wait_def Let_def split: if_splits option.splits)

lemma Update_wait_returns:
  assumes "(mCurrFrameResourceIndex s + 1) mod n < length (mFrameResources s)"
    and "Fence (mFrameResources s ! ((mCurrFrameResourceIndex s + 1) mod n)) \<le> gpu (clock s + k)"
  shows "\<exists>s1. Update_wait n gpu s = Some (Inr s1)"
proof -
  from wait_reaches [of _ gpu "clock s" k, OF assms(2)] obtain t where
    "WaitForSingleObject gpu (Fence (mFrameResources s ! ((mCurrFrameResourceIndex s + 1) mod n))) (clock s) = Some t"
    by blast
  with assms(1) show ?thesis by (simp add: Update_wait_def Let_def)
qed

lemma Update_wait_blocks:
  assumes "(mCurrFrameResourceIndex s + 1) mod n < length (mFrameResources s)"
    and "\<forall>u. clock s \<le> u \<longrightarrow> gpu u < Fence (mFrameResources s ! ((mCurrFrameResourceIndex s + 1) mod n))"
  shows "Update_wait n gpu s = None"
proof -
  let ?f = "Fence (mFrameResources s ! ((mCurrFrameResourceIndex s + 1) mod n))"
  from assms(2) have "gpu (clock s) < ?f" by simp
  then have "?f \<noteq> 0 \<and> gpu (clock s) < ?f" by simp
  moreover from wait_None [OF assms(2)] have "WaitForSingleObject gpu ?f (clock s) = None" .
  ultimately show ?thesis using assms(1) by (simp add: Update_wait_def Let_def)
qed

lemma UpdateObjectCBs_Inr:
  assumes "UpdateObjectCBs s = Inr s'"
  shows "mCurrFrameResourceIndex s < length (mFrameResources s) \<and>
     (\<exists>cb. UpdateObjectCBs_loop objConstants
              (ObjectCB (mFrameResources s ! mCurrFrameResourceIndex s)) (mAllRitems s)
              = Inr (cb, map tick (mAllRitems s)) \<and>
           s' = s\<lparr>mFrameResources := (mFrameResources s)
                     [mCurrFrameResourceIndex s :=
                        (mFrameResources s ! mCurrFrameResourceIndex s)\<lparr>ObjectCB := cb\<rparr>],
                   mAllRitems := map tick (mAllRitems s)\<rparr>)"
proof -
  from assms have r: "mCurrFrameResourceIndex s < length (mFrameResources s)"
    by (auto simp: UpdateObjectCBs_def Let_def split: if_splits)
  with assms obtain cb es where
    l: "UpdateObjectCBs_loop objConstants
          (ObjectCB (mFrameResources s ! mCurrFrameResourceIndex s)) (mAllRitems s) = Inr (cb, es)"
    and s': "s' = s\<lparr>mFrameResources := (mFrameResources s)
                     [mCurrFrameResourceIndex s :=
                        (mFrameResources s ! mCurrFrameResourceIndex s)\<lparr>ObjectCB := cb\<rparr>],
                   mAllRitems := es\<rparr>"
    by (auto simp: UpdateObjectCBs_def Let_def split: sum.splits)
  from UpdateObjectCBs_loop_Inr [OF l] have "es = map tick (mAllRitems s)" by simp
  with r l s' show ?thesis by blast
qed

lemma ShapesApp_UpdateObjectCBs_Inr:
  assumes "ShapesApp_UpdateObjectCBs s = Inr s'"
  shows "mCurrFrameResourceIndex s < length (mFrameResources s) \<and>
     (\<exists>cb. UpdateObjectCBs_loop ShapesApp_objConstants
              (ObjectCB (mFrameResources s ! mCurrFrameResourceIndex s)) (mAllRitems s)
              = Inr (cb, map tick (mAllRitems s)) \<and>
           s' = s\<lparr>mFrameResources := (mFrameResources s)
                     [mCurrFrameResourceIndex s :=
                        (mFrameResources s ! mCurrFrameResourceIndex s)\<lparr>ObjectCB := cb\<rparr>],
                   mAllRitems := map tick (mAllRitems s)\<rparr>)"
proof -
  from assms have r: "mCurrFrameResourceIndex s < length (mFrameResources s)"
    by (auto simp: ShapesApp_UpdateObjectCBs_def Let_def split: if_splits)
  with assms obtain cb es where
    l: "UpdateObjectCBs_loop ShapesApp_objConstants
          (ObjectCB (mFrameResources s ! mCurrFrameResourceIndex s)) (mAllRitems s) = Inr (cb, es)"
    and s': "s' = s\<lparr>mFrameResources := (mFrameResources s)
                     [mCurrFrameResourceIndex s :=
                        (mFrameResources s ! mCurrFrameResourceIndex s)\<lparr>ObjectCB := cb\<rparr>],
                   mAllRitems := es\<rparr>"
    by (auto simp: ShapesApp_UpdateObjectCBs_def Let_def split: sum.splits)
  from UpdateObjectCBs_loop_Inr [OF l] have "es = map tick (mAllRitems s)" by simp
  with r l s' show ?thesis by blast
qed

lemma UpdateMaterialCBs_Inr:
  assumes "UpdateMaterialCBs s = Inr s'"
  shows "mCurrFrameResourceIndex s < length (mFrameResources s) \<and>
     (\<exists>cb. UpdateMaterialCBs_loop
              (MaterialCB (mFrameResources s ! mCurrFrameResourceIndex s)) (mMaterials s)
              = Inr (cb, map (apsnd mat_tick) (mMaterials s)) \<and>
           s' = s\<lparr>mFrameResources := (mFrameResources s)
                     [mCurrFrameResourceIndex s :=
                        (mFrameResources s ! mCurrFrameResourceIndex s)\<lparr>MaterialCB := cb\<rparr>],
                   mMaterials := map (apsnd mat_tick) (mMaterials s)\<rparr>)"
proof -
  from assms have r: "mCurrFrameResourceIndex s < length (mFrameResources s)"
    by (auto simp: UpdateMaterialCBs_def Let_def split: if_splits)
  with assms obtain cb ms where
    l: "UpdateMaterialCBs_loop
          (MaterialCB (mFrameResources s ! mCurrFrameResourceIndex s)) (mMaterials s) = Inr (cb, ms)"
    and s': "s' = s\<lparr>mFrameResources := (mFrameResources s)
                     [mCurrFrameResourceIndex s :=
                        (mFrameResources s ! mCurrFrameResourceIndex s)\<lparr>MaterialCB := cb\<rparr>],
                   mMaterials := ms\<rparr>"
    by (auto simp: UpdateMaterialCBs_def Let_def split: sum.splits)
  from UpdateMaterialCBs_loop_Inr [OF l] have "ms = map (apsnd mat_tick) (mMaterials s)" by simp
  with r l s' show ?thesis by blast
qed

lemma Draw_Inr:
  "Draw s = Inr s' \<longleftrightarrow>
     mCurrFrameResourceIndex s < length (mFrameResources s) \<and>
     s' = s\<lparr>mCurrentFence := mCurrentFence s + 1,
            mFrameResources := (mFrameResources s)
              [mCurrFrameResourceIndex s :=
                 (mFrameResources s ! mCurrFrameResourceIndex s)\<lparr>Fence := mCurrentFence s + 1\<rparr>]\<rparr>"
  by (auto simp: Draw_def Let_def)

lemma Frame_Inr:
  "Frame upd drw s = Some (Inr s') \<longleftrightarrow> (\<exists>s1. upd s = Some (Inr s1) \<and> drw s1 = Inr s')"
  by (auto simp: Frame_def split: option.splits sum.splits)

lemma Update_Inr:
  "Update n gpu scroll s = Some (Inr s') \<longleftrightarrow>
     (\<exists>s1. Update_wait n gpu s = Some (Inr s1) \<and> Update_CBs n scroll s1 = Inr s')"
  by (auto simp: Update_def split: option.splits sum.splits)

lemma ShapesApp_Update_Inr:
  "ShapesApp_Update n gpu s = Some (Inr s') \<longleftrightarrow>
     (\<exists>s1. Update_wait n gpu s = Some (Inr s1) \<and> ShapesApp_UpdateObjectCBs s1 = Inr s')"
  by (auto simp: ShapesApp_Update_def split: option.splits sum.splits)

lemma Update_CBs_Inr:
  "Update_CBs n scroll s = Inr s' \<longleftrightarrow>
     (\<exists>s1 s2. AnimateMaterials n scroll s = Inr s1 \<and> UpdateObjectCBs s1 = Inr s2
        \<and> UpdateMaterialCBs s2 = Inr s')"
  by (auto simp: Update_CBs_def split: sum.splits)

subsection \<open>Waiting for the selected frame resource\<close>

text \<open>
  C1. Whenever \<^verbatim>\<open>Update\<close> returns, in either application and from any state (so after
  any sequence of frames), with any ring size \<open>n \<ge> 1\<close> and any GPU timeline: the instant
  at which it goes on to write the constant buffers of the selected frame resource is the
  first instant, from its entry on, at which the fence's completed value has reached that
  frame resource's checkpoint. Until then the thread is blocked; the buffers are written
  by the passes that run from that instant. A checkpoint of 0 (never submitted) is reached
  at once.
\<close>

theorem Update_waits_for_frame_resource:
  fixes s s' :: "'a TexWaves" and sh sh' :: "'b Shapes"
  assumes "0 < n"
  shows "(Update n gpu scroll s = Some (Inr s') \<longrightarrow>
            waited_until n gpu s (clock s') \<and>
            Update_CBs n scroll
              (s\<lparr>mCurrFrameResourceIndex := (mCurrFrameResourceIndex s + 1) mod n,
                 clock := clock s'\<rparr>) = Inr s')
       \<and> (ShapesApp_Update n gpu sh = Some (Inr sh') \<longrightarrow>
            waited_until n gpu sh (clock sh') \<and>
            ShapesApp_UpdateObjectCBs
              (sh\<lparr>mCurrFrameResourceIndex := (mCurrFrameResourceIndex sh + 1) mod n,
                  clock := clock sh'\<rparr>) = Inr sh')"
proof (intro conjI impI)
  assume "Update n gpu scroll s = Some (Inr s')"
  then obtain s1 where w: "Update_wait n gpu s = Some (Inr s1)"
    and c: "Update_CBs n scroll s1 = Inr s'"
    by (auto simp: Update_Inr)
  from c obtain a b where "AnimateMaterials n scroll s1 = Inr a" "UpdateObjectCBs a = Inr b"
    "UpdateMaterialCBs b = Inr s'" by (auto simp: Update_CBs_Inr)
  then have "clock s' = clock s1"
    using UpdateObjectCBs_Inr [of a b] UpdateMaterialCBs_Inr [of b s']
    by (auto simp: AnimateMaterials_Inr)
  with Update_wait_Inr [OF w] c
  show "waited_until n gpu s (clock s')"
    and "Update_CBs n scroll
              (s\<lparr>mCurrFrameResourceIndex := (mCurrFrameResourceIndex s + 1) mod n,
                 clock := clock s'\<rparr>) = Inr s'"
    by (simp_all add: waited_until_def)
next
  assume "ShapesApp_Update n gpu sh = Some (Inr sh')"
  then obtain s1 where w: "Update_wait n gpu sh = Some (Inr s1)"
    and c: "ShapesApp_UpdateObjectCBs s1 = Inr sh'"
    by (auto simp: ShapesApp_Update_Inr)
  then have "clock sh' = clock s1"
    using ShapesApp_UpdateObjectCBs_Inr [of s1 sh'] by auto
  with Update_wait_Inr [OF w] c
  show "waited_until n gpu sh (clock sh')"
    and "ShapesApp_UpdateObjectCBs
              (sh\<lparr>mCurrFrameResourceIndex := (mCurrFrameResourceIndex sh + 1) mod n,
                  clock := clock sh'\<rparr>) = Inr sh'"
    by (simp_all add: waited_until_def)
qed

lemma stalled_wait: "WaitForSingleObject stalled_gpu (Suc 0) 0 = Some 5"
  by (simp add: WaitForSingleObject.simps stalled_gpu_def)

lemma busy_ring_Update: "\<exists>s'. Update 3 stalled_gpu id busy_ring = Some (Inr s') \<and> clock s' = 5"
  by (simp add: Update_def Update_wait_def busy_ring_def busy_slot_def stalled_wait
      Update_CBs_def AnimateMaterials_def clean_water_def UpdateObjectCBs_def
      UpdateMaterialCBs_def UploadBuffer_new_def CopyData_def Let_def stalled_gpu_def)

lemma busy_shapes_Update:
  "\<exists>s'. ShapesApp_Update 3 stalled_gpu busy_shapes = Some (Inr s') \<and> clock s' = 5"
  by (simp add: ShapesApp_Update_def Update_wait_def busy_shapes_def stalled_wait
      ShapesApp_UpdateObjectCBs_def UploadBuffer_new_def CopyData_def Let_def stalled_gpu_def)

theorem Update_waits_for_frame_resource_witness:
  "(0::nat) < 3 \<and>
   (\<exists>s'. Update 3 stalled_gpu id busy_ring = Some (Inr s') \<and>
          waited_until 3 stalled_gpu busy_ring 5 \<and> clock s' = 5) \<and>
   (\<exists>sh'. ShapesApp_Update 3 stalled_gpu busy_shapes = Some (Inr sh') \<and>
          waited_until 3 stalled_gpu busy_shapes 5 \<and> clock sh' = 5)"
proof -
  from busy_ring_Update obtain s' where
    u: "Update 3 stalled_gpu id busy_ring = Some (Inr s')" and c: "clock s' = 5" by blast
  from busy_shapes_Update obtain sh' where
    us: "ShapesApp_Update 3 stalled_gpu busy_shapes = Some (Inr sh')" and cs: "clock sh' = 5" by blast
  have "(0::nat) < 3" by simp
  from Update_waits_for_frame_resource [OF this, of stalled_gpu id busy_ring s' busy_shapes sh']
    u c us cs
  show ?thesis by auto
qed

lemma Run_relpowp:
  assumes step: "\<And>s s'. Frame upd drw s = Some (Inr s') \<Longrightarrow> R s s'"
  shows "Run upd drw k s = Some (Inr s') \<Longrightarrow> (R ^^ k) s s'"
proof (induction k arbitrary: s)
  case 0
  then show ?case by simp
next
  case (Suc k)
  from Suc.prems obtain s1 where f: "Frame upd drw s = Some (Inr s1)"
    and r: "Run upd drw k s1 = Some (Inr s')"
    by (auto split: option.splits sum.splits)
  from step [OF f] Suc.IH [OF r] show ?case by (rule relpowp_Suc_I2)
qed

lemma Update_wait_Inr_ex:
  assumes "Update_wait n gpu s = Some (Inr s1)"
  obtains t where "s1 = s\<lparr>mCurrFrameResourceIndex := (mCurrFrameResourceIndex s + 1) mod n, clock := t\<rparr>"
    and "(mCurrFrameResourceIndex s + 1) mod n < length (mFrameResources s)"
    and "waited_until n gpu s t"
  using Update_wait_Inr [OF assms] by (auto simp: waited_until_def)

text \<open>What one turn of the loop of \<^verbatim>\<open>TexWavesApp\<close> does to each member.\<close>

lemma TexWaves_Frame:
  fixes s s' :: "'a TexWaves"
  assumes "Frame (Update n gpu scroll) Draw s = Some (Inr s')"
  obtains w cbO cbM where
    "(mCurrFrameResourceIndex s + 1) mod n < length (mFrameResources s)"
    "map_of (mMaterials s) ''water'' = Some w"
    "UpdateObjectCBs_loop objConstants
       (ObjectCB (mFrameResources s ! ((mCurrFrameResourceIndex s + 1) mod n))) (mAllRitems s)
       = Inr (cbO, map tick (mAllRitems s))"
    "UpdateMaterialCBs_loop
       (MaterialCB (mFrameResources s ! ((mCurrFrameResourceIndex s + 1) mod n)))
       (AList.update ''water''
          (w\<lparr>MatTransform := scroll (MatTransform w), MatNumFramesDirty := int n\<rparr>) (mMaterials s))
       = Inr (cbM, map (apsnd mat_tick)
           (AList.update ''water''
              (w\<lparr>MatTransform := scroll (MatTransform w), MatNumFramesDirty := int n\<rparr>) (mMaterials s)))"
    "mFrameResources s' = (mFrameResources s)
       [(mCurrFrameResourceIndex s + 1) mod n :=
          (mFrameResources s ! ((mCurrFrameResourceIndex s + 1) mod n))
            \<lparr>ObjectCB := cbO, MaterialCB := cbM, Fence := mCurrentFence s + 1\<rparr>]"
    "mCurrFrameResourceIndex s' = (mCurrFrameResourceIndex s + 1) mod n"
    "mAllRitems s' = map tick (mAllRitems s)"
    "mCurrentFence s' = mCurrentFence s + 1"
    "mMaterials s' = map (apsnd mat_tick)
       (AList.update ''water''
          (w\<lparr>MatTransform := scroll (MatTransform w), MatNumFramesDirty := int n\<rparr>) (mMaterials s))"
    "waited_until n gpu s (clock s')"
proof -
  let ?i = "(mCurrFrameResourceIndex s + 1) mod n"
  from assms obtain s1 a b c where w: "Update_wait n gpu s = Some (Inr s1)"
    and a: "AnimateMaterials n scroll s1 = Inr a" and b: "UpdateObjectCBs a = Inr b"
    and c: "UpdateMaterialCBs b = Inr c" and d: "Draw c = Inr s'"
    by (auto simp: Frame_Inr Update_Inr Update_CBs_Inr)
  from w obtain t where s1: "s1 = s\<lparr>mCurrFrameResourceIndex := ?i, clock := t\<rparr>"
    and r: "?i < length (mFrameResources s)" and wu: "waited_until n gpu s t"
    by (rule Update_wait_Inr_ex)
  from a s1 obtain w where ww: "map_of (mMaterials s) ''water'' = Some w"
    and a': "a = s1\<lparr>mMaterials := AList.update ''water''
          (w\<lparr>MatTransform := scroll (MatTransform w), MatNumFramesDirty := int n\<rparr>) (mMaterials s)\<rparr>"
    by (auto simp: AnimateMaterials_Inr)
  let ?ms = "AList.update ''water''
          (w\<lparr>MatTransform := scroll (MatTransform w), MatNumFramesDirty := int n\<rparr>) (mMaterials s)"
  from UpdateObjectCBs_Inr [OF b] a' s1 obtain cbO where
    lo: "UpdateObjectCBs_loop objConstants (ObjectCB (mFrameResources s ! ?i)) (mAllRitems s)
           = Inr (cbO, map tick (mAllRitems s))"
    and b': "b = a\<lparr>mFrameResources := (mFrameResources s)[?i := (mFrameResources s ! ?i)\<lparr>ObjectCB := cbO\<rparr>],
                   mAllRitems := map tick (mAllRitems s)\<rparr>"
    by auto
  from UpdateMaterialCBs_Inr [OF c] b' a' s1 r obtain cbM where
    lm: "UpdateMaterialCBs_loop (MaterialCB (mFrameResources s ! ?i)) ?ms
           = Inr (cbM, map (apsnd mat_tick) ?ms)"
    and c': "c = b\<lparr>mFrameResources := (mFrameResources s)
                     [?i := (mFrameResources s ! ?i)\<lparr>ObjectCB := cbO, MaterialCB := cbM\<rparr>],
                   mMaterials := map (apsnd mat_tick) ?ms\<rparr>"
    by auto
  from d c' b' a' s1 r have
    s': "s' = c\<lparr>mCurrentFence := mCurrentFence s + 1,
               mFrameResources := (mFrameResources s)
                 [?i := (mFrameResources s ! ?i)
                    \<lparr>ObjectCB := cbO, MaterialCB := cbM, Fence := mCurrentFence s + 1\<rparr>]\<rparr>"
    by (auto simp: Draw_Inr)
  show thesis
  proof (rule that [OF r ww lo lm])
    show "mFrameResources s' = (mFrameResources s)
       [?i := (mFrameResources s ! ?i)\<lparr>ObjectCB := cbO, MaterialCB := cbM, Fence := mCurrentFence s + 1\<rparr>]"
      by (simp add: s')
    show "mCurrFrameResourceIndex s' = ?i" by (simp add: s' c' b' a' s1)
    show "mAllRitems s' = map tick (mAllRitems s)" by (simp add: s' c' b')
    show "mCurrentFence s' = mCurrentFence s + 1" by (simp add: s')
    show "mMaterials s' = map (apsnd mat_tick) ?ms" by (simp add: s' c')
    show "waited_until n gpu s (clock s')" using wu by (simp add: s' c' b' a' s1)
  qed
qed

text \<open>The same for \<^verbatim>\<open>ShapesApp\<close>.\<close>

lemma ShapesApp_Frame:
  fixes s s' :: "'a Shapes"
  assumes "Frame (ShapesApp_Update n gpu) Draw s = Some (Inr s')"
  obtains cbO where
    "(mCurrFrameResourceIndex s + 1) mod n < length (mFrameResources s)"
    "UpdateObjectCBs_loop ShapesApp_objConstants
       (ObjectCB (mFrameResources s ! ((mCurrFrameResourceIndex s + 1) mod n))) (mAllRitems s)
       = Inr (cbO, map tick (mAllRitems s))"
    "mFrameResources s' = (mFrameResources s)
       [(mCurrFrameResourceIndex s + 1) mod n :=
          (mFrameResources s ! ((mCurrFrameResourceIndex s + 1) mod n))
            \<lparr>ObjectCB := cbO, Fence := mCurrentFence s + 1\<rparr>]"
    "mCurrFrameResourceIndex s' = (mCurrFrameResourceIndex s + 1) mod n"
    "mAllRitems s' = map tick (mAllRitems s)"
    "mCurrentFence s' = mCurrentFence s + 1"
    "mCbvHeap s' = mCbvHeap s"
    "waited_until n gpu s (clock s')"
proof -
  let ?i = "(mCurrFrameResourceIndex s + 1) mod n"
  from assms obtain s1 b where w: "Update_wait n gpu s = Some (Inr s1)"
    and b: "ShapesApp_UpdateObjectCBs s1 = Inr b" and d: "Draw b = Inr s'"
    by (auto simp: Frame_Inr ShapesApp_Update_Inr)
  from w obtain t where s1: "s1 = s\<lparr>mCurrFrameResourceIndex := ?i, clock := t\<rparr>"
    and r: "?i < length (mFrameResources s)" and wu: "waited_until n gpu s t"
    by (rule Update_wait_Inr_ex)
  from ShapesApp_UpdateObjectCBs_Inr [OF b] s1 obtain cbO where
    lo: "UpdateObjectCBs_loop ShapesApp_objConstants (ObjectCB (mFrameResources s ! ?i)) (mAllRitems s)
           = Inr (cbO, map tick (mAllRitems s))"
    and b': "b = s1\<lparr>mFrameResources := (mFrameResources s)[?i := (mFrameResources s ! ?i)\<lparr>ObjectCB := cbO\<rparr>],
                   mAllRitems := map tick (mAllRitems s)\<rparr>"
    by auto
  from d b' s1 r have
    s': "s' = b\<lparr>mCurrentFence := mCurrentFence s + 1,
               mFrameResources := (mFrameResources s)
                 [?i := (mFrameResources s ! ?i)\<lparr>ObjectCB := cbO, Fence := mCurrentFence s + 1\<rparr>]\<rparr>"
    by (auto simp: Draw_Inr)
  show thesis
  proof (rule that [OF r lo])
    show "mFrameResources s' = (mFrameResources s)
       [?i := (mFrameResources s ! ?i)\<lparr>ObjectCB := cbO, Fence := mCurrentFence s + 1\<rparr>]"
      by (simp add: s')
    show "mCurrFrameResourceIndex s' = ?i" by (simp add: s' b' s1)
    show "mAllRitems s' = map tick (mAllRitems s)" by (simp add: s' b')
    show "mCurrentFence s' = mCurrentFence s + 1" by (simp add: s')
    show "mCbvHeap s' = mCbvHeap s" by (simp add: s' b' s1)
    show "waited_until n gpu s (clock s')" using wu by (simp add: s' b' s1)
  qed
qed

subsection \<open>Propagation of a dirty item through the ring\<close>

lemma TexWaves_Frame_object_pass:
  fixes s s' :: "'a TexWaves"
  assumes "Frame (Update n gpu scroll) Draw s = Some (Inr s')"
  shows "object_pass n objConstants s s'"
  using assms by (rule TexWaves_Frame) (simp add: object_pass_def Let_def)

lemma ShapesApp_Frame_object_pass:
  fixes s s' :: "'a Shapes"
  assumes "Frame (ShapesApp_Update n gpu) Draw s = Some (Inr s')"
  shows "object_pass n ShapesApp_objConstants s s'"
  using assms by (rule ShapesApp_Frame) (simp add: object_pass_def Let_def)

lemma tick_funpow_fields [simp]:
  "ObjCBIndex ((tick ^^ k) e) = ObjCBIndex e" "World ((tick ^^ k) e) = World e"
  "ShapesRenderItem.more ((tick ^^ k) e) = ShapesRenderItem.more e"
  by (induction k) simp_all

lemma tick_funpow_dirty:
  "int k \<le> NumFramesDirty e \<Longrightarrow> NumFramesDirty ((tick ^^ k) e) = NumFramesDirty e - int k"
  by (induction k) (simp_all add: tick_def)

lemma mk_tick_funpow:
  assumes "\<And>e. mk (tick e) = mk e"
  shows "mk ((tick ^^ k) e) = mk e"
  by (induction k) (simp_all add: assms)

lemma objConstants_tick [simp]: "objConstants (tick e) = objConstants e"
  by (simp add: objConstants_def tick_def)

lemma ShapesApp_objConstants_tick [simp]: "ShapesApp_objConstants (tick e) = ShapesApp_objConstants e"
  by (simp add: ShapesApp_objConstants_def)

lemma count_list_distinct_filter:
  "distinct (map f xs) \<Longrightarrow> e \<in> set xs \<Longrightarrow> P e \<Longrightarrow>
     count_list (map f (filter P xs)) (f e) = 1"
proof (induction xs)
  case Nil
  then show ?case by simp
next
  case (Cons x xs)
  show ?case
  proof (cases "x = e")
    case True
    from Cons.prems(1) True have "f e \<notin> f ` set (filter P xs)" by auto
    then have "count_list (map f (filter P xs)) (f e) = 0"
      by (simp add: count_list_0_iff)
    with True Cons.prems(3) show ?thesis by simp
  next
    case False
    with Cons.prems have m: "e \<in> set xs" and d: "distinct (map f xs)" and ne: "f x \<noteq> f e"
      by auto
    from Cons.IH [OF d m Cons.prems(3)] ne show ?thesis by simp
  qed
qed

lemma ring_next: "0 < n \<Longrightarrow> ((a + k) mod n + 1) mod n = (a + Suc k) mod n"
  by (simp add: mod_Suc_eq)

lemma ring_fresh:
  assumes "Suc k \<le> n"
  shows "(a + Suc k) mod n \<notin> (\<lambda>j. (a + j) mod n) ` {1..k}"
proof
  assume "(a + Suc k) mod n \<in> (\<lambda>j. (a + j) mod n) ` {1..k}"
  then obtain j where j: "1 \<le> j" "j \<le> k" and e: "(a + Suc k) mod n = (a + j) mod n" by auto
  from j have "a + j \<le> a + Suc k" by simp
  from e this have "n dvd (a + Suc k) - (a + j)" by (simp add: mod_eq_dvd_iff_nat)
  then have "n dvd Suc k - j" by simp
  moreover from j assms have "0 < Suc k - j" "Suc k - j < n" by auto
  ultimately show False by (meson nat_dvd_not_less)
qed

lemma ring_cover:
  fixes n j a :: nat
  assumes "0 < n" "j < n"
  shows "j \<in> (\<lambda>i. (a + i) mod n) ` {1..n}"
proof -
  let ?a = "a mod n"
  show ?thesis
  proof (cases "?a < j")
    case True
    then have "j - ?a \<in> {1..n}" using assms by auto
    moreover have "(a + (j - ?a)) mod n = j"
    proof -
      have "(a + (j - ?a)) mod n = (?a + (j - ?a)) mod n" by (simp add: mod_add_left_eq)
      also have "\<dots> = j mod n" using True by simp
      finally show ?thesis using assms by simp
    qed
    ultimately show ?thesis by (metis (mono_tags, lifting) image_eqI)
  next
    case False
    have an: "?a < n" using assms by simp
    define b where "b = a mod n"
    have "b < n" "\<not> b < j" using an False by (simp_all add: b_def)
    then have "1 \<le> n + j - b \<and> n + j - b \<le> n" by linarith
    then have "n + j - ?a \<in> {1..n}" by (simp add: b_def)
    moreover have "(a + (n + j - ?a)) mod n = j"
    proof -
      have "(a + (n + j - ?a)) mod n = (?a + (n + j - ?a)) mod n" by (simp add: mod_add_left_eq)
      also have "\<dots> = (n + j) mod n" using an by simp
      finally show ?thesis using assms by simp
    qed
    ultimately show ?thesis by (metis (mono_tags, lifting) image_eqI)
  qed
qed

lemma object_passes:
  fixes s s' :: "(('c, 'x) ShapesFrameResource_scheme, ('a, 'y) ShapesRenderItem_scheme, 'z) App_scheme"
  assumes mk: "\<And>e. mk (tick e) = mk e"
    and n: "0 < n" "length (mFrameResources s) = n"
    and d: "distinct (map ObjCBIndex (mAllRitems s))"
    and sz: "\<forall>j<n. 0 < alignedRecordSize (ObjectCB (mFrameResources s ! j))"
    and p: "p < length (mAllRitems s)" "int k \<le> NumFramesDirty (mAllRitems s ! p)" "k \<le> n"
    and R: "(object_pass n mk ^^ k) s s'"
  shows "length (mFrameResources s') = n \<and>
     (0 < k \<longrightarrow> mCurrFrameResourceIndex s' = (mCurrFrameResourceIndex s + k) mod n) \<and>
     mAllRitems s' = map (tick ^^ k) (mAllRitems s) \<and>
     (\<forall>j<n. alignedRecordSize (ObjectCB (mFrameResources s' ! j))
              = alignedRecordSize (ObjectCB (mFrameResources s ! j))) \<and>
     (\<forall>j<n. j \<in> (\<lambda>i. (mCurrFrameResourceIndex s + i) mod n) ` {1..k} \<longrightarrow>
         mapped (ObjectCB (mFrameResources s' ! j))
           (ObjCBIndex (mAllRitems s ! p) * alignedRecordSize (ObjectCB (mFrameResources s ! j)))
           = Some (mk (mAllRitems s ! p)) \<and>
         count_list (copies (ObjectCB (mFrameResources s' ! j))) (ObjCBIndex (mAllRitems s ! p))
           = count_list (copies (ObjectCB (mFrameResources s ! j))) (ObjCBIndex (mAllRitems s ! p)) + 1) \<and>
     (\<forall>j<n. j \<notin> (\<lambda>i. (mCurrFrameResourceIndex s + i) mod n) ` {1..k} \<longrightarrow>
         ObjectCB (mFrameResources s' ! j) = ObjectCB (mFrameResources s ! j))"
  using p(2,3) R
proof (induction k arbitrary: s')
  case 0
  then show ?case using n by simp
next
  case (Suc k)
  let ?a = "mCurrFrameResourceIndex s"
  let ?e = "mAllRitems s ! p"
  let ?V = "\<lambda>k. (\<lambda>i. (?a + i) mod n) ` {1..k}"
  from Suc.prems(3) obtain s1 where Rk: "(object_pass n mk ^^ k) s s1"
    and last: "object_pass n mk s1 s'" by (rule relpowp_Suc_E)
  from Suc.prems have k: "int k \<le> NumFramesDirty ?e" "k \<le> n" by simp_all
  note IH = Suc.IH [OF k Rk]
  from IH have len1: "length (mFrameResources s1) = n"
    and idx1: "0 < k \<longrightarrow> mCurrFrameResourceIndex s1 = (?a + k) mod n"
    and items1: "mAllRitems s1 = map (tick ^^ k) (mAllRitems s)"
    and sz1: "\<forall>j<n. alignedRecordSize (ObjectCB (mFrameResources s1 ! j))
                = alignedRecordSize (ObjectCB (mFrameResources s ! j))"
    and in1: "\<forall>j<n. j \<in> ?V k \<longrightarrow>
         mapped (ObjectCB (mFrameResources s1 ! j))
           (ObjCBIndex ?e * alignedRecordSize (ObjectCB (mFrameResources s ! j))) = Some (mk ?e) \<and>
         count_list (copies (ObjectCB (mFrameResources s1 ! j))) (ObjCBIndex ?e)
           = count_list (copies (ObjectCB (mFrameResources s ! j))) (ObjCBIndex ?e) + 1"
    and out1: "\<forall>j<n. j \<notin> ?V k \<longrightarrow>
         ObjectCB (mFrameResources s1 ! j) = ObjectCB (mFrameResources s ! j)"
    by blast+
  define i where "i = (?a + Suc k) mod n"
  have i_lt: "i < n" using n(1) by (simp add: i_def)
  have next_i: "(mCurrFrameResourceIndex s1 + 1) mod n = i"
  proof (cases "k = 0")
    case True
    with Rk have "s1 = s" by simp
    with True show ?thesis by (simp add: i_def)
  next
    case False
    with idx1 have "mCurrFrameResourceIndex s1 = (?a + k) mod n" by simp
    then show ?thesis using ring_next [OF n(1), of ?a k] by (simp add: i_def)
  qed
  from last next_i len1 have
    idx': "mCurrFrameResourceIndex s' = i"
    and len': "length (mFrameResources s') = n"
    and items': "mAllRitems s' = map tick (mAllRitems s1)"
    and loop: "UpdateObjectCBs_loop mk (ObjectCB (mFrameResources s1 ! i)) (mAllRitems s1)
                 = Inr (ObjectCB (mFrameResources s' ! i), map tick (mAllRitems s1))"
    and others: "\<forall>j<n. j \<noteq> i \<longrightarrow> ObjectCB (mFrameResources s' ! j) = ObjectCB (mFrameResources s1 ! j)"
    by (simp_all add: object_pass_def Let_def)
  have fresh: "i \<notin> ?V k" unfolding i_def using Suc.prems(2) by (rule ring_fresh)
  with out1 i_lt have cb1: "ObjectCB (mFrameResources s1 ! i) = ObjectCB (mFrameResources s ! i)"
    by simp
  have V_Suc: "?V (Suc k) = insert i (?V k)"
    by (simp add: i_def atLeastAtMostSuc_conv)
  note L = UpdateObjectCBs_loop_Inr [OF loop]
  define e1 where "e1 = (tick ^^ k) ?e"
  have e1_mem: "e1 \<in> set (mAllRitems s1)" using p(1) by (simp add: items1 e1_def)
  have e1_idx: "ObjCBIndex e1 = ObjCBIndex ?e" by (simp add: e1_def)
  have e1_mk: "mk e1 = mk ?e" unfolding e1_def using mk by (rule mk_tick_funpow)
  have e1_dirty: "NumFramesDirty e1 > 0"
    using tick_funpow_dirty [OF k(1)] Suc.prems(1) by (simp add: e1_def)
  have d1: "distinct (map ObjCBIndex (mAllRitems s1))"
    using d by (simp add: items1 comp_def)
  have sz_i: "0 < alignedRecordSize (ObjectCB (mFrameResources s1 ! i))"
    using sz sz1 i_lt by simp
  have written: "mapped (ObjectCB (mFrameResources s' ! i))
      (ObjCBIndex ?e * alignedRecordSize (ObjectCB (mFrameResources s ! i))) = Some (mk ?e)"
    using UpdateObjectCBs_loop_mapped_written [OF loop d1 sz_i e1_mem e1_dirty]
    by (simp add: e1_idx e1_mk cb1)
  have "count_list (copies (ObjectCB (mFrameResources s' ! i))) (ObjCBIndex e1)
      = count_list (map ObjCBIndex (filter (\<lambda>e. NumFramesDirty e > 0) (mAllRitems s1))) (ObjCBIndex e1)
        + count_list (copies (ObjectCB (mFrameResources s1 ! i))) (ObjCBIndex e1)"
    using L by (simp add: count_list_append count_list_rev)
  also have "count_list (map ObjCBIndex (filter (\<lambda>e. NumFramesDirty e > 0) (mAllRitems s1))) (ObjCBIndex e1) = 1"
    using d1 e1_mem e1_dirty by (rule count_list_distinct_filter)
  finally have counted: "count_list (copies (ObjectCB (mFrameResources s' ! i))) (ObjCBIndex ?e)
      = count_list (copies (ObjectCB (mFrameResources s ! i))) (ObjCBIndex ?e) + 1"
    by (simp add: e1_idx cb1)
  have sizes: "\<forall>j<n. alignedRecordSize (ObjectCB (mFrameResources s' ! j))
              = alignedRecordSize (ObjectCB (mFrameResources s ! j))"
  proof (intro allI impI)
    fix j assume j: "j < n"
    show "alignedRecordSize (ObjectCB (mFrameResources s' ! j))
              = alignedRecordSize (ObjectCB (mFrameResources s ! j))"
    proof (cases "j = i")
      case True
      with L cb1 show ?thesis by simp
    next
      case False
      with others sz1 j show ?thesis by simp
    qed
  qed
  have ins: "\<forall>j<n. j \<in> ?V (Suc k) \<longrightarrow>
         mapped (ObjectCB (mFrameResources s' ! j))
           (ObjCBIndex ?e * alignedRecordSize (ObjectCB (mFrameResources s ! j))) = Some (mk ?e) \<and>
         count_list (copies (ObjectCB (mFrameResources s' ! j))) (ObjCBIndex ?e)
           = count_list (copies (ObjectCB (mFrameResources s ! j))) (ObjCBIndex ?e) + 1"
  proof (intro allI impI)
    fix j assume j: "j < n" and v: "j \<in> ?V (Suc k)"
    show "mapped (ObjectCB (mFrameResources s' ! j))
           (ObjCBIndex ?e * alignedRecordSize (ObjectCB (mFrameResources s ! j))) = Some (mk ?e) \<and>
         count_list (copies (ObjectCB (mFrameResources s' ! j))) (ObjCBIndex ?e)
           = count_list (copies (ObjectCB (mFrameResources s ! j))) (ObjCBIndex ?e) + 1"
    proof (cases "j = i")
      case True
      with written counted show ?thesis by simp
    next
      case False
      with v V_Suc have "j \<in> ?V k" by simp
      with in1 j others False show ?thesis by simp
    qed
  qed
  have outs: "\<forall>j<n. j \<notin> ?V (Suc k) \<longrightarrow>
         ObjectCB (mFrameResources s' ! j) = ObjectCB (mFrameResources s ! j)"
  proof (intro allI impI)
    fix j assume j: "j < n" and v: "j \<notin> ?V (Suc k)"
    with V_Suc have "j \<noteq> i" "j \<notin> ?V k" by simp_all
    with out1 others j show "ObjectCB (mFrameResources s' ! j) = ObjectCB (mFrameResources s ! j)"
      by simp
  qed
  have "mAllRitems s' = map (tick ^^ Suc k) (mAllRitems s)"
    by (simp add: items' items1)
  moreover have "mCurrFrameResourceIndex s' = (?a + Suc k) mod n"
    by (simp add: idx' i_def)
  ultimately show ?case using len' sizes ins outs by blast
qed

lemma ring_inj:
  fixes n a k :: nat
  assumes "k \<le> n"
  shows "inj_on (\<lambda>i. (a + i) mod n) {1..k}"
proof (rule inj_onI)
  fix x y assume x: "x \<in> {1..k}" and y: "y \<in> {1..k}" and e: "(a + x) mod n = (a + y) mod n"
  have aux: "u = v" if "u \<le> v" "v \<le> k" "(a + u) mod n = (a + v) mod n" "1 \<le> u" for u v
  proof (rule ccontr)
    assume "u \<noteq> v"
    with that have lt: "u < v" by simp
    from that(3) have "(a + v) mod n = (a + u) mod n" by simp
    moreover have "a + u \<le> a + v" using that(1) by simp
    ultimately have "n dvd (a + v) - (a + u)" by (simp add: mod_eq_dvd_iff_nat)
    then have "n dvd v - u" by simp
    moreover from lt that assms have "0 < v - u" "v - u < n" by auto
    ultimately show False by (meson nat_dvd_not_less)
  qed
  show "x = y"
  proof (cases "x \<le> y")
    case True
    with x y e show ?thesis by (auto intro!: aux [of x y])
  next
    case False
    then have "y \<le> x" by simp
    with x y e have "y = x" by (auto intro!: aux [of y x])
    then show ?thesis by simp
  qed
qed

lemma card_visited: "k \<le> n \<Longrightarrow> card (visited n a k) = k"
  unfolding visited_def using card_image [OF ring_inj, of k n a] by simp

lemma visited_all: "0 < n \<Longrightarrow> j < n \<Longrightarrow> j \<in> visited n a n"
  unfolding visited_def by (rule ring_cover)

lemma object_passes_propagated:
  fixes s s' :: "(('c, 'x) ShapesFrameResource_scheme, ('a, 'y) ShapesRenderItem_scheme, 'z) App_scheme"
  assumes mk: "\<And>e. mk (tick e) = mk e"
    and ready: "ring_ready n s"
    and p: "p < length (mAllRitems s)" "NumFramesDirty (mAllRitems s ! p) = int n" "k \<le> n"
    and R: "(object_pass n mk ^^ k) s s'"
  shows "propagated n mk k p s s'"
proof -
  from ready have n: "0 < n" "length (mFrameResources s) = n"
    and d: "distinct (map ObjCBIndex (mAllRitems s))"
    and sz: "\<forall>j<n. 0 < alignedRecordSize (ObjectCB (mFrameResources s ! j))"
    by (auto simp: ring_ready_def)
  from p have k: "int k \<le> NumFramesDirty (mAllRitems s ! p)" by simp
  note O = object_passes [OF mk n d sz p(1) k p(3) R]
  from O have items: "mAllRitems s' = map (tick ^^ k) (mAllRitems s)" by blast
  have "NumFramesDirty (mAllRitems s' ! p) = int n - int k"
    using p(1) tick_funpow_dirty [OF k] by (simp add: items p(2))
  moreover have "\<forall>j<n. if j \<in> visited n (mCurrFrameResourceIndex s) k
              then holds_constants (ObjectCB (mFrameResources s' ! j))
                     (ObjCBIndex (mAllRitems s ! p)) (mk (mAllRitems s ! p)) \<and>
                   count_list (copies (ObjectCB (mFrameResources s' ! j))) (ObjCBIndex (mAllRitems s ! p))
                     = count_list (copies (ObjectCB (mFrameResources s ! j))) (ObjCBIndex (mAllRitems s ! p)) + 1
              else ObjectCB (mFrameResources s' ! j) = ObjectCB (mFrameResources s ! j)"
  proof (intro allI impI)
    fix j assume j: "j < n"
    from O j have size: "alignedRecordSize (ObjectCB (mFrameResources s' ! j))
              = alignedRecordSize (ObjectCB (mFrameResources s ! j))" by blast
    show "if j \<in> visited n (mCurrFrameResourceIndex s) k
              then holds_constants (ObjectCB (mFrameResources s' ! j))
                     (ObjCBIndex (mAllRitems s ! p)) (mk (mAllRitems s ! p)) \<and>
                   count_list (copies (ObjectCB (mFrameResources s' ! j))) (ObjCBIndex (mAllRitems s ! p))
                     = count_list (copies (ObjectCB (mFrameResources s ! j))) (ObjCBIndex (mAllRitems s ! p)) + 1
              else ObjectCB (mFrameResources s' ! j) = ObjectCB (mFrameResources s ! j)"
    proof (cases "j \<in> visited n (mCurrFrameResourceIndex s) k")
      case True
      then have "j \<in> (\<lambda>i. (mCurrFrameResourceIndex s + i) mod n) ` {1..k}"
        by (simp add: visited_def)
      with O j True size show ?thesis by (simp add: holds_constants_def)
    next
      case False
      then have "j \<notin> (\<lambda>i. (mCurrFrameResourceIndex s + i) mod n) ` {1..k}"
        by (simp add: visited_def)
      with O j False show ?thesis by simp
    qed
  qed
  ultimately show ?thesis unfolding propagated_def Let_def by blast
qed

lemma propagated_complete:
  assumes "propagated n mk n p s s'" "0 < n"
  shows "NumFramesDirty (mAllRitems s' ! p) = 0 \<and>
         (\<forall>j<n. holds_constants (ObjectCB (mFrameResources s' ! j))
                   (ObjCBIndex (mAllRitems s ! p)) (mk (mAllRitems s ! p)))"
proof (intro conjI allI impI)
  from assms(1) show "NumFramesDirty (mAllRitems s' ! p) = 0"
    by (simp add: propagated_def Let_def)
next
  fix j assume j: "j < n"
  with assms(2) have "j \<in> visited n (mCurrFrameResourceIndex s) n" by (rule visited_all)
  moreover from assms(1) j have
    "if j \<in> visited n (mCurrFrameResourceIndex s) n
     then holds_constants (ObjectCB (mFrameResources s' ! j))
            (ObjCBIndex (mAllRitems s ! p)) (mk (mAllRitems s ! p)) \<and>
          count_list (copies (ObjectCB (mFrameResources s' ! j))) (ObjCBIndex (mAllRitems s ! p))
            = count_list (copies (ObjectCB (mFrameResources s ! j))) (ObjCBIndex (mAllRitems s ! p)) + 1
     else ObjectCB (mFrameResources s' ! j) = ObjectCB (mFrameResources s ! j)"
    unfolding propagated_def Let_def by blast
  ultimately show "holds_constants (ObjectCB (mFrameResources s' ! j))
            (ObjCBIndex (mAllRitems s ! p)) (mk (mAllRitems s ! p))" by simp
qed

subsection \<open>The frame loop never fails on tables that fit\<close>

lemma set_AList_update:
  "x \<in> set (AList.update k v al) \<Longrightarrow> x = (k, v) \<or> x \<in> set al"
  by (induction al) (auto split: if_splits)

lemma map_of_apsnd: "map_of (map (apsnd f) al) k = map_option f (map_of al k)"
  by (induction al) auto

lemma Update_wait_cases:
  assumes "0 < n" "length (mFrameResources s) = n"
  obtains (blocked) "Update_wait n gpu s = None"
  | (selected) t where
      "Update_wait n gpu s = Some (Inr (s\<lparr>mCurrFrameResourceIndex := (mCurrFrameResourceIndex s + 1) mod n, clock := t\<rparr>))"
proof (cases "Update_wait n gpu s")
  case None
  then show ?thesis by (rule blocked)
next
  case (Some r)
  show ?thesis
  proof (cases r)
    case (Inl e)
    have "(mCurrFrameResourceIndex s + 1) mod n < n" using assms(1) by simp
    with Inl Some Update_wait_Inl [of n gpu s e] assms(2) show ?thesis by simp
  next
    case (Inr s1)
    with Some have w: "Update_wait n gpu s = Some (Inr s1)" by simp
    from w obtain t where
      "s1 = s\<lparr>mCurrFrameResourceIndex := (mCurrFrameResourceIndex s + 1) mod n, clock := t\<rparr>"
      by (rule Update_wait_Inr_ex)
    with w show ?thesis by (auto intro: selected)
  qed
qed

lemma Update_CBs_total:
  fixes s :: "'a TexWaves"
  assumes o: "objects_fit n s" and m: "materials_fit s" and i: "mCurrFrameResourceIndex s < n"
  shows "\<exists>s'. Update_CBs n scroll s = Inr s'"
proof -
  let ?i = "mCurrFrameResourceIndex s"
  from o i have len: "?i < length (mFrameResources s)" by (simp add: objects_fit_def)
  then have fr: "mFrameResources s ! ?i \<in> set (mFrameResources s)" by simp
  from m obtain w where w: "map_of (mMaterials s) ''water'' = Some w"
    by (auto simp: materials_fit_def)
  define ms where "ms = AList.update ''water''
     (w\<lparr>MatTransform := scroll (MatTransform w), MatNumFramesDirty := int n\<rparr>) (mMaterials s)"
  define a where "a = s\<lparr>mMaterials := ms\<rparr>"
  have A: "AnimateMaterials n scroll s = Inr a"
    using w by (simp add: AnimateMaterials_def a_def ms_def)
  from o fr have "\<forall>e\<in>set (mAllRitems s). NumFramesDirty e > 0 \<longrightarrow>
      ObjCBIndex e < capacity (ObjectCB (mFrameResources s ! ?i))"
    by (simp add: objects_fit_def)
  from UpdateObjectCBs_loop_total [OF this] obtain cb where
    lo: "UpdateObjectCBs_loop objConstants (ObjectCB (mFrameResources s ! ?i)) (mAllRitems s)
           = Inr (cb, map tick (mAllRitems s))" ..
  define b where "b = a\<lparr>mFrameResources := (mFrameResources s)[?i := (mFrameResources s ! ?i)\<lparr>ObjectCB := cb\<rparr>],
                        mAllRitems := map tick (mAllRitems s)\<rparr>"
  have B: "UpdateObjectCBs a = Inr b"
    using lo len by (simp add: UpdateObjectCBs_def a_def b_def Let_def)
  have "\<forall>e\<in>set ms. MatNumFramesDirty (snd e) > 0 \<longrightarrow>
      MatCBIndex (snd e) < capacity (MaterialCB (mFrameResources s ! ?i))"
  proof (intro ballI impI)
    fix e assume "e \<in> set ms"
    then have c: "e = (''water'', w\<lparr>MatTransform := scroll (MatTransform w), MatNumFramesDirty := int n\<rparr>)
       \<or> e \<in> set (mMaterials s)"
      unfolding ms_def by (rule set_AList_update)
    from w have w_mem: "(''water'', w) \<in> set (mMaterials s)" by (rule map_of_SomeD)
    from m fr have all: "\<forall>x\<in>set (mMaterials s).
        MatCBIndex (snd x) < capacity (MaterialCB (mFrameResources s ! ?i))"
      by (simp add: materials_fit_def)
    from bspec [OF all w_mem] have "MatCBIndex w < capacity (MaterialCB (mFrameResources s ! ?i))"
      by simp
    with c all show "MatCBIndex (snd e) < capacity (MaterialCB (mFrameResources s ! ?i))"
      by auto
  qed
  from UpdateMaterialCBs_loop_total [OF this] obtain cbM where
    lm: "UpdateMaterialCBs_loop (MaterialCB (mFrameResources s ! ?i)) ms
           = Inr (cbM, map (apsnd mat_tick) ms)" ..
  have "\<exists>c. UpdateMaterialCBs b = Inr c"
    using lm len by (simp add: UpdateMaterialCBs_def a_def b_def Let_def)
  with A B show ?thesis by (auto simp: Update_CBs_Inr)
qed

lemma Update_CBs_index:
  "Update_CBs n scroll s = Inr s' \<Longrightarrow>
     mCurrFrameResourceIndex s' = mCurrFrameResourceIndex s \<and>
     length (mFrameResources s') = length (mFrameResources s)"
proof -
  assume "Update_CBs n scroll s = Inr s'"
  then obtain a b where "AnimateMaterials n scroll s = Inr a" "UpdateObjectCBs a = Inr b"
    "UpdateMaterialCBs b = Inr s'" by (auto simp: Update_CBs_Inr)
  then show ?thesis
    using UpdateObjectCBs_Inr [of a b] UpdateMaterialCBs_Inr [of b s']
    by (auto simp: AnimateMaterials_Inr)
qed

lemma TexWaves_Frame_selected:
  fixes s :: "'a TexWaves"
  assumes o: "objects_fit n s" and m: "materials_fit s"
  obtains (blocked) "Update_wait n gpu s = None" "Frame (Update n gpu scroll) Draw s = None"
  | (ran) s1 s' where "Update_wait n gpu s = Some (Inr s1)"
      "Frame (Update n gpu scroll) Draw s = Some (Inr s')"
proof -
  from o have n: "0 < n" "length (mFrameResources s) = n" by (simp_all add: objects_fit_def)
  from n show thesis
  proof (cases rule: Update_wait_cases [where gpu = gpu])
    case blocked
    then have "Frame (Update n gpu scroll) Draw s = None" by (simp add: Frame_def Update_def)
    with blocked show ?thesis by (rule that(1))
  next
    case (selected t)
    let ?s1 = "s\<lparr>mCurrFrameResourceIndex := (mCurrFrameResourceIndex s + 1) mod n, clock := t\<rparr>"
    have "objects_fit n ?s1" "materials_fit ?s1" "mCurrFrameResourceIndex ?s1 < n"
      using o m n by (simp_all add: objects_fit_def materials_fit_def)
    from Update_CBs_total [OF this] obtain c where c: "Update_CBs n scroll ?s1 = Inr c" ..
    from Update_CBs_index [OF c] n have "mCurrFrameResourceIndex c < length (mFrameResources c)"
      by simp
    then obtain s' where "Draw c = Inr s'" by (simp add: Draw_def Let_def)
    with selected c have "Frame (Update n gpu scroll) Draw s = Some (Inr s')"
      by (simp add: Frame_def Update_def)
    with selected show ?thesis by (rule that(2))
  qed
qed

lemma set_list_update_cases: "x \<in> set (xs[i := y]) \<Longrightarrow> x = y \<or> x \<in> set xs"
  using set_update_subset_insert [of xs i y] by auto

lemma TexWaves_Frame_fit:
  fixes s s' :: "'a TexWaves"
  assumes o: "objects_fit n s" and m: "materials_fit s"
    and f: "Frame (Update n gpu scroll) Draw s = Some (Inr s')"
  shows "objects_fit n s'" and "materials_fit s'"
proof -
  let ?i = "(mCurrFrameResourceIndex s + 1) mod n"
  from f obtain w cbO cbM where
    r: "?i < length (mFrameResources s)"
    and w: "map_of (mMaterials s) ''water'' = Some w"
    and lo: "UpdateObjectCBs_loop objConstants (ObjectCB (mFrameResources s ! ?i)) (mAllRitems s)
       = Inr (cbO, map tick (mAllRitems s))"
    and lm: "UpdateMaterialCBs_loop (MaterialCB (mFrameResources s ! ?i))
       (AList.update ''water''
          (w\<lparr>MatTransform := scroll (MatTransform w), MatNumFramesDirty := int n\<rparr>) (mMaterials s))
       = Inr (cbM, map (apsnd mat_tick)
           (AList.update ''water''
              (w\<lparr>MatTransform := scroll (MatTransform w), MatNumFramesDirty := int n\<rparr>) (mMaterials s)))"
    and frs: "mFrameResources s' = (mFrameResources s)
       [?i := (mFrameResources s ! ?i)\<lparr>ObjectCB := cbO, MaterialCB := cbM, Fence := mCurrentFence s + 1\<rparr>]"
    and items: "mAllRitems s' = map tick (mAllRitems s)"
    and mats: "mMaterials s' = map (apsnd mat_tick)
       (AList.update ''water''
          (w\<lparr>MatTransform := scroll (MatTransform w), MatNumFramesDirty := int n\<rparr>) (mMaterials s))"
    by (rule TexWaves_Frame)
  let ?fr = "(mFrameResources s ! ?i)\<lparr>ObjectCB := cbO, MaterialCB := cbM, Fence := mCurrentFence s + 1\<rparr>"
  from r have mem: "mFrameResources s ! ?i \<in> set (mFrameResources s)" by simp
  have capO: "capacity (ObjectCB ?fr) = capacity (ObjectCB (mFrameResources s ! ?i))"
    using UpdateObjectCBs_loop_Inr [OF lo] by simp
  have capM: "capacity (MaterialCB ?fr) = capacity (MaterialCB (mFrameResources s ! ?i))"
    using UpdateMaterialCBs_loop_Inr [OF lm] by simp
  have frame_cases: "\<exists>fr0\<in>set (mFrameResources s).
      capacity (ObjectCB fr) = capacity (ObjectCB fr0) \<and> capacity (MaterialCB fr) = capacity (MaterialCB fr0)"
    if "fr \<in> set (mFrameResources s')" for fr
  proof -
    from that frs have "fr = ?fr \<or> fr \<in> set (mFrameResources s)"
      by (auto dest: set_list_update_cases)
    then show ?thesis using capO capM mem by auto
  qed
  show "objects_fit n s'"
    unfolding objects_fit_def
  proof (intro conjI ballI)
    from o show "0 < n" by (simp add: objects_fit_def)
    from o frs show "length (mFrameResources s') = n" by (simp add: objects_fit_def)
    fix fr e assume "fr \<in> set (mFrameResources s')" "e \<in> set (mAllRitems s')"
    with frame_cases [of fr] items o show "ObjCBIndex e < capacity (ObjectCB fr)"
      by (auto simp: objects_fit_def)
  qed
  have w_mem: "(''water'', w) \<in> set (mMaterials s)" using w by (rule map_of_SomeD)
  show "materials_fit s'"
    unfolding materials_fit_def
  proof (intro conjI ballI)
    show "map_of (mMaterials s') ''water'' \<noteq> None"
      by (simp add: mats map_of_apsnd update_conv')
    fix fr x assume fr: "fr \<in> set (mFrameResources s')" and x: "x \<in> set (mMaterials s')"
    from x mats obtain y where y: "y \<in> set (AList.update ''water''
          (w\<lparr>MatTransform := scroll (MatTransform w), MatNumFramesDirty := int n\<rparr>) (mMaterials s))"
      and xy: "MatCBIndex (snd x) = MatCBIndex (snd y)" by auto
    have "\<exists>z\<in>set (mMaterials s). MatCBIndex (snd y) = MatCBIndex (snd z)"
    proof (cases "y \<in> set (mMaterials s)")
      case True
      then show ?thesis by blast
    next
      case False
      with set_AList_update [OF y] have "MatCBIndex (snd y) = MatCBIndex (snd (''water'', w))"
        by simp
      with w_mem show ?thesis by blast
    qed
    then obtain z where
      "z \<in> set (mMaterials s)" "MatCBIndex (snd y) = MatCBIndex (snd z)" by blast
    with frame_cases [OF fr] xy m show "MatCBIndex (snd x) < capacity (MaterialCB fr)"
      by (auto simp: materials_fit_def)
  qed
qed

lemma TexWaves_Run_no_error:
  fixes s :: "'a TexWaves"
  assumes "objects_fit n s" "materials_fit s"
  shows "Run (Update n gpu scroll) Draw k s \<noteq> Some (Inl err)"
  using assms
proof (induction k arbitrary: s)
  case 0
  then show ?case by simp
next
  case (Suc k)
  from Suc.prems show ?case
  proof (cases rule: TexWaves_Frame_selected [where gpu = gpu and scroll = scroll])
    case blocked
    then show ?thesis by simp
  next
    case (ran s1 s')
    from TexWaves_Frame_fit [OF Suc.prems ran(2)] have "objects_fit n s'" "materials_fit s'" .
    from Suc.IH [OF this] ran(2) show ?thesis by simp
  qed
qed

lemma TexWaves_Run_fit:
  fixes s s' :: "'a TexWaves"
  assumes "objects_fit n s" "materials_fit s" "Run (Update n gpu scroll) Draw k s = Some (Inr s')"
  shows "objects_fit n s' \<and> materials_fit s'"
  using assms
proof (induction k arbitrary: s)
  case 0
  then show ?case by simp
next
  case (Suc k)
  from Suc.prems(3) obtain s1 where f: "Frame (Update n gpu scroll) Draw s = Some (Inr s1)"
    and r: "Run (Update n gpu scroll) Draw k s1 = Some (Inr s')"
    by (auto split: option.splits sum.splits)
  from TexWaves_Frame_fit [OF Suc.prems(1,2) f] have "objects_fit n s1" "materials_fit s1" .
  from Suc.IH [OF this r] show ?case .
qed

subsection \<open>The state that initialisation builds\<close>

lemma BuildRenderItems_from_indices:
  "map ObjCBIndex (BuildRenderItems_from n c blocks) = [c..<c + length blocks]"
proof (induction blocks arbitrary: c)
  case Nil
  then show ?case by simp
next
  case (Cons b blocks)
  obtain w t m where b: "b = (w, t, m)" by (cases b)
  have "[c..<c + length (b # blocks)] = c # [c + 1..<(c + 1) + length blocks]"
    using upt_conv_Cons [of c "c + Suc (length blocks)"] by (simp del: upt_Suc)
  with Cons.IH [of "c + 1"] show ?case by (simp add: b del: upt_Suc)
qed

lemma BuildRenderItems_from_dirty:
  "e \<in> set (BuildRenderItems_from n c blocks) \<Longrightarrow> NumFramesDirty e = int n"
proof (induction blocks arbitrary: c)
  case Nil
  then show ?case by simp
next
  case (Cons b blocks)
  obtain w t m where b: "b = (w, t, m)" by (cases b)
  from Cons.prems Cons.IH show ?case by (auto simp: b)
qed

lemma BuildRenderItems_length [simp]: "length (BuildRenderItems n blocks) = length blocks"
  using arg_cong [OF BuildRenderItems_from_indices [of n 0 blocks], of length]
  by (simp add: BuildRenderItems_def)

lemma BuildRenderItems_index:
  "e \<in> set (BuildRenderItems n blocks) \<Longrightarrow> ObjCBIndex e < length blocks"
proof -
  assume "e \<in> set (BuildRenderItems n blocks)"
  then have "ObjCBIndex e \<in> set (map ObjCBIndex (BuildRenderItems_from n 0 blocks))"
    by (simp add: BuildRenderItems_def)
  then show ?thesis by (simp add: BuildRenderItems_from_indices)
qed

lemma BuildRenderItems_distinct: "distinct (map ObjCBIndex (BuildRenderItems n blocks))"
  by (simp add: BuildRenderItems_def BuildRenderItems_from_indices)

lemma ShapesApp_BuildRenderItems_from_indices:
  "map ObjCBIndex (ShapesApp_BuildRenderItems_from n c blocks) = [c..<c + length blocks]"
proof (induction blocks arbitrary: c)
  case Nil
  then show ?case by simp
next
  case (Cons b blocks)
  have "[c..<c + length (b # blocks)] = c # [c + 1..<(c + 1) + length blocks]"
    using upt_conv_Cons [of c "c + Suc (length blocks)"] by (simp del: upt_Suc)
  with Cons.IH [of "c + 1"] show ?case by (simp del: upt_Suc)
qed

lemma ShapesApp_BuildRenderItems_from_dirty:
  "e \<in> set (ShapesApp_BuildRenderItems_from n c blocks) \<Longrightarrow> NumFramesDirty e = int n"
  by (induction blocks arbitrary: c) auto

lemma ShapesApp_BuildRenderItems_length [simp]:
  "length (ShapesApp_BuildRenderItems n blocks) = length blocks"
  using arg_cong [OF ShapesApp_BuildRenderItems_from_indices [of n 0 blocks], of length]
  by (simp add: ShapesApp_BuildRenderItems_def)

lemma ShapesApp_BuildRenderItems_index:
  "e \<in> set (ShapesApp_BuildRenderItems n blocks) \<Longrightarrow> ObjCBIndex e < length blocks"
proof -
  assume "e \<in> set (ShapesApp_BuildRenderItems n blocks)"
  then have "ObjCBIndex e \<in> set (map ObjCBIndex (ShapesApp_BuildRenderItems_from n 0 blocks))"
    by (simp add: ShapesApp_BuildRenderItems_def)
  then show ?thesis by (simp add: ShapesApp_BuildRenderItems_from_indices)
qed

lemma ShapesApp_BuildRenderItems_distinct:
  "distinct (map ObjCBIndex (ShapesApp_BuildRenderItems n blocks))"
  by (simp add: ShapesApp_BuildRenderItems_def ShapesApp_BuildRenderItems_from_indices)

lemma BuildMaterials_eq:
  "BuildMaterials n ident lit =
     [(''grass'', new_Material n ident 0 (lit ''grass'')),
      (''water'', new_Material n ident 1 (lit ''water'')),
      (''wirefence'', new_Material n ident 2 (lit ''wirefence'')),
      (''stone'', new_Material n ident 3 (lit ''stone''))]"
  by (simp add: BuildMaterials_def)

lemma CalcConstantBufferByteSize_pos: "0 < sz \<Longrightarrow> 0 < CalcConstantBufferByteSize sz"
  by (simp add: CalcConstantBufferByteSize_def div_greater_zero_iff)

lemma Initialize_fit:
  assumes "0 < n"
  shows "objects_fit n (Initialize n objBase matBase szObj szMat ident lit blocks)"
    and "materials_fit (Initialize n objBase matBase szObj szMat ident lit blocks)"
    and "fences_bounded (Initialize n objBase matBase szObj szMat ident lit blocks)"
    and "items_in_range n (Initialize n objBase matBase szObj szMat ident lit blocks)"
    and "materials_in_range n (Initialize n objBase matBase szObj szMat ident lit blocks)"
    and "mCurrFrameResourceIndex (Initialize n objBase matBase szObj szMat ident lit blocks) = 0"
proof -
  show "objects_fit n (Initialize n objBase matBase szObj szMat ident lit blocks)"
    using assms
    by (auto simp: objects_fit_def Initialize_def Let_def BuildFrameResources_def
        FrameResource_new_def UploadBuffer_new_def dest: BuildRenderItems_index)
  show "materials_fit (Initialize n objBase matBase szObj szMat ident lit blocks)"
    by (auto simp: materials_fit_def Initialize_def Let_def BuildFrameResources_def
        FrameResource_new_def UploadBuffer_new_def BuildMaterials_eq new_Material_def)
  show "fences_bounded (Initialize n objBase matBase szObj szMat ident lit blocks)"
    by (auto simp: fences_bounded_def Initialize_def Let_def BuildFrameResources_def
        FrameResource_new_def)
  show "items_in_range n (Initialize n objBase matBase szObj szMat ident lit blocks)"
    by (auto simp: items_in_range_def Initialize_def Let_def BuildRenderItems_def
        dest: BuildRenderItems_from_dirty)
  show "materials_in_range n (Initialize n objBase matBase szObj szMat ident lit blocks)"
    by (auto simp: materials_in_range_def Initialize_def Let_def BuildMaterials_eq new_Material_def)
  show "mCurrFrameResourceIndex (Initialize n objBase matBase szObj szMat ident lit blocks) = 0"
    by (simp add: Initialize_def Let_def)
qed

lemma Initialize_ready:
  assumes "0 < n" "0 < szObj"
  shows "ring_ready n (Initialize n objBase matBase szObj szMat ident lit blocks)"
  using assms
  by (auto simp: ring_ready_def Initialize_def Let_def BuildFrameResources_def
      FrameResource_new_def UploadBuffer_new_def BuildRenderItems_distinct
      CalcConstantBufferByteSize_pos)

lemma ShapesApp_UpdateObjectCBs_total:
  fixes s :: "'a Shapes"
  assumes o: "objects_fit n s" and i: "mCurrFrameResourceIndex s < n"
  shows "\<exists>s'. ShapesApp_UpdateObjectCBs s = Inr s' \<and>
           mCurrFrameResourceIndex s' = mCurrFrameResourceIndex s \<and>
           length (mFrameResources s') = length (mFrameResources s)"
proof -
  let ?i = "mCurrFrameResourceIndex s"
  from o i have len: "?i < length (mFrameResources s)" by (simp add: objects_fit_def)
  then have fr: "mFrameResources s ! ?i \<in> set (mFrameResources s)" by simp
  from o fr have "\<forall>e\<in>set (mAllRitems s). NumFramesDirty e > 0 \<longrightarrow>
      ObjCBIndex e < capacity (ObjectCB (mFrameResources s ! ?i))"
    by (simp add: objects_fit_def)
  from UpdateObjectCBs_loop_total [OF this] obtain cb where
    "UpdateObjectCBs_loop ShapesApp_objConstants (ObjectCB (mFrameResources s ! ?i)) (mAllRitems s)
           = Inr (cb, map tick (mAllRitems s))" ..
  with len show ?thesis by (simp add: ShapesApp_UpdateObjectCBs_def Let_def)
qed

lemma ShapesApp_Frame_selected:
  fixes s :: "'a Shapes"
  assumes o: "objects_fit n s"
  obtains (blocked) "Update_wait n gpu s = None" "Frame (ShapesApp_Update n gpu) Draw s = None"
  | (ran) s1 s' where "Update_wait n gpu s = Some (Inr s1)"
      "Frame (ShapesApp_Update n gpu) Draw s = Some (Inr s')"
proof -
  from o have n: "0 < n" "length (mFrameResources s) = n" by (simp_all add: objects_fit_def)
  from n show thesis
  proof (cases rule: Update_wait_cases [where gpu = gpu])
    case blocked
    then have "Frame (ShapesApp_Update n gpu) Draw s = None"
      by (simp add: Frame_def ShapesApp_Update_def)
    with blocked show ?thesis by (rule that(1))
  next
    case (selected t)
    let ?s1 = "s\<lparr>mCurrFrameResourceIndex := (mCurrFrameResourceIndex s + 1) mod n, clock := t\<rparr>"
    have "objects_fit n ?s1" "mCurrFrameResourceIndex ?s1 < n"
      using o n by (simp_all add: objects_fit_def)
    from ShapesApp_UpdateObjectCBs_total [OF this] n obtain c where
      c: "ShapesApp_UpdateObjectCBs ?s1 = Inr c"
      and "mCurrFrameResourceIndex c < length (mFrameResources c)" by auto
    then obtain s' where "Draw c = Inr s'" by (simp add: Draw_def Let_def)
    with selected c have "Frame (ShapesApp_Update n gpu) Draw s = Some (Inr s')"
      by (simp add: Frame_def ShapesApp_Update_def)
    with selected show ?thesis by (rule that(2))
  qed
qed

lemma ShapesApp_Frame_fit:
  fixes s s' :: "'a Shapes"
  assumes o: "objects_fit n s"
    and f: "Frame (ShapesApp_Update n gpu) Draw s = Some (Inr s')"
  shows "objects_fit n s'"
proof -
  let ?i = "(mCurrFrameResourceIndex s + 1) mod n"
  from f obtain cbO where
    r: "?i < length (mFrameResources s)"
    and lo: "UpdateObjectCBs_loop ShapesApp_objConstants (ObjectCB (mFrameResources s ! ?i)) (mAllRitems s)
       = Inr (cbO, map tick (mAllRitems s))"
    and frs: "mFrameResources s' = (mFrameResources s)
       [?i := (mFrameResources s ! ?i)\<lparr>ObjectCB := cbO, Fence := mCurrentFence s + 1\<rparr>]"
    and items: "mAllRitems s' = map tick (mAllRitems s)"
    by (rule ShapesApp_Frame)
  let ?fr = "(mFrameResources s ! ?i)\<lparr>ObjectCB := cbO, Fence := mCurrentFence s + 1\<rparr>"
  from r have mem: "mFrameResources s ! ?i \<in> set (mFrameResources s)" by simp
  have capO: "capacity (ObjectCB ?fr) = capacity (ObjectCB (mFrameResources s ! ?i))"
    using UpdateObjectCBs_loop_Inr [OF lo] by simp
  have frame_cases: "\<exists>fr0\<in>set (mFrameResources s). capacity (ObjectCB fr) = capacity (ObjectCB fr0)"
    if "fr \<in> set (mFrameResources s')" for fr
  proof -
    from that frs have "fr = ?fr \<or> fr \<in> set (mFrameResources s)"
      by (auto dest: set_list_update_cases)
    then show ?thesis using capO mem by auto
  qed
  show "objects_fit n s'"
    unfolding objects_fit_def
  proof (intro conjI ballI)
    from o show "0 < n" by (simp add: objects_fit_def)
    from o frs show "length (mFrameResources s') = n" by (simp add: objects_fit_def)
    fix fr e assume "fr \<in> set (mFrameResources s')" "e \<in> set (mAllRitems s')"
    with frame_cases [of fr] items o show "ObjCBIndex e < capacity (ObjectCB fr)"
      by (auto simp: objects_fit_def)
  qed
qed

lemma ShapesApp_Run_no_error:
  fixes s :: "'a Shapes"
  assumes "objects_fit n s"
  shows "Run (ShapesApp_Update n gpu) Draw k s \<noteq> Some (Inl err)"
  using assms
proof (induction k arbitrary: s)
  case 0
  then show ?case by simp
next
  case (Suc k)
  from Suc.prems show ?case
  proof (cases rule: ShapesApp_Frame_selected [where gpu = gpu])
    case blocked
    then show ?thesis by simp
  next
    case (ran s1 s')
    from ShapesApp_Frame_fit [OF Suc.prems ran(2)] have "objects_fit n s'" .
    from Suc.IH [OF this] ran(2) show ?thesis by simp
  qed
qed

subsection \<open>The frame loop runs when the GPU keeps up\<close>

lemma fences_bounded_step:
  assumes "fences_bounded s" "i < length (mFrameResources s)"
    and "mFrameResources s' = (mFrameResources s)[i := fr']" "Fence fr' = mCurrentFence s + 1"
    and "mCurrentFence s' = mCurrentFence s + 1"
  shows "fences_bounded s'"
  unfolding fences_bounded_def
proof
  fix fr assume "fr \<in> set (mFrameResources s')"
  with assms(3) have "fr = fr' \<or> fr \<in> set (mFrameResources s)"
    by (auto dest: set_list_update_cases)
  with assms(1,4,5) show "Fence fr \<le> mCurrentFence s'"
    by (auto simp: fences_bounded_def)
qed

lemma Update_wait_live:
  assumes "0 < n" "length (mFrameResources s) = n" "fences_bounded s"
    and "mCurrentFence s \<le> gpu (clock s + j)"
  shows "\<exists>s1. Update_wait n gpu s = Some (Inr s1)"
proof -
  let ?i = "(mCurrFrameResourceIndex s + 1) mod n"
  from assms(1,2) have r: "?i < length (mFrameResources s)" by simp
  then have "mFrameResources s ! ?i \<in> set (mFrameResources s)" by simp
  with assms(3) have "Fence (mFrameResources s ! ?i) \<le> mCurrentFence s"
    by (simp add: fences_bounded_def)
  with assms(4) have "Fence (mFrameResources s ! ?i) \<le> gpu (clock s + j)" by simp
  with r show ?thesis by (rule Update_wait_returns [of s n gpu j])
qed

lemma TexWaves_Run_live:
  fixes s :: "'a TexWaves"
  assumes "objects_fit n s" "materials_fit s" "fences_bounded s"
    and "\<forall>t. \<exists>j. mCurrentFence s + k \<le> gpu (t + j)"
  shows "\<exists>s'. Run (Update n gpu scroll) Draw k s = Some (Inr s')"
  using assms
proof (induction k arbitrary: s)
  case 0
  then show ?case by simp
next
  case (Suc k)
  from Suc.prems(1) have n: "0 < n" "length (mFrameResources s) = n" by (simp_all add: objects_fit_def)
  from Suc.prems(4) obtain j where "mCurrentFence s + Suc k \<le> gpu (clock s + j)" by blast
  then have "mCurrentFence s \<le> gpu (clock s + j)" by simp
  from Update_wait_live [of n s gpu j, OF n Suc.prems(3) this] obtain s0 where
    w: "Update_wait n gpu s = Some (Inr s0)" ..
  from Suc.prems(1,2) show ?case
  proof (cases rule: TexWaves_Frame_selected [where gpu = gpu and scroll = scroll])
    case blocked
    with w show ?thesis by simp
  next
    case (ran s1 s')
    from TexWaves_Frame_fit [OF Suc.prems(1,2) ran(2)] have fit: "objects_fit n s'" "materials_fit s'" .
    from ran(2) obtain cbO cbM where
      r: "(mCurrFrameResourceIndex s + 1) mod n < length (mFrameResources s)"
      and frs: "mFrameResources s' = (mFrameResources s)
       [(mCurrFrameResourceIndex s + 1) mod n :=
          (mFrameResources s ! ((mCurrFrameResourceIndex s + 1) mod n))
            \<lparr>ObjectCB := cbO, MaterialCB := cbM, Fence := mCurrentFence s + 1\<rparr>]"
      and cf: "mCurrentFence s' = mCurrentFence s + 1"
      by (rule TexWaves_Frame)
    have fb: "fences_bounded s'"
      by (rule fences_bounded_step [OF Suc.prems(3) r frs _ cf]) simp
    have "\<forall>t. \<exists>j. mCurrentFence s' + k \<le> gpu (t + j)" using Suc.prems(4) cf by simp
    from Suc.IH [OF fit fb this] ran(2) show ?thesis by simp
  qed
qed

lemma ShapesApp_Run_live:
  fixes s :: "'a Shapes"
  assumes "objects_fit n s" "fences_bounded s"
    and "\<forall>t. \<exists>j. mCurrentFence s + k \<le> gpu (t + j)"
  shows "\<exists>s'. Run (ShapesApp_Update n gpu) Draw k s = Some (Inr s')"
  using assms
proof (induction k arbitrary: s)
  case 0
  then show ?case by simp
next
  case (Suc k)
  from Suc.prems(1) have n: "0 < n" "length (mFrameResources s) = n" by (simp_all add: objects_fit_def)
  from Suc.prems(3) obtain j where "mCurrentFence s + Suc k \<le> gpu (clock s + j)" by blast
  then have "mCurrentFence s \<le> gpu (clock s + j)" by simp
  from Update_wait_live [of n s gpu j, OF n Suc.prems(2) this] obtain s0 where
    w: "Update_wait n gpu s = Some (Inr s0)" ..
  from Suc.prems(1) show ?case
  proof (cases rule: ShapesApp_Frame_selected [where gpu = gpu])
    case blocked
    with w show ?thesis by simp
  next
    case (ran s1 s')
    from ShapesApp_Frame_fit [OF Suc.prems(1) ran(2)] have fit: "objects_fit n s'" .
    from ran(2) obtain cbO where
      r: "(mCurrFrameResourceIndex s + 1) mod n < length (mFrameResources s)"
      and frs: "mFrameResources s' = (mFrameResources s)
       [(mCurrFrameResourceIndex s + 1) mod n :=
          (mFrameResources s ! ((mCurrFrameResourceIndex s + 1) mod n))
            \<lparr>ObjectCB := cbO, Fence := mCurrentFence s + 1\<rparr>]"
      and cf: "mCurrentFence s' = mCurrentFence s + 1"
      by (rule ShapesApp_Frame)
    have fb: "fences_bounded s'"
      by (rule fences_bounded_step [OF Suc.prems(2) r frs _ cf]) simp
    have "\<forall>t. \<exists>j. mCurrentFence s' + k \<le> gpu (t + j)" using Suc.prems(3) cf by simp
    from Suc.IH [OF fit fb this] ran(2) show ?thesis by simp
  qed
qed

lemma ShapesApp_Initialize_Inr:
  obtains s :: "'a Shapes" where
    "ShapesApp_Initialize n objBase szObj blocks = Inr s"
    "mAllRitems s = ShapesApp_BuildRenderItems n blocks"
    "mFrameResources s = ShapesApp_BuildFrameResources n objBase szObj (ShapesApp_BuildRenderItems n blocks)"
    "mCurrFrameResourceIndex s = 0" "mCurrentFence s = 0" "clock s = 0"
    "mCbvHeap s =
       BuildConstantBufferViews_frames (CalcConstantBufferByteSize szObj) (length blocks)
         (ShapesApp_BuildFrameResources n objBase szObj (ShapesApp_BuildRenderItems n blocks))
         [0..<n] (replicate (((length blocks + 1) * n) mod 2 ^ 32) None)"
  by (simp add: ShapesApp_Initialize_def BuildConstantBufferViews_def BuildDescriptorHeaps_def
      Let_def ShapesApp_BuildFrameResources_def)

lemma ShapesApp_Initialize_fit:
  fixes s :: "'a Shapes"
  assumes "ShapesApp_Initialize n objBase szObj blocks = Inr s" "0 < n"
  shows "objects_fit n s" and "fences_bounded s" and "items_in_range n s"
    and "mCurrFrameResourceIndex s = 0"
    and "0 < szObj \<Longrightarrow> ring_ready n s"
    and "\<forall>e\<in>set (mAllRitems s). NumFramesDirty e = int n"
proof -
  obtain s0 :: "'a Shapes" where i: "ShapesApp_Initialize n objBase szObj blocks = Inr s0"
    and items: "mAllRitems s0 = ShapesApp_BuildRenderItems n blocks"
    and frs: "mFrameResources s0 = ShapesApp_BuildFrameResources n objBase szObj (ShapesApp_BuildRenderItems n blocks)"
    and z: "mCurrFrameResourceIndex s0 = 0" "mCurrentFence s0 = 0"
    by (rule ShapesApp_Initialize_Inr)
  from i assms(1) have s: "s = s0" by simp
  show "objects_fit n s"
    using assms(2)
    by (auto simp: s objects_fit_def items frs ShapesApp_BuildFrameResources_def
        ShapesFrameResource_new_def UploadBuffer_new_def dest: ShapesApp_BuildRenderItems_index)
  show "fences_bounded s"
    by (auto simp: s fences_bounded_def frs ShapesApp_BuildFrameResources_def
        ShapesFrameResource_new_def)
  show d: "\<forall>e\<in>set (mAllRitems s). NumFramesDirty e = int n"
    by (auto simp: s items ShapesApp_BuildRenderItems_def dest: ShapesApp_BuildRenderItems_from_dirty)
  then show "items_in_range n s" by (simp add: items_in_range_def)
  show "mCurrFrameResourceIndex s = 0" by (simp add: s z)
  show "ring_ready n s" if "0 < szObj"
    using assms(2) that
    by (auto simp: s ring_ready_def items frs ShapesApp_BuildFrameResources_def
        ShapesFrameResource_new_def UploadBuffer_new_def ShapesApp_BuildRenderItems_distinct
        CalcConstantBufferByteSize_pos)
qed

lemma steady_gpu_live: "\<forall>t. \<exists>j. c \<le> steady_gpu (t + j)"
  by (auto simp: steady_gpu_def intro: exI [of _ c])

lemma castle_runs: "\<exists>s'. Run (Update 3 steady_gpu id) Draw k castle = Some (Inr s')"
  unfolding castle_def
  by (rule TexWaves_Run_live [OF Initialize_fit(1,2,3) steady_gpu_live]) simp_all

subsection \<open>Writes stay inside the upload regions\<close>

text \<open>
  C7. The write operation of the upload region, as the spec describes it, stores the
  record at byte offset \<open>index * alignedRecordSize\<close>, leaves every other offset alone,
  and signals \<open>OutOfRange\<close> exactly when the index is not below the capacity. In the state
  that initialisation builds, for any ring size \<open>n \<ge> 1\<close>, any scene and any GPU timeline,
  no number of frames ends in an error: every frame resource's regions are sized to the
  tables, every index is below that size, and the frame loop keeps it so.
\<close>

theorem CopyData_fails_only_out_of_range:
  fixes b :: "'c UploadBuffer" and s' :: "'a TexWaves" and sh sh' :: "'b Shapes"
  shows "(capacity b \<le> i \<longrightarrow> CopyData i d b = Inl OutOfRange)
       \<and> (i < capacity b \<longrightarrow>
            (\<exists>b'. CopyData i d b = Inr b' \<and>
                   mapped b' (i * alignedRecordSize b) = Some d \<and>
                   (\<forall>off. off \<noteq> i * alignedRecordSize b \<longrightarrow> mapped b' off = mapped b off)))
       \<and> (0 < n \<longrightarrow>
            Run (Update n gpu scroll) Draw k
              (Initialize n objBase matBase szObj szMat ident lit blocks) \<noteq> Some (Inl err) \<and>
            (Run (Update n gpu scroll) Draw k
               (Initialize n objBase matBase szObj szMat ident lit blocks) = Some (Inr s')
             \<longrightarrow> objects_fit n s' \<and> materials_fit s'))
       \<and> (0 < n \<and> ShapesApp_Initialize n shBase shSz worlds = Inr sh \<longrightarrow>
            Run (ShapesApp_Update n gpu) Draw k sh \<noteq> Some (Inl err))"
proof (intro conjI impI)
  show "CopyData i d b = Inl OutOfRange" if "capacity b \<le> i"
    using that by (simp add: CopyData_def)
  show "\<exists>b'. CopyData i d b = Inr b' \<and>
                   mapped b' (i * alignedRecordSize b) = Some d \<and>
                   (\<forall>off. off \<noteq> i * alignedRecordSize b \<longrightarrow> mapped b' off = mapped b off)"
    if "i < capacity b"
    using that by (simp add: CopyData_def)
next
  let ?s0 = "Initialize n objBase matBase szObj szMat ident lit blocks :: 'a TexWaves"
  assume n: "0 < n"
  note fit = Initialize_fit(1,2) [OF n, of objBase matBase szObj szMat ident lit blocks]
  from fit show "Run (Update n gpu scroll) Draw k ?s0 \<noteq> Some (Inl err)"
    by (rule TexWaves_Run_no_error)
  assume "Run (Update n gpu scroll) Draw k ?s0 = Some (Inr s')"
  with fit have "objects_fit n s' \<and> materials_fit s'" by (rule TexWaves_Run_fit)
  then show "objects_fit n s'" "materials_fit s'" by simp_all
next
  assume "0 < n \<and> ShapesApp_Initialize n shBase shSz worlds = Inr sh"
  then have "objects_fit n sh" using ShapesApp_Initialize_fit(1) by blast
  then show "Run (ShapesApp_Update n gpu) Draw k sh \<noteq> Some (Inl err)"
    by (rule ShapesApp_Run_no_error)
qed

theorem CopyData_fails_only_out_of_range_witness:
  "CopyData 2 (7::nat) (UploadBuffer_new 0 128 2) = Inl OutOfRange
   \<and> (\<exists>b'. CopyData 1 (7::nat) (UploadBuffer_new 0 128 2) = Inr b' \<and> mapped b' 256 = Some 7)
   \<and> (\<exists>s'. Run (Update 3 steady_gpu id) Draw 5 castle = Some (Inr s') \<and>
            objects_fit 3 s' \<and> materials_fit s')
   \<and> (\<exists>sh sh'. ShapesApp_Initialize 3 (\<lambda>i. 4096 * i) 64 shape_worlds = Inr sh \<and>
            Run (ShapesApp_Update 3 steady_gpu) Draw 5 sh = Some (Inr sh'))"
proof -
  from castle_runs obtain s' where r: "Run (Update 3 steady_gpu id) Draw 5 castle = Some (Inr s')"
    by blast
  obtain sh :: "nat Shapes" where i: "ShapesApp_Initialize 3 (\<lambda>i. 4096 * i) 64 shape_worlds = Inr sh"
    by (rule ShapesApp_Initialize_Inr)
  have "\<exists>sh'. Run (ShapesApp_Update 3 steady_gpu) Draw 5 sh = Some (Inr sh')"
    by (rule ShapesApp_Run_live [OF ShapesApp_Initialize_fit(1,2) [OF i] steady_gpu_live]) simp_all
  then obtain sh' where rs: "Run (ShapesApp_Update 3 steady_gpu) Draw 5 sh = Some (Inr sh')" ..
  have c: "capacity (UploadBuffer_new 0 128 2 :: nat UploadBuffer) = 2"
    "alignedRecordSize (UploadBuffer_new 0 128 2 :: nat UploadBuffer) = 256"
    by (simp_all add: UploadBuffer_new_def CalcConstantBufferByteSize_def)
  from CopyData_fails_only_out_of_range
    [where b = "UploadBuffer_new 0 128 2 :: nat UploadBuffer" and i = 2 and d = 7 and n = 3
       and gpu = steady_gpu and scroll = id and k = 5
       and objBase = "\<lambda>i. 4096 * i" and matBase = "\<lambda>i. 65536 + 4096 * i"
       and szObj = 128 and szMat = 80 and ident = "[[1, 0], [0, 1]]"
       and lit = "\<lambda>name. ([1, 1, 1, 1], [0, 0, 0], 0)"
       and blocks = "[([[1, 2], [3, 4]], [[5, 0], [0, 5]], ''water''),
                      ([[2, 0], [0, 2]], [[1, 0], [0, 1]], ''stone'')]"
       and err = OutOfRange and s' = s' and shBase = "\<lambda>i. 4096 * i" and shSz = 64
       and worlds = shape_worlds and sh = sh]
  have 1: "CopyData 2 (7::nat) (UploadBuffer_new 0 128 2) = Inl OutOfRange"
    and 3: "objects_fit 3 s' \<and> materials_fit s'"
    using r c by (simp_all add: castle_def)
  from CopyData_fails_only_out_of_range
    [where b = "UploadBuffer_new 0 128 2 :: nat UploadBuffer" and i = 1 and d = 7 and n = 3
       and gpu = steady_gpu and scroll = id and k = 5
       and objBase = "\<lambda>i. 4096 * i" and matBase = "\<lambda>i. 65536 + 4096 * i"
       and szObj = 128 and szMat = 80 and ident = "[[1, 0], [0, 1]]"
       and lit = "\<lambda>name. ([1, 1, 1, 1], [0, 0, 0], 0)"
       and blocks = "[([[1, 2], [3, 4]], [[5, 0], [0, 5]], ''water''),
                      ([[2, 0], [0, 2]], [[1, 0], [0, 1]], ''stone'')]"
       and err = OutOfRange and s' = s' and shBase = "\<lambda>i. 4096 * i" and shSz = 64
       and worlds = shape_worlds and sh = sh]
  have 2: "\<exists>b'. CopyData 1 (7::nat) (UploadBuffer_new 0 128 2) = Inr b' \<and> mapped b' 256 = Some 7"
    using c by auto
  from 1 2 3 r i rs show ?thesis by blast
qed

subsection \<open>Propagation of a material to every frame resource\<close>

lemma UpdateMaterialCBs_loop_mapped_other:
  "UpdateMaterialCBs_loop cb ms = Inr (cb', ms') \<Longrightarrow>
   (\<forall>e\<in>set ms. MatNumFramesDirty (snd e) > 0 \<longrightarrow> MatCBIndex (snd e) * alignedRecordSize cb \<noteq> off) \<Longrightarrow>
   mapped cb' off = mapped cb off"
proof (induction ms arbitrary: cb cb' ms')
  case Nil
  then show ?case by simp
next
  case (Cons e ms)
  obtain k mat where e: "e = (k, mat)" by (cases e)
  show ?case
  proof (cases "MatNumFramesDirty mat > 0")
    case True
    with Cons.prems(1) e obtain cb1 ms1 where
      c: "CopyData (MatCBIndex mat) (matConstants mat) cb = Inr cb1"
      and l: "UpdateMaterialCBs_loop cb1 ms = Inr (cb', ms1)"
      by (auto split: sum.splits)
    from c have s: "alignedRecordSize cb1 = alignedRecordSize cb"
      and m: "mapped cb1 = (mapped cb)(MatCBIndex mat * alignedRecordSize cb \<mapsto> matConstants mat)"
      by (simp_all add: CopyData_Inr)
    have "mapped cb' off = mapped cb1 off"
      using Cons.IH [OF l] Cons.prems(2) s by simp
    also have "\<dots> = mapped cb off" using m Cons.prems(2) True e by simp
    finally show ?thesis .
  next
    case False
    with Cons.prems(1) e obtain ms1 where
      l: "UpdateMaterialCBs_loop cb ms = Inr (cb', ms1)"
      by (auto split: sum.splits)
    from Cons.IH [OF l] Cons.prems(2) show ?thesis by simp
  qed
qed

lemma UpdateMaterialCBs_loop_mapped_written:
  "UpdateMaterialCBs_loop cb ms = Inr (cb', ms') \<Longrightarrow> distinct (map (MatCBIndex \<circ> snd) ms) \<Longrightarrow>
   0 < alignedRecordSize cb \<Longrightarrow> (k, m) \<in> set ms \<Longrightarrow> MatNumFramesDirty m > 0 \<Longrightarrow>
   mapped cb' (MatCBIndex m * alignedRecordSize cb) = Some (matConstants m)"
proof (induction ms arbitrary: cb cb' ms')
  case Nil
  then show ?case by simp
next
  case (Cons x ms)
  obtain kx mx where x: "x = (kx, mx)" by (cases x)
  show ?case
  proof (cases "x = (k, m)")
    case True
    with Cons.prems obtain cb1 ms1 where
      c: "CopyData (MatCBIndex m) (matConstants m) cb = Inr cb1"
      and l: "UpdateMaterialCBs_loop cb1 ms = Inr (cb', ms1)"
      by (auto split: sum.splits)
    from c have s: "alignedRecordSize cb1 = alignedRecordSize cb"
      and mp: "mapped cb1 = (mapped cb)(MatCBIndex m * alignedRecordSize cb \<mapsto> matConstants m)"
      by (simp_all add: CopyData_Inr)
    have "\<forall>y\<in>set ms. MatNumFramesDirty (snd y) > 0 \<longrightarrow>
            MatCBIndex (snd y) * alignedRecordSize cb1 \<noteq> MatCBIndex m * alignedRecordSize cb"
      using Cons.prems(2,3) True s by (auto simp: image_iff)
    from UpdateMaterialCBs_loop_mapped_other [OF l this] mp show ?thesis by simp
  next
    case False
    with Cons.prems(4) have mem: "(k, m) \<in> set ms" by simp
    from Cons.prems(2) have d: "distinct (map (MatCBIndex \<circ> snd) ms)" by (simp add: comp_def)
    show ?thesis
    proof (cases "MatNumFramesDirty mx > 0")
      case True
      with Cons.prems(1) x obtain cb1 ms1 where
        c: "CopyData (MatCBIndex mx) (matConstants mx) cb = Inr cb1"
        and l: "UpdateMaterialCBs_loop cb1 ms = Inr (cb', ms1)"
        by (auto split: sum.splits)
      from c have s: "alignedRecordSize cb1 = alignedRecordSize cb" by (simp add: CopyData_Inr)
      from Cons.IH [OF l d _ mem Cons.prems(5)] Cons.prems(3) s show ?thesis by simp
    next
      case F: False
      with Cons.prems(1) x obtain ms1 where
        l: "UpdateMaterialCBs_loop cb ms = Inr (cb', ms1)"
        by (auto split: sum.splits)
      from Cons.IH [OF l d Cons.prems(3) mem Cons.prems(5)] show ?thesis .
    qed
  qed
qed

lemma matConstants_mat_tick [simp]: "matConstants (mat_tick m) = matConstants m"
  by (simp add: matConstants_def)

lemma mat_tick_funpow_fields [simp]:
  "MatCBIndex ((mat_tick ^^ k) m) = MatCBIndex m"
  "matConstants ((mat_tick ^^ k) m) = matConstants m"
  by (induction k) simp_all

lemma mat_tick_funpow_dirty:
  "int k \<le> MatNumFramesDirty m \<Longrightarrow> MatNumFramesDirty ((mat_tick ^^ k) m) = MatNumFramesDirty m - int k"
  by (induction k) (simp_all add: mat_tick_def)

lemma AList_update_nth_other:
  "p < length al \<Longrightarrow> fst (al ! p) \<noteq> k \<Longrightarrow> AList.update k v al ! p = al ! p"
proof (induction al arbitrary: p)
  case Nil
  then show ?case by simp
next
  case (Cons a al)
  then show ?case by (cases p) (auto split: if_splits)
qed

lemma AList_update_index_field:
  "map_of al k = Some w \<Longrightarrow> f w' = f w \<Longrightarrow>
     map (f \<circ> snd) (AList.update k w' al) = map (f \<circ> snd) al"
  by (induction al) (auto split: if_splits)

lemma TexWaves_Frame_material_pass:
  fixes s s' :: "'a TexWaves"
  assumes "Frame (Update n gpu scroll) Draw s = Some (Inr s')"
  shows "material_pass n s s'"
  using assms
proof (rule TexWaves_Frame)
  fix w :: "'a Material" and cbO cbM
  let ?i = "(mCurrFrameResourceIndex s + 1) mod n"
  let ?w = "w\<lparr>MatTransform := scroll (MatTransform w), MatNumFramesDirty := int n\<rparr>"
  assume i: "?i < length (mFrameResources s)"
    and w: "map_of (mMaterials s) ''water'' = Some w"
    and l: "UpdateMaterialCBs_loop (MaterialCB (mFrameResources s ! ?i))
       (AList.update ''water'' ?w (mMaterials s))
       = Inr (cbM, map (apsnd mat_tick) (AList.update ''water'' ?w (mMaterials s)))"
    and frs: "mFrameResources s' = (mFrameResources s)
       [?i := (mFrameResources s ! ?i)\<lparr>ObjectCB := cbO, MaterialCB := cbM, Fence := mCurrentFence s + 1\<rparr>]"
    and idx: "mCurrFrameResourceIndex s' = ?i"
    and ms: "mMaterials s' = map (apsnd mat_tick) (AList.update ''water'' ?w (mMaterials s))"
  have cb: "MaterialCB (mFrameResources s' ! ?i) = cbM" using i by (simp add: frs)
  have "\<exists>w w'. map_of (mMaterials s) ''water'' = Some w \<and> MatCBIndex w' = MatCBIndex w \<and>
         mMaterials s' = map (apsnd mat_tick) (AList.update ''water'' w' (mMaterials s)) \<and>
         UpdateMaterialCBs_loop (MaterialCB (mFrameResources s ! ?i))
             (AList.update ''water'' w' (mMaterials s))
           = Inr (MaterialCB (mFrameResources s' ! ?i),
                  map (apsnd mat_tick) (AList.update ''water'' w' (mMaterials s)))"
    unfolding cb using w ms l by (intro exI [of _ w] exI [of _ ?w]) simp
  moreover have "\<forall>j<length (mFrameResources s). j \<noteq> ?i \<longrightarrow>
         MaterialCB (mFrameResources s' ! j) = MaterialCB (mFrameResources s ! j)"
    by (simp add: frs)
  moreover have "length (mFrameResources s') = length (mFrameResources s)" by (simp add: frs)
  ultimately show ?thesis
    unfolding material_pass_def Let_def using i idx by blast
qed

lemma material_passes:
  fixes s s' :: "'a TexWaves"
  assumes n: "0 < n" "length (mFrameResources s) = n"
    and d: "distinct (map (MatCBIndex \<circ> snd) (mMaterials s))"
    and sz: "\<forall>j<n. 0 < alignedRecordSize (MaterialCB (mFrameResources s ! j))"
    and p: "p < length (mMaterials s)" "fst (mMaterials s ! p) \<noteq> ''water''"
      "int k \<le> MatNumFramesDirty (snd (mMaterials s ! p))" "k \<le> n"
    and R: "(material_pass n ^^ k) s s'"
  shows "length (mFrameResources s') = n \<and>
     (0 < k \<longrightarrow> mCurrFrameResourceIndex s' = (mCurrFrameResourceIndex s + k) mod n) \<and>
     map (MatCBIndex \<circ> snd) (mMaterials s') = map (MatCBIndex \<circ> snd) (mMaterials s) \<and>
     mMaterials s' ! p = apsnd (mat_tick ^^ k) (mMaterials s ! p) \<and>
     (\<forall>j<n. alignedRecordSize (MaterialCB (mFrameResources s' ! j))
              = alignedRecordSize (MaterialCB (mFrameResources s ! j))) \<and>
     (\<forall>j<n. j \<in> (\<lambda>i. (mCurrFrameResourceIndex s + i) mod n) ` {1..k} \<longrightarrow>
         mapped (MaterialCB (mFrameResources s' ! j))
           (MatCBIndex (snd (mMaterials s ! p)) * alignedRecordSize (MaterialCB (mFrameResources s ! j)))
           = Some (matConstants (snd (mMaterials s ! p))) \<and>
         count_list (copies (MaterialCB (mFrameResources s' ! j))) (MatCBIndex (snd (mMaterials s ! p)))
           = count_list (copies (MaterialCB (mFrameResources s ! j))) (MatCBIndex (snd (mMaterials s ! p))) + 1) \<and>
     (\<forall>j<n. j \<notin> (\<lambda>i. (mCurrFrameResourceIndex s + i) mod n) ` {1..k} \<longrightarrow>
         MaterialCB (mFrameResources s' ! j) = MaterialCB (mFrameResources s ! j))"
  using p(3,4) R
proof (induction k arbitrary: s')
  case 0
  have "apsnd (\<lambda>a. a) x = x" for x :: "string \<times> 'a Material" by (cases x) simp
  with 0 show ?case using n by simp
next
  case (Suc k)
  let ?a = "mCurrFrameResourceIndex s"
  let ?key = "fst (mMaterials s ! p)"
  let ?m = "snd (mMaterials s ! p)"
  let ?V = "\<lambda>k. (\<lambda>i. (?a + i) mod n) ` {1..k}"
  from Suc.prems(3) obtain s1 where Rk: "(material_pass n ^^ k) s s1"
    and last: "material_pass n s1 s'" by (rule relpowp_Suc_E)
  from Suc.prems have k: "int k \<le> MatNumFramesDirty ?m" "k \<le> n" by simp_all
  note IH = Suc.IH [OF k Rk]
  from IH have len1: "length (mFrameResources s1) = n"
    and idx1: "0 < k \<longrightarrow> mCurrFrameResourceIndex s1 = (?a + k) mod n"
    and ix1: "map (MatCBIndex \<circ> snd) (mMaterials s1) = map (MatCBIndex \<circ> snd) (mMaterials s)"
    and at1: "mMaterials s1 ! p = apsnd (mat_tick ^^ k) (mMaterials s ! p)"
    and sz1: "\<forall>j<n. alignedRecordSize (MaterialCB (mFrameResources s1 ! j))
                = alignedRecordSize (MaterialCB (mFrameResources s ! j))"
    and in1: "\<forall>j<n. j \<in> ?V k \<longrightarrow>
         mapped (MaterialCB (mFrameResources s1 ! j))
           (MatCBIndex ?m * alignedRecordSize (MaterialCB (mFrameResources s ! j)))
           = Some (matConstants ?m) \<and>
         count_list (copies (MaterialCB (mFrameResources s1 ! j))) (MatCBIndex ?m)
           = count_list (copies (MaterialCB (mFrameResources s ! j))) (MatCBIndex ?m) + 1"
    and out1: "\<forall>j<n. j \<notin> ?V k \<longrightarrow>
         MaterialCB (mFrameResources s1 ! j) = MaterialCB (mFrameResources s ! j)"
    by blast+
  define i where "i = (?a + Suc k) mod n"
  have i_lt: "i < n" using n(1) by (simp add: i_def)
  have next_i: "(mCurrFrameResourceIndex s1 + 1) mod n = i"
  proof (cases "k = 0")
    case True
    with Rk have "s1 = s" by simp
    with True show ?thesis by (simp add: i_def)
  next
    case False
    with idx1 have "mCurrFrameResourceIndex s1 = (?a + k) mod n" by simp
    then show ?thesis using ring_next [OF n(1), of ?a k] by (simp add: i_def)
  qed
  from last next_i len1 obtain w w' where
    idx': "mCurrFrameResourceIndex s' = i"
    and len': "length (mFrameResources s') = n"
    and w: "map_of (mMaterials s1) ''water'' = Some w" "MatCBIndex w' = MatCBIndex w"
    and ms': "mMaterials s' = map (apsnd mat_tick) (AList.update ''water'' w' (mMaterials s1))"
    and loop: "UpdateMaterialCBs_loop (MaterialCB (mFrameResources s1 ! i))
                 (AList.update ''water'' w' (mMaterials s1))
                 = Inr (MaterialCB (mFrameResources s' ! i),
                        map (apsnd mat_tick) (AList.update ''water'' w' (mMaterials s1)))"
    and others: "\<forall>j<n. j \<noteq> i \<longrightarrow> MaterialCB (mFrameResources s' ! j) = MaterialCB (mFrameResources s1 ! j)"
    unfolding material_pass_def Let_def by auto
  let ?ms = "AList.update ''water'' w' (mMaterials s1)"
  have fresh: "i \<notin> ?V k" unfolding i_def using Suc.prems(2) by (rule ring_fresh)
  with out1 i_lt have cb1: "MaterialCB (mFrameResources s1 ! i) = MaterialCB (mFrameResources s ! i)"
    by simp
  have V_Suc: "?V (Suc k) = insert i (?V k)"
    by (simp add: i_def atLeastAtMostSuc_conv)
  note L = UpdateMaterialCBs_loop_Inr [OF loop]
  have ixu: "map (MatCBIndex \<circ> snd) ?ms = map (MatCBIndex \<circ> snd) (mMaterials s)"
    using AList_update_index_field [OF w(1), of MatCBIndex w'] w(2) ix1 by simp
  have lens: "length (mMaterials s1) = length (mMaterials s)" "length ?ms = length (mMaterials s)"
    using arg_cong [OF ix1, of length] arg_cong [OF ixu, of length] by simp_all
  have p1: "p < length (mMaterials s1)" using p(1) lens by simp
  have key1: "fst (mMaterials s1 ! p) \<noteq> ''water''" using p(2) by (simp add: at1)
  have atu: "?ms ! p = (?key, (mat_tick ^^ k) ?m)"
    using AList_update_nth_other [OF p1 key1] at1 by (simp add: apsnd_def map_prod_def split_beta)
  define m1 where "m1 = (mat_tick ^^ k) ?m"
  have m1_mem: "(?key, m1) \<in> set ?ms"
    using nth_mem [of p ?ms] p(1) lens atu by (simp add: m1_def)
  have m1_idx: "MatCBIndex m1 = MatCBIndex ?m" by (simp add: m1_def)
  have m1_mk: "matConstants m1 = matConstants ?m" by (simp add: m1_def)
  have m1_dirty: "MatNumFramesDirty m1 > 0"
    using mat_tick_funpow_dirty [OF k(1)] Suc.prems(1) by (simp add: m1_def)
  have d1: "distinct (map (MatCBIndex \<circ> snd) ?ms)" using d by (simp only: ixu)
  have sz_i: "0 < alignedRecordSize (MaterialCB (mFrameResources s1 ! i))"
    using sz sz1 i_lt by simp
  have written: "mapped (MaterialCB (mFrameResources s' ! i))
      (MatCBIndex ?m * alignedRecordSize (MaterialCB (mFrameResources s ! i))) = Some (matConstants ?m)"
    using UpdateMaterialCBs_loop_mapped_written [OF loop d1 sz_i m1_mem m1_dirty]
    by (simp add: m1_idx m1_mk cb1)
  have "count_list (copies (MaterialCB (mFrameResources s' ! i))) (MatCBIndex m1)
      = count_list (map (MatCBIndex \<circ> snd) (filter (\<lambda>e. MatNumFramesDirty (snd e) > 0) ?ms))
          ((MatCBIndex \<circ> snd) (?key, m1))
        + count_list (copies (MaterialCB (mFrameResources s1 ! i))) (MatCBIndex m1)"
    using L by (simp add: count_list_append count_list_rev)
  also have "count_list (map (MatCBIndex \<circ> snd) (filter (\<lambda>e. MatNumFramesDirty (snd e) > 0) ?ms))
          ((MatCBIndex \<circ> snd) (?key, m1)) = 1"
    using d1 m1_mem by (rule count_list_distinct_filter) (simp add: m1_dirty)
  finally have counted: "count_list (copies (MaterialCB (mFrameResources s' ! i))) (MatCBIndex ?m)
      = count_list (copies (MaterialCB (mFrameResources s ! i))) (MatCBIndex ?m) + 1"
    by (simp add: m1_idx cb1)
  have sizes: "\<forall>j<n. alignedRecordSize (MaterialCB (mFrameResources s' ! j))
              = alignedRecordSize (MaterialCB (mFrameResources s ! j))"
  proof (intro allI impI)
    fix j assume j: "j < n"
    show "alignedRecordSize (MaterialCB (mFrameResources s' ! j))
              = alignedRecordSize (MaterialCB (mFrameResources s ! j))"
    proof (cases "j = i")
      case True
      with L cb1 show ?thesis by simp
    next
      case False
      with others sz1 j show ?thesis by simp
    qed
  qed
  have ins: "\<forall>j<n. j \<in> ?V (Suc k) \<longrightarrow>
         mapped (MaterialCB (mFrameResources s' ! j))
           (MatCBIndex ?m * alignedRecordSize (MaterialCB (mFrameResources s ! j)))
           = Some (matConstants ?m) \<and>
         count_list (copies (MaterialCB (mFrameResources s' ! j))) (MatCBIndex ?m)
           = count_list (copies (MaterialCB (mFrameResources s ! j))) (MatCBIndex ?m) + 1"
  proof (intro allI impI)
    fix j assume j: "j < n" and v: "j \<in> ?V (Suc k)"
    show "mapped (MaterialCB (mFrameResources s' ! j))
           (MatCBIndex ?m * alignedRecordSize (MaterialCB (mFrameResources s ! j)))
           = Some (matConstants ?m) \<and>
         count_list (copies (MaterialCB (mFrameResources s' ! j))) (MatCBIndex ?m)
           = count_list (copies (MaterialCB (mFrameResources s ! j))) (MatCBIndex ?m) + 1"
    proof (cases "j = i")
      case True
      with written counted show ?thesis by simp
    next
      case False
      with v V_Suc have "j \<in> ?V k" by simp
      with in1 j others False show ?thesis by simp
    qed
  qed
  have outs: "\<forall>j<n. j \<notin> ?V (Suc k) \<longrightarrow>
         MaterialCB (mFrameResources s' ! j) = MaterialCB (mFrameResources s ! j)"
  proof (intro allI impI)
    fix j assume j: "j < n" and v: "j \<notin> ?V (Suc k)"
    with V_Suc have "j \<noteq> i" "j \<notin> ?V k" by simp_all
    with out1 others j show "MaterialCB (mFrameResources s' ! j) = MaterialCB (mFrameResources s ! j)"
      by simp
  qed
  have ix': "map (MatCBIndex \<circ> snd) (mMaterials s') = map (MatCBIndex \<circ> snd) (mMaterials s)"
  proof -
    have "map (MatCBIndex \<circ> snd) (map (apsnd mat_tick) ?ms) = map (MatCBIndex \<circ> snd) ?ms"
      by (simp add: comp_def)
    with ixu show ?thesis by (simp only: ms')
  qed
  have at': "mMaterials s' ! p = apsnd (mat_tick ^^ Suc k) (mMaterials s ! p)"
  proof -
    have "p < length ?ms" using p(1) lens by simp
    then have "mMaterials s' ! p = apsnd mat_tick (?ms ! p)" by (simp add: ms')
    also have "\<dots> = (?key, mat_tick ((mat_tick ^^ k) ?m))" by (simp add: atu)
    also have "\<dots> = apsnd (mat_tick ^^ Suc k) (mMaterials s ! p)"
      by (simp add: apsnd_def map_prod_def split_beta)
    finally show ?thesis .
  qed
  have "mCurrFrameResourceIndex s' = (?a + Suc k) mod n"
    by (simp add: idx' i_def)
  with ix' at' show ?case using len' sizes ins outs by blast
qed

lemma material_passes_propagated:
  fixes s s' :: "'a TexWaves"
  assumes ready: "materials_ready n s"
    and p: "p < length (mMaterials s)" "fst (mMaterials s ! p) \<noteq> ''water''"
      "MatNumFramesDirty (snd (mMaterials s ! p)) = int n" "k \<le> n"
    and R: "(material_pass n ^^ k) s s'"
  shows "material_propagated n k p s s'"
proof -
  let ?m = "snd (mMaterials s ! p)"
  from ready have n: "0 < n" "length (mFrameResources s) = n"
    and d: "distinct (map (MatCBIndex \<circ> snd) (mMaterials s))"
    and sz: "\<forall>j<n. 0 < alignedRecordSize (MaterialCB (mFrameResources s ! j))"
    by (auto simp: materials_ready_def)
  from p have k: "int k \<le> MatNumFramesDirty ?m" by simp
  note O = material_passes [OF n d sz p(1,2) k p(4) R]
  from O have at: "mMaterials s' ! p = apsnd (mat_tick ^^ k) (mMaterials s ! p)" by blast
  have key: "fst (mMaterials s' ! p) = fst (mMaterials s ! p)" by (simp add: at)
  have "MatNumFramesDirty (snd (mMaterials s' ! p)) = int n - int k"
    using mat_tick_funpow_dirty [OF k] by (simp add: at p(3))
  moreover have "\<forall>j<n. if j \<in> visited n (mCurrFrameResourceIndex s) k
              then holds_constants (MaterialCB (mFrameResources s' ! j)) (MatCBIndex ?m) (matConstants ?m) \<and>
                   count_list (copies (MaterialCB (mFrameResources s' ! j))) (MatCBIndex ?m)
                     = count_list (copies (MaterialCB (mFrameResources s ! j))) (MatCBIndex ?m) + 1
              else MaterialCB (mFrameResources s' ! j) = MaterialCB (mFrameResources s ! j)"
  proof (intro allI impI)
    fix j assume j: "j < n"
    from O j have size: "alignedRecordSize (MaterialCB (mFrameResources s' ! j))
              = alignedRecordSize (MaterialCB (mFrameResources s ! j))" by blast
    show "if j \<in> visited n (mCurrFrameResourceIndex s) k
              then holds_constants (MaterialCB (mFrameResources s' ! j)) (MatCBIndex ?m) (matConstants ?m) \<and>
                   count_list (copies (MaterialCB (mFrameResources s' ! j))) (MatCBIndex ?m)
                     = count_list (copies (MaterialCB (mFrameResources s ! j))) (MatCBIndex ?m) + 1
              else MaterialCB (mFrameResources s' ! j) = MaterialCB (mFrameResources s ! j)"
    proof (cases "j \<in> visited n (mCurrFrameResourceIndex s) k")
      case True
      then have "j \<in> (\<lambda>i. (mCurrFrameResourceIndex s + i) mod n) ` {1..k}"
        by (simp add: visited_def)
      with O j True size show ?thesis by (simp add: holds_constants_def)
    next
      case False
      then have "j \<notin> (\<lambda>i. (mCurrFrameResourceIndex s + i) mod n) ` {1..k}"
        by (simp add: visited_def)
      with O j False show ?thesis by simp
    qed
  qed
  ultimately show ?thesis unfolding material_propagated_def Let_def using key by blast
qed

lemma material_propagated_complete:
  assumes "material_propagated n n p s s'" "0 < n"
  shows "MatNumFramesDirty (snd (mMaterials s' ! p)) = 0 \<and>
         (\<forall>j<n. holds_constants (MaterialCB (mFrameResources s' ! j))
                   (MatCBIndex (snd (mMaterials s ! p))) (matConstants (snd (mMaterials s ! p))))"
proof (intro conjI allI impI)
  from assms(1) show "MatNumFramesDirty (snd (mMaterials s' ! p)) = 0"
    by (simp add: material_propagated_def Let_def)
next
  fix j assume j: "j < n"
  with assms(2) have "j \<in> visited n (mCurrFrameResourceIndex s) n" by (rule visited_all)
  moreover from assms(1) j have
    "if j \<in> visited n (mCurrFrameResourceIndex s) n
     then holds_constants (MaterialCB (mFrameResources s' ! j))
            (MatCBIndex (snd (mMaterials s ! p))) (matConstants (snd (mMaterials s ! p))) \<and>
          count_list (copies (MaterialCB (mFrameResources s' ! j))) (MatCBIndex (snd (mMaterials s ! p)))
            = count_list (copies (MaterialCB (mFrameResources s ! j))) (MatCBIndex (snd (mMaterials s ! p))) + 1
     else MaterialCB (mFrameResources s' ! j) = MaterialCB (mFrameResources s ! j)"
    unfolding material_propagated_def Let_def by blast
  ultimately show "holds_constants (MaterialCB (mFrameResources s' ! j))
            (MatCBIndex (snd (mMaterials s ! p))) (matConstants (snd (mMaterials s ! p)))" by simp
qed

lemma Initialize_materials_ready:
  assumes "0 < n" "0 < szMat"
  shows "materials_ready n (Initialize n objBase matBase szObj szMat ident lit blocks)"
  using assms
  by (auto simp: materials_ready_def Initialize_def Let_def BuildFrameResources_def
      FrameResource_new_def UploadBuffer_new_def BuildMaterials_eq new_Material_def
      CalcConstantBufferByteSize_pos)

lemma castle_stone:
  "materials_ready 3 castle" "length (mMaterials castle) = 4"
  "fst (mMaterials castle ! 3) = ''stone''"
  "MatNumFramesDirty (snd (mMaterials castle ! 3)) = 3"
  "MatCBIndex (snd (mMaterials castle ! 3)) = 3"
proof -
  show "materials_ready 3 castle" unfolding castle_def by (rule Initialize_materials_ready) simp_all
  show "length (mMaterials castle) = 4" "fst (mMaterials castle ! 3) = ''stone''"
    "MatNumFramesDirty (snd (mMaterials castle ! 3)) = 3"
    "MatCBIndex (snd (mMaterials castle ! 3)) = 3"
    by (simp_all add: castle_def Initialize_def Let_def BuildMaterials_eq new_Material_def)
qed

text \<open>
  C2. An item or a material whose dirty count is \<open>n\<close> (it has just been marked, or built)
  and that is not marked again. After \<open>k \<le> n\<close> further frames its count is \<open>n - k\<close>: one
  decrement per frame. Exactly \<open>k\<close> frame resources have been selected; each of them
  holds the recomputed constants at the item's (the material's) index and has received
  exactly one write there; the other \<open>n - k\<close> have not been written. So the constants
  are in all \<open>n\<close> frame resources after the \<open>n\<close>-th frame and not before, and the count
  is then 0. This holds for the render items of \<^verbatim>\<open>TexWavesApp\<close> and of \<^verbatim>\<open>ShapesApp\<close>, in
  the per-object regions, and for every material of \<^verbatim>\<open>TexWavesApp\<close> other than the water
  material, in the per-material regions (the water material is marked again in every
  frame; \<^verbatim>\<open>ShapesApp\<close> has no materials).
\<close>

theorem dirty_item_reaches_every_frame_resource:
  fixes s s' t t' :: "'a TexWaves" and sh sh' :: "'b Shapes"
  assumes "k \<le> n"
  shows "(ring_ready n s \<and> p < length (mAllRitems s) \<and> NumFramesDirty (mAllRitems s ! p) = int n \<and>
          Run (Update n gpu scroll) Draw k s = Some (Inr s')
          \<longrightarrow> propagated n objConstants k p s s' \<and>
              card (visited n (mCurrFrameResourceIndex s) k) = k \<and>
              (k = n \<longrightarrow> NumFramesDirty (mAllRitems s' ! p) = 0 \<and>
                 (\<forall>j<n. holds_constants (ObjectCB (mFrameResources s' ! j))
                           (ObjCBIndex (mAllRitems s ! p)) (objConstants (mAllRitems s ! p)))))
       \<and> (ring_ready n sh \<and> q < length (mAllRitems sh) \<and> NumFramesDirty (mAllRitems sh ! q) = int n \<and>
          Run (ShapesApp_Update n gpu) Draw k sh = Some (Inr sh')
          \<longrightarrow> propagated n ShapesApp_objConstants k q sh sh' \<and>
              card (visited n (mCurrFrameResourceIndex sh) k) = k \<and>
              (k = n \<longrightarrow> NumFramesDirty (mAllRitems sh' ! q) = 0 \<and>
                 (\<forall>j<n. holds_constants (ObjectCB (mFrameResources sh' ! j))
                           (ObjCBIndex (mAllRitems sh ! q)) (ShapesApp_objConstants (mAllRitems sh ! q)))))
       \<and> (materials_ready n t \<and> r < length (mMaterials t) \<and> fst (mMaterials t ! r) \<noteq> ''water'' \<and>
          MatNumFramesDirty (snd (mMaterials t ! r)) = int n \<and>
          Run (Update n gpu scroll) Draw k t = Some (Inr t')
          \<longrightarrow> material_propagated n k r t t' \<and>
              card (visited n (mCurrFrameResourceIndex t) k) = k \<and>
              (k = n \<longrightarrow> MatNumFramesDirty (snd (mMaterials t' ! r)) = 0 \<and>
                 (\<forall>j<n. holds_constants (MaterialCB (mFrameResources t' ! j))
                           (MatCBIndex (snd (mMaterials t ! r))) (matConstants (snd (mMaterials t ! r))))))"
proof (intro conjI)
  show "ring_ready n s \<and> p < length (mAllRitems s) \<and> NumFramesDirty (mAllRitems s ! p) = int n \<and>
          Run (Update n gpu scroll) Draw k s = Some (Inr s')
          \<longrightarrow> propagated n objConstants k p s s' \<and>
              card (visited n (mCurrFrameResourceIndex s) k) = k \<and>
              (k = n \<longrightarrow> NumFramesDirty (mAllRitems s' ! p) = 0 \<and>
                 (\<forall>j<n. holds_constants (ObjectCB (mFrameResources s' ! j))
                           (ObjCBIndex (mAllRitems s ! p)) (objConstants (mAllRitems s ! p))))"
  proof
    assume H: "ring_ready n s \<and> p < length (mAllRitems s) \<and>
      NumFramesDirty (mAllRitems s ! p) = int n \<and> Run (Update n gpu scroll) Draw k s = Some (Inr s')"
    then have ready: "ring_ready n s" and p: "p < length (mAllRitems s)"
      "NumFramesDirty (mAllRitems s ! p) = int n"
      and run: "Run (Update n gpu scroll) Draw k s = Some (Inr s')" by blast+
    from run have "(object_pass n objConstants ^^ k) s s'"
      by (rule Run_relpowp [rotated]) (rule TexWaves_Frame_object_pass)
    from object_passes_propagated [OF objConstants_tick ready p assms this]
    have P: "propagated n objConstants k p s s'" .
    have C: "card (visited n (mCurrFrameResourceIndex s) k) = k" using assms by (rule card_visited)
    from ready have "0 < n" by (simp add: ring_ready_def)
    with P have "k = n \<longrightarrow> NumFramesDirty (mAllRitems s' ! p) = 0 \<and>
                 (\<forall>j<n. holds_constants (ObjectCB (mFrameResources s' ! j))
                           (ObjCBIndex (mAllRitems s ! p)) (objConstants (mAllRitems s ! p)))"
      using propagated_complete [of n objConstants p s s'] by blast
    with P C show "propagated n objConstants k p s s' \<and>
              card (visited n (mCurrFrameResourceIndex s) k) = k \<and>
              (k = n \<longrightarrow> NumFramesDirty (mAllRitems s' ! p) = 0 \<and>
                 (\<forall>j<n. holds_constants (ObjectCB (mFrameResources s' ! j))
                           (ObjCBIndex (mAllRitems s ! p)) (objConstants (mAllRitems s ! p))))"
      by blast
  qed
next
  show "ring_ready n sh \<and> q < length (mAllRitems sh) \<and> NumFramesDirty (mAllRitems sh ! q) = int n \<and>
          Run (ShapesApp_Update n gpu) Draw k sh = Some (Inr sh')
          \<longrightarrow> propagated n ShapesApp_objConstants k q sh sh' \<and>
              card (visited n (mCurrFrameResourceIndex sh) k) = k \<and>
              (k = n \<longrightarrow> NumFramesDirty (mAllRitems sh' ! q) = 0 \<and>
                 (\<forall>j<n. holds_constants (ObjectCB (mFrameResources sh' ! j))
                           (ObjCBIndex (mAllRitems sh ! q)) (ShapesApp_objConstants (mAllRitems sh ! q))))"
  proof
    assume H: "ring_ready n sh \<and> q < length (mAllRitems sh) \<and>
      NumFramesDirty (mAllRitems sh ! q) = int n \<and> Run (ShapesApp_Update n gpu) Draw k sh = Some (Inr sh')"
    then have ready: "ring_ready n sh" and p: "q < length (mAllRitems sh)"
      "NumFramesDirty (mAllRitems sh ! q) = int n"
      and run: "Run (ShapesApp_Update n gpu) Draw k sh = Some (Inr sh')" by blast+
    from run have "(object_pass n ShapesApp_objConstants ^^ k) sh sh'"
      by (rule Run_relpowp [rotated]) (rule ShapesApp_Frame_object_pass)
    from object_passes_propagated [OF ShapesApp_objConstants_tick ready p assms this]
    have P: "propagated n ShapesApp_objConstants k q sh sh'" .
    have C: "card (visited n (mCurrFrameResourceIndex sh) k) = k" using assms by (rule card_visited)
    from ready have "0 < n" by (simp add: ring_ready_def)
    with P have "k = n \<longrightarrow> NumFramesDirty (mAllRitems sh' ! q) = 0 \<and>
                 (\<forall>j<n. holds_constants (ObjectCB (mFrameResources sh' ! j))
                           (ObjCBIndex (mAllRitems sh ! q)) (ShapesApp_objConstants (mAllRitems sh ! q)))"
      using propagated_complete [of n ShapesApp_objConstants q sh sh'] by blast
    with P C show "propagated n ShapesApp_objConstants k q sh sh' \<and>
              card (visited n (mCurrFrameResourceIndex sh) k) = k \<and>
              (k = n \<longrightarrow> NumFramesDirty (mAllRitems sh' ! q) = 0 \<and>
                 (\<forall>j<n. holds_constants (ObjectCB (mFrameResources sh' ! j))
                           (ObjCBIndex (mAllRitems sh ! q)) (ShapesApp_objConstants (mAllRitems sh ! q))))"
      by blast
  qed
next
  show "materials_ready n t \<and> r < length (mMaterials t) \<and> fst (mMaterials t ! r) \<noteq> ''water'' \<and>
          MatNumFramesDirty (snd (mMaterials t ! r)) = int n \<and>
          Run (Update n gpu scroll) Draw k t = Some (Inr t')
          \<longrightarrow> material_propagated n k r t t' \<and>
              card (visited n (mCurrFrameResourceIndex t) k) = k \<and>
              (k = n \<longrightarrow> MatNumFramesDirty (snd (mMaterials t' ! r)) = 0 \<and>
                 (\<forall>j<n. holds_constants (MaterialCB (mFrameResources t' ! j))
                           (MatCBIndex (snd (mMaterials t ! r))) (matConstants (snd (mMaterials t ! r)))))"
  proof
    assume H: "materials_ready n t \<and> r < length (mMaterials t) \<and> fst (mMaterials t ! r) \<noteq> ''water'' \<and>
          MatNumFramesDirty (snd (mMaterials t ! r)) = int n \<and>
          Run (Update n gpu scroll) Draw k t = Some (Inr t')"
    then have ready: "materials_ready n t" and p: "r < length (mMaterials t)"
      "fst (mMaterials t ! r) \<noteq> ''water''" "MatNumFramesDirty (snd (mMaterials t ! r)) = int n"
      and run: "Run (Update n gpu scroll) Draw k t = Some (Inr t')" by blast+
    from run have "(material_pass n ^^ k) t t'"
      by (rule Run_relpowp [rotated]) (rule TexWaves_Frame_material_pass)
    from material_passes_propagated [OF ready p assms this]
    have P: "material_propagated n k r t t'" .
    have C: "card (visited n (mCurrFrameResourceIndex t) k) = k" using assms by (rule card_visited)
    from ready have "0 < n" by (simp add: materials_ready_def)
    with P have "k = n \<longrightarrow> MatNumFramesDirty (snd (mMaterials t' ! r)) = 0 \<and>
                 (\<forall>j<n. holds_constants (MaterialCB (mFrameResources t' ! j))
                           (MatCBIndex (snd (mMaterials t ! r))) (matConstants (snd (mMaterials t ! r))))"
      using material_propagated_complete [of n r t t'] by blast
    with P C show "material_propagated n k r t t' \<and>
              card (visited n (mCurrFrameResourceIndex t) k) = k \<and>
              (k = n \<longrightarrow> MatNumFramesDirty (snd (mMaterials t' ! r)) = 0 \<and>
                 (\<forall>j<n. holds_constants (MaterialCB (mFrameResources t' ! j))
                           (MatCBIndex (snd (mMaterials t ! r))) (matConstants (snd (mMaterials t ! r)))))"
      by blast
  qed
qed

theorem dirty_item_reaches_every_frame_resource_witness:
  "(3::nat) \<le> 3
   \<and> (\<exists>s'. Run (Update 3 steady_gpu id) Draw 3 castle = Some (Inr s') \<and>
            propagated 3 objConstants 3 0 castle s' \<and>
            card (visited 3 (mCurrFrameResourceIndex castle) 3) = 3 \<and>
            NumFramesDirty (mAllRitems s' ! 0) = 0 \<and>
            (\<forall>j<3. holds_constants (ObjectCB (mFrameResources s' ! j))
                      (ObjCBIndex (mAllRitems castle ! 0)) (objConstants (mAllRitems castle ! 0))) \<and>
            fst (mMaterials castle ! 3) = ''stone'' \<and>
            material_propagated 3 3 3 castle s' \<and>
            MatNumFramesDirty (snd (mMaterials s' ! 3)) = 0 \<and>
            (\<forall>j<3. holds_constants (MaterialCB (mFrameResources s' ! j))
                      (MatCBIndex (snd (mMaterials castle ! 3)))
                      (matConstants (snd (mMaterials castle ! 3)))))
   \<and> (\<exists>sh sh'. ShapesApp_Initialize 3 (\<lambda>i. 4096 * i) 64 shape_worlds = Inr sh \<and>
            Run (ShapesApp_Update 3 steady_gpu) Draw 3 sh = Some (Inr sh') \<and>
            propagated 3 ShapesApp_objConstants 3 0 sh sh' \<and>
            NumFramesDirty (mAllRitems sh' ! 0) = 0 \<and>
            (\<forall>j<3. holds_constants (ObjectCB (mFrameResources sh' ! j))
                      (ObjCBIndex (mAllRitems sh ! 0)) (ShapesApp_objConstants (mAllRitems sh ! 0))))"
proof -
  from castle_runs obtain s' where r: "Run (Update 3 steady_gpu id) Draw 3 castle = Some (Inr s')"
    by blast
  obtain sh :: "nat Shapes" where i: "ShapesApp_Initialize 3 (\<lambda>i. 4096 * i) 64 shape_worlds = Inr sh"
    and items: "mAllRitems sh = ShapesApp_BuildRenderItems 3 shape_worlds"
    by (rule ShapesApp_Initialize_Inr)
  have "\<exists>sh'. Run (ShapesApp_Update 3 steady_gpu) Draw 3 sh = Some (Inr sh')"
    by (rule ShapesApp_Run_live [OF ShapesApp_Initialize_fit(1,2) [OF i] steady_gpu_live]) simp_all
  then obtain sh' where rs: "Run (ShapesApp_Update 3 steady_gpu) Draw 3 sh = Some (Inr sh')" ..
  have c: "ring_ready 3 castle" "0 < length (mAllRitems castle)"
    "NumFramesDirty (mAllRitems castle ! 0) = int 3"
    by (simp_all add: castle_def Initialize_ready)
       (simp_all add: Initialize_def BuildRenderItems_def Let_def)
  have d: "ring_ready 3 sh" "0 < length (mAllRitems sh)" "NumFramesDirty (mAllRitems sh ! 0) = int 3"
    using ShapesApp_Initialize_fit(5) [OF i]
    by (simp_all add: items) (simp_all add: shape_worlds_def ShapesApp_BuildRenderItems_def)
  have m: "materials_ready 3 castle" "3 < length (mMaterials castle)"
    "fst (mMaterials castle ! 3) \<noteq> ''water''"
    "MatNumFramesDirty (snd (mMaterials castle ! 3)) = int 3"
    by (simp_all add: castle_stone)
  have "(3::nat) \<le> 3" by simp
  note T = dirty_item_reaches_every_frame_resource
    [OF this, where s = castle and p = 0 and gpu = steady_gpu and scroll = id and s' = s'
       and sh = sh and q = 0 and sh' = sh' and t = castle and r = 3 and t' = s']
  from T c r have 1: "propagated 3 objConstants 3 0 castle s' \<and>
      card (visited 3 (mCurrFrameResourceIndex castle) 3) = 3 \<and>
      NumFramesDirty (mAllRitems s' ! 0) = 0 \<and>
      (\<forall>j<3. holds_constants (ObjectCB (mFrameResources s' ! j))
                (ObjCBIndex (mAllRitems castle ! 0)) (objConstants (mAllRitems castle ! 0)))"
    by simp
  from T m r have 2: "material_propagated 3 3 3 castle s' \<and>
      MatNumFramesDirty (snd (mMaterials s' ! 3)) = 0 \<and>
      (\<forall>j<3. holds_constants (MaterialCB (mFrameResources s' ! j))
                (MatCBIndex (snd (mMaterials castle ! 3)))
                (matConstants (snd (mMaterials castle ! 3))))"
    by simp
  from T d rs have 3: "propagated 3 ShapesApp_objConstants 3 0 sh sh' \<and>
      NumFramesDirty (mAllRitems sh' ! 0) = 0 \<and>
      (\<forall>j<3. holds_constants (ObjectCB (mFrameResources sh' ! j))
                (ObjCBIndex (mAllRitems sh ! 0)) (ShapesApp_objConstants (mAllRitems sh ! 0)))"
    by simp
  from 1 2 r castle_stone(3) have A: "\<exists>s'. Run (Update 3 steady_gpu id) Draw 3 castle = Some (Inr s') \<and>
            propagated 3 objConstants 3 0 castle s' \<and>
            card (visited 3 (mCurrFrameResourceIndex castle) 3) = 3 \<and>
            NumFramesDirty (mAllRitems s' ! 0) = 0 \<and>
            (\<forall>j<3. holds_constants (ObjectCB (mFrameResources s' ! j))
                      (ObjCBIndex (mAllRitems castle ! 0)) (objConstants (mAllRitems castle ! 0))) \<and>
            fst (mMaterials castle ! 3) = ''stone'' \<and>
            material_propagated 3 3 3 castle s' \<and>
            MatNumFramesDirty (snd (mMaterials s' ! 3)) = 0 \<and>
            (\<forall>j<3. holds_constants (MaterialCB (mFrameResources s' ! j))
                      (MatCBIndex (snd (mMaterials castle ! 3)))
                      (matConstants (snd (mMaterials castle ! 3))))"
    by (intro exI [of _ s']) blast
  from 3 i rs have B: "\<exists>sh sh'. ShapesApp_Initialize 3 (\<lambda>i. 4096 * i) 64 shape_worlds = Inr sh \<and>
            Run (ShapesApp_Update 3 steady_gpu) Draw 3 sh = Some (Inr sh') \<and>
            propagated 3 ShapesApp_objConstants 3 0 sh sh' \<and>
            NumFramesDirty (mAllRitems sh' ! 0) = 0 \<and>
            (\<forall>j<3. holds_constants (ObjectCB (mFrameResources sh' ! j))
                      (ObjCBIndex (mAllRitems sh ! 0)) (ShapesApp_objConstants (mAllRitems sh ! 0)))"
    by (intro exI [of _ sh] exI [of _ sh']) blast
  from A B show ?thesis by simp
qed

subsection \<open>The ring index\<close>

lemma Run_index:
  fixes s s' :: "('fr, 'ri, 'z) App_scheme"
  assumes step: "\<And>s s'. Frame upd drw s = Some (Inr s') \<Longrightarrow>
      mCurrFrameResourceIndex s' = (mCurrFrameResourceIndex s + 1) mod n"
  shows "Run upd drw k s = Some (Inr s') \<Longrightarrow>
     (mCurrFrameResourceIndex s' + 1) mod n = (mCurrFrameResourceIndex s + k + 1) mod n"
proof (induction k arbitrary: s)
  case 0
  then show ?case by simp
next
  case (Suc k)
  from Suc.prems obtain s1 where f: "Frame upd drw s = Some (Inr s1)"
    and r: "Run upd drw k s1 = Some (Inr s')"
    by (auto split: option.splits sum.splits)
  from Suc.IH [OF r] step [OF f]
  have "(mCurrFrameResourceIndex s' + 1) mod n
      = ((mCurrFrameResourceIndex s + 1) mod n + (k + 1)) mod n" by (simp add: add.assoc)
  also have "\<dots> = ((mCurrFrameResourceIndex s + 1) + (k + 1)) mod n"
    by (rule mod_add_left_eq)
  finally show ?case by (simp add: add.assoc)
qed

lemma TexWaves_Frame_index:
  fixes s s' :: "'a TexWaves"
  assumes "Frame (Update n gpu scroll) Draw s = Some (Inr s')"
  shows "mCurrFrameResourceIndex s' = (mCurrFrameResourceIndex s + 1) mod n"
  using assms by (rule TexWaves_Frame)

lemma ShapesApp_Frame_index:
  fixes s s' :: "'a Shapes"
  assumes "Frame (ShapesApp_Update n gpu) Draw s = Some (Inr s')"
  shows "mCurrFrameResourceIndex s' = (mCurrFrameResourceIndex s + 1) mod n"
  using assms by (rule ShapesApp_Frame)

lemma Update_index:
  assumes "Update n gpu scroll s = Some (Inr s')"
  shows "mCurrFrameResourceIndex s' = (mCurrFrameResourceIndex s + 1) mod n"
proof -
  from assms obtain s1 where w: "Update_wait n gpu s = Some (Inr s1)"
    and c: "Update_CBs n scroll s1 = Inr s'" by (auto simp: Update_Inr)
  from w obtain t where
    "s1 = s\<lparr>mCurrFrameResourceIndex := (mCurrFrameResourceIndex s + 1) mod n, clock := t\<rparr>"
    by (rule Update_wait_Inr_ex)
  with Update_CBs_index [OF c] show ?thesis by simp
qed

lemma ShapesApp_Update_index:
  assumes "ShapesApp_Update n gpu s = Some (Inr s')"
  shows "mCurrFrameResourceIndex s' = (mCurrFrameResourceIndex s + 1) mod n"
proof -
  from assms obtain s1 where w: "Update_wait n gpu s = Some (Inr s1)"
    and c: "ShapesApp_UpdateObjectCBs s1 = Inr s'" by (auto simp: ShapesApp_Update_Inr)
  from w obtain t where
    "s1 = s\<lparr>mCurrFrameResourceIndex := (mCurrFrameResourceIndex s + 1) mod n, clock := t\<rparr>"
    by (rule Update_wait_Inr_ex)
  with ShapesApp_UpdateObjectCBs_Inr [OF c] show ?thesis by auto
qed

text \<open>
  C5. Both applications start with \<^verbatim>\<open>mCurrFrameResourceIndex = 0\<close>. After \<open>k\<close> turns
  of the message loop the next call of \<^verbatim>\<open>Update\<close>, which is call number \<open>k + 1\<close>, leaves the
  index at \<open>(k + 1) mod n\<close>; it is the successor, modulo \<open>n\<close>, of the index that the call
  before left, so the frame resources are taken in cyclic order.
\<close>

theorem Update_selects_frame_counter_mod_n:
  fixes s s1 s2 :: "'a TexWaves" and sh sh1 sh2 :: "'b Shapes"
  assumes "0 < n"
  shows "(mCurrFrameResourceIndex s = 0 \<and> Run (Update n gpu scroll) Draw k s = Some (Inr s1) \<and>
          Update n gpu scroll s1 = Some (Inr s2)
          \<longrightarrow> mCurrFrameResourceIndex s2 = (k + 1) mod n \<and>
              mCurrFrameResourceIndex s2 = (mCurrFrameResourceIndex s1 + 1) mod n)
       \<and> (mCurrFrameResourceIndex sh = 0 \<and> Run (ShapesApp_Update n gpu) Draw k sh = Some (Inr sh1) \<and>
          ShapesApp_Update n gpu sh1 = Some (Inr sh2)
          \<longrightarrow> mCurrFrameResourceIndex sh2 = (k + 1) mod n \<and>
              mCurrFrameResourceIndex sh2 = (mCurrFrameResourceIndex sh1 + 1) mod n)"
proof (rule conjI; rule impI; elim conjE)
  assume z: "mCurrFrameResourceIndex s = 0"
    and r: "Run (Update n gpu scroll) Draw k s = Some (Inr s1)"
    and u: "Update n gpu scroll s1 = Some (Inr s2)"
  from Run_index [OF TexWaves_Frame_index r] z Update_index [OF u]
  show "mCurrFrameResourceIndex s2 = (k + 1) mod n \<and>
        mCurrFrameResourceIndex s2 = (mCurrFrameResourceIndex s1 + 1) mod n" by simp
next
  assume z: "mCurrFrameResourceIndex sh = 0"
    and r: "Run (ShapesApp_Update n gpu) Draw k sh = Some (Inr sh1)"
    and u: "ShapesApp_Update n gpu sh1 = Some (Inr sh2)"
  from Run_index [OF ShapesApp_Frame_index r] z ShapesApp_Update_index [OF u]
  show "mCurrFrameResourceIndex sh2 = (k + 1) mod n \<and>
        mCurrFrameResourceIndex sh2 = (mCurrFrameResourceIndex sh1 + 1) mod n" by simp
qed

lemma Update_after_Run:
  "Run upd drw (Suc k) s = Some (Inr s') \<Longrightarrow>
     \<exists>s1 s2. Run upd drw k s = Some (Inr s1) \<and> upd s1 = Some (Inr s2) \<and> drw s2 = Inr s'"
proof (induction k arbitrary: s)
  case 0
  then show ?case by (auto simp: Frame_def split: option.splits sum.splits)
next
  case (Suc k)
  from Suc.prems obtain t where f: "Frame upd drw s = Some (Inr t)"
    and r: "Run upd drw (Suc k) t = Some (Inr s')"
    by (auto split: option.splits sum.splits)
  from Suc.IH [OF r] obtain s1 s2 where "Run upd drw k t = Some (Inr s1)"
    "upd s1 = Some (Inr s2)" "drw s2 = Inr s'" by blast
  with f show ?case by auto
qed

theorem Update_selects_frame_counter_mod_n_witness:
  "(0::nat) < 3
   \<and> (\<exists>s1 s2. mCurrFrameResourceIndex castle = 0 \<and>
         Run (Update 3 steady_gpu id) Draw 4 castle = Some (Inr s1) \<and>
         Update 3 steady_gpu id s1 = Some (Inr s2) \<and> mCurrFrameResourceIndex s2 = 2)
   \<and> (\<exists>sh sh1 sh2. ShapesApp_Initialize 3 (\<lambda>i. 4096 * i) 64 shape_worlds = Inr sh \<and>
         mCurrFrameResourceIndex sh = 0 \<and>
         Run (ShapesApp_Update 3 steady_gpu) Draw 4 sh = Some (Inr sh1) \<and>
         ShapesApp_Update 3 steady_gpu sh1 = Some (Inr sh2) \<and> mCurrFrameResourceIndex sh2 = 2)"
proof -
  from castle_runs [of 5] obtain s' where "Run (Update 3 steady_gpu id) Draw (Suc 4) castle = Some (Inr s')"
    by auto
  from Update_after_Run [OF this] obtain s1 s2 where
    r: "Run (Update 3 steady_gpu id) Draw 4 castle = Some (Inr s1)"
    and u: "Update 3 steady_gpu id s1 = Some (Inr s2)" by blast
  have z: "mCurrFrameResourceIndex castle = 0" by (simp add: castle_def Initialize_fit)
  obtain sh :: "nat Shapes" where i: "ShapesApp_Initialize 3 (\<lambda>i. 4096 * i) 64 shape_worlds = Inr sh"
    and zs: "mCurrFrameResourceIndex sh = 0"
    by (rule ShapesApp_Initialize_Inr)
  have "\<exists>sh'. Run (ShapesApp_Update 3 steady_gpu) Draw (Suc 4) sh = Some (Inr sh')"
    by (rule ShapesApp_Run_live [OF ShapesApp_Initialize_fit(1,2) [OF i] steady_gpu_live]) simp_all
  then obtain sh' where "Run (ShapesApp_Update 3 steady_gpu) Draw (Suc 4) sh = Some (Inr sh')" ..
  from Update_after_Run [OF this] obtain sh1 sh2 where
    rs: "Run (ShapesApp_Update 3 steady_gpu) Draw 4 sh = Some (Inr sh1)"
    and us: "ShapesApp_Update 3 steady_gpu sh1 = Some (Inr sh2)" by blast
  have "(0::nat) < 3" by simp
  from Update_selects_frame_counter_mod_n [OF this, of castle steady_gpu id 4 s1 s2 sh sh1 sh2]
    r u z i zs rs us
  have e: "mCurrFrameResourceIndex s2 = 2" "mCurrFrameResourceIndex sh2 = 2" by simp_all
  have A: "\<exists>s1 s2. mCurrFrameResourceIndex castle = 0 \<and>
         Run (Update 3 steady_gpu id) Draw 4 castle = Some (Inr s1) \<and>
         Update 3 steady_gpu id s1 = Some (Inr s2) \<and> mCurrFrameResourceIndex s2 = 2"
    using r u z e(1) by blast
  have B: "\<exists>sh sh1 sh2. ShapesApp_Initialize 3 (\<lambda>i. 4096 * i) 64 shape_worlds = Inr sh \<and>
         mCurrFrameResourceIndex sh = 0 \<and>
         Run (ShapesApp_Update 3 steady_gpu) Draw 4 sh = Some (Inr sh1) \<and>
         ShapesApp_Update 3 steady_gpu sh1 = Some (Inr sh2) \<and> mCurrFrameResourceIndex sh2 = 2"
    using i zs rs us e(2) by blast
  from A B show ?thesis by simp
qed

subsection \<open>The range of the dirty counts\<close>

lemma tick_range:
  "0 \<le> NumFramesDirty e \<and> NumFramesDirty e \<le> int n \<Longrightarrow>
   0 \<le> NumFramesDirty (tick e) \<and> NumFramesDirty (tick e) \<le> int n"
  by (simp add: tick_def)

lemma mat_tick_range:
  "0 \<le> MatNumFramesDirty m \<and> MatNumFramesDirty m \<le> int n \<Longrightarrow>
   0 \<le> MatNumFramesDirty (mat_tick m) \<and> MatNumFramesDirty (mat_tick m) \<le> int n"
  by (simp add: mat_tick_def)

lemma items_in_range_tick:
  assumes "items_in_range n s" "mAllRitems s' = map tick (mAllRitems s)"
  shows "items_in_range n s'"
  using assms tick_range by (fastforce simp: items_in_range_def)

lemma materials_in_range_tick:
  assumes "materials_in_range n s" "mMaterials s' = map (apsnd mat_tick) (mMaterials s)"
  shows "materials_in_range n s'"
  using assms mat_tick_range by (fastforce simp: materials_in_range_def)

lemma materials_in_range_mark:
  assumes "materials_in_range n s"
    and "mMaterials s' = AList.update k (w\<lparr>MatTransform := x, MatNumFramesDirty := int n\<rparr>) (mMaterials s)"
  shows "materials_in_range n s'"
  unfolding materials_in_range_def
proof
  fix m assume "m \<in> set (mMaterials s')"
  with assms(2) have "m = (k, w\<lparr>MatTransform := x, MatNumFramesDirty := int n\<rparr>) \<or> m \<in> set (mMaterials s)"
    by (auto dest: set_AList_update)
  with assms(1) show "0 \<le> MatNumFramesDirty (snd m) \<and> MatNumFramesDirty (snd m) \<le> int n"
    by (auto simp: materials_in_range_def)
qed

lemma AnimateMaterials_range:
  fixes s s1 :: "'a TexWaves"
  assumes "dirty_in_range n s" "AnimateMaterials n scroll s = Inr s1"
  shows "dirty_in_range n s1"
proof -
  from assms(2) obtain w where
    s1: "s1 = s\<lparr>mMaterials := AList.update ''water''
           (w\<lparr>MatTransform := scroll (MatTransform w), MatNumFramesDirty := int n\<rparr>) (mMaterials s)\<rparr>"
    by (auto simp: AnimateMaterials_Inr)
  from assms(1) have "items_in_range n s1" by (simp add: s1 dirty_in_range_def items_in_range_def)
  moreover have "materials_in_range n s1"
    by (rule materials_in_range_mark [where s = s and k = "''water''" and w = w
          and x = "scroll (MatTransform w)"])
       (use assms(1) in \<open>simp_all add: s1 dirty_in_range_def\<close>)
  ultimately show ?thesis by (simp add: dirty_in_range_def)
qed

lemma UpdateObjectCBs_range:
  fixes s s1 :: "'a TexWaves"
  assumes "dirty_in_range n s" "UpdateObjectCBs s = Inr s1"
  shows "dirty_in_range n s1"
proof -
  from UpdateObjectCBs_Inr [OF assms(2)] have
    i: "mAllRitems s1 = map tick (mAllRitems s)" and m: "mMaterials s1 = mMaterials s" by auto
  have "items_in_range n s1"
    by (rule items_in_range_tick [OF _ i]) (use assms(1) in \<open>simp add: dirty_in_range_def\<close>)
  moreover from assms(1) m have "materials_in_range n s1"
    by (simp add: dirty_in_range_def materials_in_range_def)
  ultimately show ?thesis by (simp add: dirty_in_range_def)
qed

lemma UpdateMaterialCBs_range:
  fixes s s1 :: "'a TexWaves"
  assumes "dirty_in_range n s" "UpdateMaterialCBs s = Inr s1"
  shows "dirty_in_range n s1"
proof -
  from UpdateMaterialCBs_Inr [OF assms(2)] have
    i: "mAllRitems s1 = mAllRitems s" and m: "mMaterials s1 = map (apsnd mat_tick) (mMaterials s)"
    by auto
  from assms(1) i have "items_in_range n s1"
    by (simp add: dirty_in_range_def items_in_range_def)
  moreover have "materials_in_range n s1"
    by (rule materials_in_range_tick [OF _ m]) (use assms(1) in \<open>simp add: dirty_in_range_def\<close>)
  ultimately show ?thesis by (simp add: dirty_in_range_def)
qed

lemma ShapesApp_UpdateObjectCBs_range:
  fixes s s1 :: "'a Shapes"
  assumes "items_in_range n s" "ShapesApp_UpdateObjectCBs s = Inr s1"
  shows "items_in_range n s1"
proof -
  from ShapesApp_UpdateObjectCBs_Inr [OF assms(2)] have
    "mAllRitems s1 = map tick (mAllRitems s)" by auto
  with assms(1) show ?thesis by (rule items_in_range_tick)
qed

lemma TexWaves_Frame_range:
  fixes s s' :: "'a TexWaves"
  assumes "dirty_in_range n s" "Frame (Update n gpu scroll) Draw s = Some (Inr s')"
  shows "dirty_in_range n s'"
proof -
  from assms(2) obtain s0 a b c where w: "Update_wait n gpu s = Some (Inr s0)"
    and a: "AnimateMaterials n scroll s0 = Inr a" and b: "UpdateObjectCBs a = Inr b"
    and c: "UpdateMaterialCBs b = Inr c" and d: "Draw c = Inr s'"
    by (auto simp: Frame_Inr Update_Inr Update_CBs_Inr)
  from w obtain t where
    "s0 = s\<lparr>mCurrFrameResourceIndex := (mCurrFrameResourceIndex s + 1) mod n, clock := t\<rparr>"
    by (rule Update_wait_Inr_ex)
  with assms(1) have "dirty_in_range n s0"
    by (simp add: dirty_in_range_def items_in_range_def materials_in_range_def)
  then have "dirty_in_range n a" using a by (rule AnimateMaterials_range)
  then have "dirty_in_range n b" using b by (rule UpdateObjectCBs_range)
  then have "dirty_in_range n c" using c by (rule UpdateMaterialCBs_range)
  with d show ?thesis
    by (auto simp: Draw_Inr dirty_in_range_def items_in_range_def materials_in_range_def)
qed

lemma ShapesApp_Frame_range:
  fixes s s' :: "'a Shapes"
  assumes "items_in_range n s" "Frame (ShapesApp_Update n gpu) Draw s = Some (Inr s')"
  shows "items_in_range n s'"
proof -
  from assms(2) have "mAllRitems s' = map tick (mAllRitems s)" by (rule ShapesApp_Frame)
  with assms(1) show ?thesis by (rule items_in_range_tick)
qed

lemma Run_invariant:
  assumes step: "\<And>s s'. P s \<Longrightarrow> Frame upd drw s = Some (Inr s') \<Longrightarrow> P s'"
  shows "P s \<Longrightarrow> Run upd drw k s = Some (Inr s') \<Longrightarrow> P s'"
proof (induction k arbitrary: s)
  case 0
  then show ?case by simp
next
  case (Suc k)
  from Suc.prems(2) obtain s1 where f: "Frame upd drw s = Some (Inr s1)"
    and r: "Run upd drw k s1 = Some (Inr s')"
    by (auto split: option.splits sum.splits)
  from step [OF Suc.prems(1) f] r show ?case by (rule Suc.IH)
qed

lemma Initialize_counts:
  "\<forall>e\<in>set (mAllRitems (Initialize n objBase matBase szObj szMat ident lit blocks)).
      NumFramesDirty e = int n"
  "\<forall>m\<in>set (mMaterials (Initialize n objBase matBase szObj szMat ident lit blocks)).
      MatNumFramesDirty (snd m) = int n"
  by (auto simp: Initialize_def Let_def BuildRenderItems_def BuildMaterials_eq new_Material_def
      dest: BuildRenderItems_from_dirty)

lemma Initialize_range: "dirty_in_range n (Initialize n objBase matBase szObj szMat ident lit blocks)"
  using Initialize_counts [of n objBase matBase szObj szMat ident lit blocks]
  by (simp add: dirty_in_range_def items_in_range_def materials_in_range_def)

lemma ShapesApp_Initialize_counts:
  fixes s :: "'a Shapes"
  assumes "ShapesApp_Initialize n objBase szObj blocks = Inr s"
  shows "\<forall>e\<in>set (mAllRitems s). NumFramesDirty e = int n"
proof -
  obtain s0 :: "'a Shapes" where i: "ShapesApp_Initialize n objBase szObj blocks = Inr s0"
    and items: "mAllRitems s0 = ShapesApp_BuildRenderItems n blocks"
    by (rule ShapesApp_Initialize_Inr)
  from i assms have "s = s0" by simp
  then show ?thesis
    by (auto simp: items ShapesApp_BuildRenderItems_def dest: ShapesApp_BuildRenderItems_from_dirty)
qed

text \<open>
  C9. Every dirty count of a render item or of a material stays between 0 and \<open>n\<close>.
  The counts start at \<open>n\<close> in the state that initialisation builds. Each of the three
  passes that touch a count keeps all counts in the range: \<^verbatim>\<open>AnimateMaterials\<close> assigns
  \<open>n\<close>, the two update loops decrement a count only when it is positive. Hence so does
  any number of turns of the message loop, in \<^verbatim>\<open>TexWavesApp\<close> (items and materials) and in
  \<^verbatim>\<open>ShapesApp\<close> (items).
\<close>

theorem dirty_counts_stay_in_range:
  fixes s s1 t t1 u u1 x x' :: "'a TexWaves" and sh sh1 y y' z :: "'b Shapes"
  shows "(dirty_in_range n s \<and> AnimateMaterials n scroll s = Inr s1 \<longrightarrow> dirty_in_range n s1)
       \<and> (dirty_in_range n t \<and> UpdateObjectCBs t = Inr t1 \<longrightarrow> dirty_in_range n t1)
       \<and> (dirty_in_range n u \<and> UpdateMaterialCBs u = Inr u1 \<longrightarrow> dirty_in_range n u1)
       \<and> (dirty_in_range n x \<and> Run (Update n gpu scroll) Draw k x = Some (Inr x')
            \<longrightarrow> dirty_in_range n x')
       \<and> dirty_in_range n (Initialize n objBase matBase szObj szMat ident lit blocks)
       \<and> (\<forall>e\<in>set (mAllRitems (Initialize n objBase matBase szObj szMat ident lit blocks)).
             NumFramesDirty e = int n)
       \<and> (\<forall>m\<in>set (mMaterials (Initialize n objBase matBase szObj szMat ident lit blocks)).
             MatNumFramesDirty (snd m) = int n)
       \<and> (items_in_range n sh \<and> ShapesApp_UpdateObjectCBs sh = Inr sh1 \<longrightarrow> items_in_range n sh1)
       \<and> (items_in_range n y \<and> Run (ShapesApp_Update n gpu) Draw k y = Some (Inr y')
            \<longrightarrow> items_in_range n y')
       \<and> (ShapesApp_Initialize n shBase shSz worlds = Inr z
            \<longrightarrow> items_in_range n z \<and> (\<forall>e\<in>set (mAllRitems z). NumFramesDirty e = int n))"
proof (intro conjI)
  show "dirty_in_range n s \<and> AnimateMaterials n scroll s = Inr s1 \<longrightarrow> dirty_in_range n s1"
    using AnimateMaterials_range by blast
  show "dirty_in_range n t \<and> UpdateObjectCBs t = Inr t1 \<longrightarrow> dirty_in_range n t1"
    using UpdateObjectCBs_range by blast
  show "dirty_in_range n u \<and> UpdateMaterialCBs u = Inr u1 \<longrightarrow> dirty_in_range n u1"
    using UpdateMaterialCBs_range by blast
  show "dirty_in_range n x \<and> Run (Update n gpu scroll) Draw k x = Some (Inr x')
            \<longrightarrow> dirty_in_range n x'"
  proof
    assume "dirty_in_range n x \<and> Run (Update n gpu scroll) Draw k x = Some (Inr x')"
    then have "dirty_in_range n x" "Run (Update n gpu scroll) Draw k x = Some (Inr x')" by simp_all
    then show "dirty_in_range n x'" by (rule Run_invariant [rotated]) (rule TexWaves_Frame_range)
  qed
  show "dirty_in_range n (Initialize n objBase matBase szObj szMat ident lit blocks)"
    by (rule Initialize_range)
  show "\<forall>e\<in>set (mAllRitems (Initialize n objBase matBase szObj szMat ident lit blocks)).
             NumFramesDirty e = int n"
    by (rule Initialize_counts)
  show "\<forall>m\<in>set (mMaterials (Initialize n objBase matBase szObj szMat ident lit blocks)).
             MatNumFramesDirty (snd m) = int n"
    by (rule Initialize_counts)
  show "items_in_range n sh \<and> ShapesApp_UpdateObjectCBs sh = Inr sh1 \<longrightarrow> items_in_range n sh1"
    using ShapesApp_UpdateObjectCBs_range by blast
  show "items_in_range n y \<and> Run (ShapesApp_Update n gpu) Draw k y = Some (Inr y')
            \<longrightarrow> items_in_range n y'"
  proof
    assume "items_in_range n y \<and> Run (ShapesApp_Update n gpu) Draw k y = Some (Inr y')"
    then have "items_in_range n y" "Run (ShapesApp_Update n gpu) Draw k y = Some (Inr y')" by simp_all
    then show "items_in_range n y'" by (rule Run_invariant [rotated]) (rule ShapesApp_Frame_range)
  qed
  show "ShapesApp_Initialize n shBase shSz worlds = Inr z
            \<longrightarrow> items_in_range n z \<and> (\<forall>e\<in>set (mAllRitems z). NumFramesDirty e = int n)"
  proof
    assume "ShapesApp_Initialize n shBase shSz worlds = Inr z"
    from ShapesApp_Initialize_counts [OF this]
    show "items_in_range n z \<and> (\<forall>e\<in>set (mAllRitems z). NumFramesDirty e = int n)"
      by (simp add: items_in_range_def)
  qed
qed

theorem dirty_counts_stay_in_range_witness:
  "\<exists>s0 a b c s' sh sh1 sh'.
     dirty_in_range 3 castle \<and>
     Update_wait 3 steady_gpu castle = Some (Inr s0) \<and>
     AnimateMaterials 3 id s0 = Inr a \<and> dirty_in_range 3 a \<and>
     UpdateObjectCBs a = Inr b \<and> dirty_in_range 3 b \<and>
     UpdateMaterialCBs b = Inr c \<and> dirty_in_range 3 c \<and>
     Run (Update 3 steady_gpu id) Draw 7 castle = Some (Inr s') \<and> dirty_in_range 3 s' \<and>
     ShapesApp_Initialize 3 (\<lambda>i. 4096 * i) 64 shape_worlds = Inr sh \<and> items_in_range 3 sh \<and>
     ShapesApp_UpdateObjectCBs sh = Inr sh1 \<and> items_in_range 3 sh1 \<and>
     Run (ShapesApp_Update 3 steady_gpu) Draw 7 sh = Some (Inr sh') \<and> items_in_range 3 sh'"
proof -
  note T = dirty_counts_stay_in_range
    [where n = 3 and scroll = id and gpu = steady_gpu and k = 7
       and objBase = "\<lambda>i. 4096 * i" and matBase = "\<lambda>i. 65536 + 4096 * i"
       and szObj = 128 and szMat = 80 and ident = "[[1, 0], [0, 1]]"
       and lit = "\<lambda>name. ([1, 1, 1, 1], [0, 0, 0], 0)"
       and blocks = "[([[1, 2], [3, 4]], [[5, 0], [0, 5]], ''water''),
                      ([[2, 0], [0, 2]], [[1, 0], [0, 1]], ''stone'')]
                     :: (nat XMFLOAT4X4 \<times> nat XMFLOAT4X4 \<times> string) list"
       and shBase = "\<lambda>i. 4096 * i" and shSz = 64 and worlds = shape_worlds]
  from T [where s = castle and ?s1.0 = castle and t = castle and ?t1.0 = castle and u = castle
      and ?u1.0 = castle and x = castle and x' = castle and sh = busy_shapes
      and ?sh1.0 = busy_shapes and y = busy_shapes and y' = busy_shapes and z = busy_shapes]
  have c0: "dirty_in_range 3 castle" by (simp add: castle_def)
  from castle_runs [of 1] obtain f where "Run (Update 3 steady_gpu id) Draw (Suc 0) castle = Some (Inr f)"
    by auto
  then have "Frame (Update 3 steady_gpu id) Draw castle = Some (Inr f)"
    by (auto split: option.splits sum.splits)
  then obtain s0 a b c where w: "Update_wait 3 steady_gpu castle = Some (Inr s0)"
    and a: "AnimateMaterials 3 id s0 = Inr a" and b: "UpdateObjectCBs a = Inr b"
    and c: "UpdateMaterialCBs b = Inr c"
    by (auto simp: Frame_Inr Update_Inr Update_CBs_Inr)
  from w obtain tm where
    "s0 = castle\<lparr>mCurrFrameResourceIndex := (mCurrFrameResourceIndex castle + 1) mod 3, clock := tm\<rparr>"
    by (rule Update_wait_Inr_ex)
  with c0 have r0: "dirty_in_range 3 s0"
    by (simp add: dirty_in_range_def items_in_range_def materials_in_range_def)
  from T [where s = s0 and ?s1.0 = a] r0 a have ra: "dirty_in_range 3 a" by blast
  from T [where t = a and ?t1.0 = b] ra b have rb: "dirty_in_range 3 b" by blast
  from T [where u = b and ?u1.0 = c] rb c have rc: "dirty_in_range 3 c" by blast
  from castle_runs [of 7] obtain s' where r: "Run (Update 3 steady_gpu id) Draw 7 castle = Some (Inr s')"
    by blast
  from T [where x = castle and x' = s'] c0 r have rs: "dirty_in_range 3 s'" by blast
  obtain sh :: "nat Shapes" where i: "ShapesApp_Initialize 3 (\<lambda>i. 4096 * i) 64 shape_worlds = Inr sh"
    and z: "mCurrFrameResourceIndex sh = 0"
    by (rule ShapesApp_Initialize_Inr)
  from T [where z = sh] i have ri: "items_in_range 3 sh" by blast
  from ShapesApp_UpdateObjectCBs_total [OF ShapesApp_Initialize_fit(1) [OF i]] z
  obtain sh1 where o: "ShapesApp_UpdateObjectCBs sh = Inr sh1" by auto
  from T [where sh = sh and ?sh1.0 = sh1] ri o have r1: "items_in_range 3 sh1" by blast
  have "\<exists>sh'. Run (ShapesApp_Update 3 steady_gpu) Draw 7 sh = Some (Inr sh')"
    by (rule ShapesApp_Run_live [OF ShapesApp_Initialize_fit(1,2) [OF i] steady_gpu_live]) simp_all
  then obtain sh' where q: "Run (ShapesApp_Update 3 steady_gpu) Draw 7 sh = Some (Inr sh')" ..
  from T [where y = sh and y' = sh'] ri q have r7: "items_in_range 3 sh'" by blast
  from c0 w a ra b rb c rc r rs i ri o r1 q r7 show ?thesis by blast
qed

subsection \<open>Uploads of material constants\<close>

lemma uploads_since_append: "copies new = xs @ copies old \<Longrightarrow> uploads_since old new = xs"
  by (simp add: uploads_since_def)

text \<open>What \<^verbatim>\<open>TexWavesApp::Update\<close> does to each member.\<close>

lemma TexWaves_Update:
  fixes s s' :: "'a TexWaves"
  assumes "Update n gpu scroll s = Some (Inr s')"
  obtains w cbO cbM where
    "(mCurrFrameResourceIndex s + 1) mod n < length (mFrameResources s)"
    "map_of (mMaterials s) ''water'' = Some w"
    "UpdateObjectCBs_loop objConstants
       (ObjectCB (mFrameResources s ! ((mCurrFrameResourceIndex s + 1) mod n))) (mAllRitems s)
       = Inr (cbO, map tick (mAllRitems s))"
    "UpdateMaterialCBs_loop
       (MaterialCB (mFrameResources s ! ((mCurrFrameResourceIndex s + 1) mod n)))
       (AList.update ''water''
          (w\<lparr>MatTransform := scroll (MatTransform w), MatNumFramesDirty := int n\<rparr>) (mMaterials s))
       = Inr (cbM, map (apsnd mat_tick)
           (AList.update ''water''
              (w\<lparr>MatTransform := scroll (MatTransform w), MatNumFramesDirty := int n\<rparr>) (mMaterials s)))"
    "mFrameResources s' = (mFrameResources s)
       [(mCurrFrameResourceIndex s + 1) mod n :=
          (mFrameResources s ! ((mCurrFrameResourceIndex s + 1) mod n))
            \<lparr>ObjectCB := cbO, MaterialCB := cbM\<rparr>]"
    "mCurrFrameResourceIndex s' = (mCurrFrameResourceIndex s + 1) mod n"
    "mAllRitems s' = map tick (mAllRitems s)"
    "mMaterials s' = map (apsnd mat_tick)
       (AList.update ''water''
          (w\<lparr>MatTransform := scroll (MatTransform w), MatNumFramesDirty := int n\<rparr>) (mMaterials s))"
proof -
  let ?i = "(mCurrFrameResourceIndex s + 1) mod n"
  from assms obtain s1 a b where w: "Update_wait n gpu s = Some (Inr s1)"
    and a: "AnimateMaterials n scroll s1 = Inr a" and b: "UpdateObjectCBs a = Inr b"
    and c: "UpdateMaterialCBs b = Inr s'"
    by (auto simp: Update_Inr Update_CBs_Inr)
  from w obtain t where s1: "s1 = s\<lparr>mCurrFrameResourceIndex := ?i, clock := t\<rparr>"
    and r: "?i < length (mFrameResources s)"
    by (rule Update_wait_Inr_ex)
  from a s1 obtain w where ww: "map_of (mMaterials s) ''water'' = Some w"
    and a': "a = s1\<lparr>mMaterials := AList.update ''water''
          (w\<lparr>MatTransform := scroll (MatTransform w), MatNumFramesDirty := int n\<rparr>) (mMaterials s)\<rparr>"
    by (auto simp: AnimateMaterials_Inr)
  let ?ms = "AList.update ''water''
          (w\<lparr>MatTransform := scroll (MatTransform w), MatNumFramesDirty := int n\<rparr>) (mMaterials s)"
  from UpdateObjectCBs_Inr [OF b] a' s1 obtain cbO where
    lo: "UpdateObjectCBs_loop objConstants (ObjectCB (mFrameResources s ! ?i)) (mAllRitems s)
           = Inr (cbO, map tick (mAllRitems s))"
    and b': "b = a\<lparr>mFrameResources := (mFrameResources s)[?i := (mFrameResources s ! ?i)\<lparr>ObjectCB := cbO\<rparr>],
                   mAllRitems := map tick (mAllRitems s)\<rparr>"
    by auto
  from UpdateMaterialCBs_Inr [OF c] b' a' s1 r obtain cbM where
    lm: "UpdateMaterialCBs_loop (MaterialCB (mFrameResources s ! ?i)) ?ms
           = Inr (cbM, map (apsnd mat_tick) ?ms)"
    and c': "s' = b\<lparr>mFrameResources := (mFrameResources s)
                     [?i := (mFrameResources s ! ?i)\<lparr>ObjectCB := cbO, MaterialCB := cbM\<rparr>],
                   mMaterials := map (apsnd mat_tick) ?ms\<rparr>"
    by auto
  show thesis
  proof (rule that [OF r ww lo lm])
    show "mFrameResources s' = (mFrameResources s)
       [?i := (mFrameResources s ! ?i)\<lparr>ObjectCB := cbO, MaterialCB := cbM\<rparr>]"
      by (simp add: c')
    show "mCurrFrameResourceIndex s' = ?i" by (simp add: c' b' a' s1)
    show "mAllRitems s' = map tick (mAllRitems s)" by (simp add: c' b')
    show "mMaterials s' = map (apsnd mat_tick) ?ms" by (simp add: c')
  qed
qed

lemma Update_marks_water:
  fixes s s' :: "'a TexWaves"
  assumes "Update n gpu scroll s = Some (Inr s')" "0 < n"
  shows "\<exists>w w'. map_of (mMaterials s) ''water'' = Some w \<and>
           map_of (mMaterials s') ''water'' = Some w' \<and>
           MatNumFramesDirty w' = int n - 1 \<and>
           MatTransform w' = scroll (MatTransform w) \<and>
           MatCBIndex w' = MatCBIndex w \<and>
           MatCBIndex w \<in> set (uploads_since
              (MaterialCB (mFrameResources s ! mCurrFrameResourceIndex s'))
              (MaterialCB (mFrameResources s' ! mCurrFrameResourceIndex s')))"
proof -
  let ?i = "(mCurrFrameResourceIndex s + 1) mod n"
  from assms(1) obtain w cbO cbM where
    r: "?i < length (mFrameResources s)"
    and w: "map_of (mMaterials s) ''water'' = Some w"
    and lm: "UpdateMaterialCBs_loop (MaterialCB (mFrameResources s ! ?i))
       (AList.update ''water''
          (w\<lparr>MatTransform := scroll (MatTransform w), MatNumFramesDirty := int n\<rparr>) (mMaterials s))
       = Inr (cbM, map (apsnd mat_tick)
           (AList.update ''water''
              (w\<lparr>MatTransform := scroll (MatTransform w), MatNumFramesDirty := int n\<rparr>) (mMaterials s)))"
    and frs: "mFrameResources s' = (mFrameResources s)
       [?i := (mFrameResources s ! ?i)\<lparr>ObjectCB := cbO, MaterialCB := cbM\<rparr>]"
    and idx: "mCurrFrameResourceIndex s' = ?i"
    and mats: "mMaterials s' = map (apsnd mat_tick)
       (AList.update ''water''
          (w\<lparr>MatTransform := scroll (MatTransform w), MatNumFramesDirty := int n\<rparr>) (mMaterials s))"
    by (rule TexWaves_Update)
  define w1 where "w1 = w\<lparr>MatTransform := scroll (MatTransform w), MatNumFramesDirty := int n\<rparr>"
  define ms where "ms = AList.update ''water'' w1 (mMaterials s)"
  have m1: "map_of ms ''water'' = Some w1" by (simp add: ms_def update_conv')
  then have mem: "(''water'', w1) \<in> set ms" by (rule map_of_SomeD)
  have dirty: "MatNumFramesDirty w1 > 0" using assms(2) by (simp add: w1_def)
  have w': "map_of (mMaterials s') ''water'' = Some (mat_tick w1)"
    using m1 by (simp add: mats map_of_apsnd ms_def w1_def)
  have cb: "MaterialCB (mFrameResources s' ! ?i) = cbM" using r by (simp add: frs)
  from UpdateMaterialCBs_loop_Inr [OF lm] have
    "copies cbM = rev (map (MatCBIndex \<circ> snd) (filter (\<lambda>e. MatNumFramesDirty (snd e) > 0) ms))
        @ copies (MaterialCB (mFrameResources s ! ?i))"
    by (simp add: ms_def w1_def)
  then have "uploads_since (MaterialCB (mFrameResources s ! ?i)) cbM
      = rev (map (MatCBIndex \<circ> snd) (filter (\<lambda>e. MatNumFramesDirty (snd e) > 0) ms))"
    by (rule uploads_since_append)
  moreover have "MatCBIndex w1 \<in> set (map (MatCBIndex \<circ> snd) (filter (\<lambda>e. MatNumFramesDirty (snd e) > 0) ms))"
    using mem dirty by force
  ultimately have up: "MatCBIndex w \<in> set (uploads_since (MaterialCB (mFrameResources s ! ?i)) cbM)"
    by (simp add: w1_def)
  have "MatNumFramesDirty (mat_tick w1) = int n - 1" "MatTransform (mat_tick w1) = scroll (MatTransform w)"
    "MatCBIndex (mat_tick w1) = MatCBIndex w"
    using dirty by (simp_all add: mat_tick_def w1_def)
  with w w' up cb idx show ?thesis by simp
qed

text \<open>
  C10. \<^verbatim>\<open>TexWavesApp::Update\<close> calls \<^verbatim>\<open>AnimateMaterials\<close> before \<^verbatim>\<open>UpdateMaterialCBs\<close>
  on every frame. So whenever \<^verbatim>\<open>Update\<close> returns, with the ring size 3 of the program and
  from any state: the water material's transform has been scrolled, its constants have
  been written to the material region of the frame resource that is now current, and its
  dirty count is \<open>gNumFrameResources - 1 = 2\<close>, never 0.
\<close>

theorem water_material_never_clean:
  fixes s s' :: "'a TexWaves"
  assumes "Update gNumFrameResources gpu scroll s = Some (Inr s')"
  shows "\<exists>w w'. map_of (mMaterials s) ''water'' = Some w \<and>
           map_of (mMaterials s') ''water'' = Some w' \<and>
           MatNumFramesDirty w' = int gNumFrameResources - 1 \<and>
           MatNumFramesDirty w' \<noteq> 0 \<and>
           MatTransform w' = scroll (MatTransform w) \<and>
           MatCBIndex w' \<in> set (uploads_since
              (MaterialCB (mFrameResources s ! mCurrFrameResourceIndex s'))
              (MaterialCB (mFrameResources s' ! mCurrFrameResourceIndex s')))"
proof -
  have "0 < gNumFrameResources" by (simp add: gNumFrameResources_def)
  from Update_marks_water [OF assms this] obtain w w' where
    "map_of (mMaterials s) ''water'' = Some w" "map_of (mMaterials s') ''water'' = Some w'"
    "MatNumFramesDirty w' = int gNumFrameResources - 1" "MatTransform w' = scroll (MatTransform w)"
    "MatCBIndex w' = MatCBIndex w"
    "MatCBIndex w \<in> set (uploads_since
              (MaterialCB (mFrameResources s ! mCurrFrameResourceIndex s'))
              (MaterialCB (mFrameResources s' ! mCurrFrameResourceIndex s')))"
    by blast
  moreover then have "MatNumFramesDirty w' \<noteq> 0" by (simp add: gNumFrameResources_def)
  ultimately show ?thesis by auto
qed

theorem water_material_never_clean_witness:
  "\<exists>s1 s2 w'. Run (Update gNumFrameResources steady_gpu id) Draw 4 castle = Some (Inr s1) \<and>
      Update gNumFrameResources steady_gpu id s1 = Some (Inr s2) \<and>
      map_of (mMaterials s2) ''water'' = Some w' \<and> MatNumFramesDirty w' = 2 \<and>
      MatCBIndex w' \<in> set (uploads_since
              (MaterialCB (mFrameResources s1 ! mCurrFrameResourceIndex s2))
              (MaterialCB (mFrameResources s2 ! mCurrFrameResourceIndex s2)))"
proof -
  have g: "gNumFrameResources = 3" by (simp add: gNumFrameResources_def)
  from castle_runs [of 5] obtain s' where "Run (Update 3 steady_gpu id) Draw (Suc 4) castle = Some (Inr s')"
    by auto
  from Update_after_Run [OF this] obtain s1 s2 where
    r: "Run (Update 3 steady_gpu id) Draw 4 castle = Some (Inr s1)"
    and u: "Update 3 steady_gpu id s1 = Some (Inr s2)" by blast
  from u have "Update gNumFrameResources steady_gpu id s1 = Some (Inr s2)" by (simp add: g)
  from water_material_never_clean [OF this] r u show ?thesis by (auto simp: g)
qed

lemma AList_update_same_field:
  "map_of al k = Some w \<Longrightarrow> f w' = f w \<Longrightarrow>
     map (f \<circ> snd) (AList.update k w' al) = map (f \<circ> snd) al"
  by (induction al) (auto split: if_splits)

lemma UpdateObjectCBs_total:
  fixes s :: "'a TexWaves"
  assumes o: "objects_fit n s" and i: "mCurrFrameResourceIndex s < n"
  shows "\<exists>s'. UpdateObjectCBs s = Inr s'"
proof -
  let ?i = "mCurrFrameResourceIndex s"
  from o i have len: "?i < length (mFrameResources s)" by (simp add: objects_fit_def)
  then have fr: "mFrameResources s ! ?i \<in> set (mFrameResources s)" by simp
  from o fr have "\<forall>e\<in>set (mAllRitems s). NumFramesDirty e > 0 \<longrightarrow>
      ObjCBIndex e < capacity (ObjectCB (mFrameResources s ! ?i))"
    by (simp add: objects_fit_def)
  from UpdateObjectCBs_loop_total [OF this] obtain cb where
    "UpdateObjectCBs_loop objConstants (ObjectCB (mFrameResources s ! ?i)) (mAllRitems s)
           = Inr (cb, map tick (mAllRitems s))" ..
  with len show ?thesis by (simp add: UpdateObjectCBs_def Let_def)
qed

lemma UpdateMaterialCBs_total:
  fixes s :: "'a TexWaves"
  assumes m: "materials_fit s" and i: "mCurrFrameResourceIndex s < length (mFrameResources s)"
  shows "\<exists>s'. UpdateMaterialCBs s = Inr s'"
proof -
  let ?i = "mCurrFrameResourceIndex s"
  from i have fr: "mFrameResources s ! ?i \<in> set (mFrameResources s)" by simp
  from m fr have "\<forall>e\<in>set (mMaterials s). MatNumFramesDirty (snd e) > 0 \<longrightarrow>
      MatCBIndex (snd e) < capacity (MaterialCB (mFrameResources s ! ?i))"
    by (simp add: materials_fit_def)
  from UpdateMaterialCBs_loop_total [OF this] obtain cb where
    "UpdateMaterialCBs_loop (MaterialCB (mFrameResources s ! ?i)) (mMaterials s)
           = Inr (cb, map (apsnd mat_tick) (mMaterials s))" ..
  with i show ?thesis by (simp add: UpdateMaterialCBs_def Let_def)
qed

lemma TexWaves_Update_live:
  fixes s :: "'a TexWaves"
  assumes "objects_fit n s" "materials_fit s" "fences_bounded s"
    and "mCurrentFence s \<le> gpu (clock s + j)"
  shows "\<exists>s'. Update n gpu scroll s = Some (Inr s')"
proof -
  from assms(1) have n: "0 < n" "length (mFrameResources s) = n" by (simp_all add: objects_fit_def)
  from Update_wait_live [of n s gpu j, OF n assms(3,4)] obtain s0 where
    w: "Update_wait n gpu s = Some (Inr s0)" ..
  from assms(1,2) show ?thesis
  proof (cases rule: TexWaves_Frame_selected [where gpu = gpu and scroll = scroll])
    case blocked
    with w show ?thesis by simp
  next
    case (ran s1 s')
    then show ?thesis by (auto simp: Frame_Inr)
  qed
qed

lemma material_uploads_once:
  assumes l: "UpdateMaterialCBs_loop cb ms = Inr (cb', ms')"
    and d: "distinct (map (MatCBIndex \<circ> snd) ms)"
    and m: "(k, m) \<in> set ms" "0 < MatNumFramesDirty m"
  shows "count_list (uploads_since cb cb') (MatCBIndex m) = 1"
proof -
  from UpdateMaterialCBs_loop_Inr [OF l] have
    "copies cb' = rev (map (MatCBIndex \<circ> snd) (filter (\<lambda>e. MatNumFramesDirty (snd e) > 0) ms)) @ copies cb"
    by simp
  then have "uploads_since cb cb'
      = rev (map (MatCBIndex \<circ> snd) (filter (\<lambda>e. MatNumFramesDirty (snd e) > 0) ms))"
    by (rule uploads_since_append)
  moreover have "count_list (map (MatCBIndex \<circ> snd) (filter (\<lambda>e. MatNumFramesDirty (snd e) > 0) ms))
      ((MatCBIndex \<circ> snd) (k, m)) = 1"
    using d m(1) by (rule count_list_distinct_filter) (simp add: m(2))
  ultimately show ?thesis by (simp add: count_list_rev)
qed

text \<open>
  C8. The material constants are uploaded by \<^verbatim>\<open>UpdateMaterialCBs\<close>, which walks the
  material table; the render items play no part in it. For any list of render items,
  whatever materials they name: one pass writes a dirty material exactly once, into the
  material region of the current frame resource, and leaves the material regions of the
  other frame resources alone; \<^verbatim>\<open>UpdateObjectCBs\<close>, the pass that walks the items,
  writes no material region at all. So one call of \<^verbatim>\<open>Update\<close> uploads the water
  material, which it has just marked, exactly once. (Each material has its own
  constant-buffer index, as in \<^verbatim>\<open>BuildMaterials\<close>.)
\<close>

theorem shared_material_uploaded_once_per_frame:
  fixes s s' t t' u u' :: "'a TexWaves"
  shows "(distinct (map (MatCBIndex \<circ> snd) (mMaterials s)) \<and> (k, m) \<in> set (mMaterials s) \<and>
          0 < MatNumFramesDirty m \<and> UpdateMaterialCBs (s\<lparr>mAllRitems := items\<rparr>) = Inr s'
          \<longrightarrow> count_list
                (uploads_since (MaterialCB (mFrameResources s ! mCurrFrameResourceIndex s))
                               (MaterialCB (mFrameResources s' ! mCurrFrameResourceIndex s)))
                (MatCBIndex m) = 1 \<and>
              (\<forall>j<length (mFrameResources s). j \<noteq> mCurrFrameResourceIndex s \<longrightarrow>
                 MaterialCB (mFrameResources s' ! j) = MaterialCB (mFrameResources s ! j)))
       \<and> (UpdateObjectCBs t = Inr t'
          \<longrightarrow> (\<forall>j<length (mFrameResources t).
                 MaterialCB (mFrameResources t' ! j) = MaterialCB (mFrameResources t ! j)))
       \<and> (0 < n \<and> distinct (map (MatCBIndex \<circ> snd) (mMaterials u)) \<and>
          map_of (mMaterials u) ''water'' = Some w \<and>
          Update n gpu scroll (u\<lparr>mAllRitems := items'\<rparr>) = Some (Inr u')
          \<longrightarrow> count_list
                (uploads_since (MaterialCB (mFrameResources u ! mCurrFrameResourceIndex u'))
                               (MaterialCB (mFrameResources u' ! mCurrFrameResourceIndex u')))
                (MatCBIndex w) = 1 \<and>
              (\<forall>j<length (mFrameResources u). j \<noteq> mCurrFrameResourceIndex u' \<longrightarrow>
                 MaterialCB (mFrameResources u' ! j) = MaterialCB (mFrameResources u ! j)))"
proof (intro conjI impI; (elim conjE)?)
  let ?i = "mCurrFrameResourceIndex s"
  assume d: "distinct (map (MatCBIndex \<circ> snd) (mMaterials s))"
    and m: "(k, m) \<in> set (mMaterials s)" "0 < MatNumFramesDirty m"
    and r: "UpdateMaterialCBs (s\<lparr>mAllRitems := items\<rparr>) = Inr s'"
  from UpdateMaterialCBs_Inr [OF r] obtain cb where
    len: "?i < length (mFrameResources s)"
    and l: "UpdateMaterialCBs_loop (MaterialCB (mFrameResources s ! ?i)) (mMaterials s)
              = Inr (cb, map (apsnd mat_tick) (mMaterials s))"
    and frs: "mFrameResources s' = (mFrameResources s)[?i := (mFrameResources s ! ?i)\<lparr>MaterialCB := cb\<rparr>]"
    by auto
  from len have "MaterialCB (mFrameResources s' ! ?i) = cb" by (simp add: frs)
  with material_uploads_once [OF l d m]
  show "count_list
          (uploads_since (MaterialCB (mFrameResources s ! ?i)) (MaterialCB (mFrameResources s' ! ?i)))
          (MatCBIndex m) = 1" by simp
  show "\<forall>j<length (mFrameResources s). j \<noteq> ?i \<longrightarrow>
          MaterialCB (mFrameResources s' ! j) = MaterialCB (mFrameResources s ! j)"
    by (simp add: frs)
next
  assume "UpdateObjectCBs t = Inr t'"
  from UpdateObjectCBs_Inr [OF this] obtain cb where
    len: "mCurrFrameResourceIndex t < length (mFrameResources t)"
    and frs: "mFrameResources t' = (mFrameResources t)
       [mCurrFrameResourceIndex t := (mFrameResources t ! mCurrFrameResourceIndex t)\<lparr>ObjectCB := cb\<rparr>]"
    by auto
  show "\<forall>j<length (mFrameResources t).
          MaterialCB (mFrameResources t' ! j) = MaterialCB (mFrameResources t ! j)"
    using len by (simp add: frs nth_list_update)
next
  let ?i = "(mCurrFrameResourceIndex u + 1) mod n"
  assume n: "0 < n" and d: "distinct (map (MatCBIndex \<circ> snd) (mMaterials u))"
    and w: "map_of (mMaterials u) ''water'' = Some w"
    and r: "Update n gpu scroll (u\<lparr>mAllRitems := items'\<rparr>) = Some (Inr u')"
  from r obtain w0 cbO cbM where
    len: "?i < length (mFrameResources u)"
    and w0: "map_of (mMaterials u) ''water'' = Some w0"
    and lm: "UpdateMaterialCBs_loop (MaterialCB (mFrameResources u ! ?i))
       (AList.update ''water''
          (w0\<lparr>MatTransform := scroll (MatTransform w0), MatNumFramesDirty := int n\<rparr>) (mMaterials u))
       = Inr (cbM, map (apsnd mat_tick)
           (AList.update ''water''
              (w0\<lparr>MatTransform := scroll (MatTransform w0), MatNumFramesDirty := int n\<rparr>) (mMaterials u)))"
    and frs: "mFrameResources u' = (mFrameResources u)
       [?i := (mFrameResources u ! ?i)\<lparr>ObjectCB := cbO, MaterialCB := cbM\<rparr>]"
    and idx: "mCurrFrameResourceIndex u' = ?i"
    by (rule TexWaves_Update) simp_all
  from w w0 have [simp]: "w0 = w" by simp
  define w1 where "w1 = w\<lparr>MatTransform := scroll (MatTransform w), MatNumFramesDirty := int n\<rparr>"
  define ms where "ms = AList.update ''water'' w1 (mMaterials u)"
  have "map_of ms ''water'' = Some w1" by (simp add: ms_def update_conv')
  then have mem: "(''water'', w1) \<in> set ms" by (rule map_of_SomeD)
  have dirty: "0 < MatNumFramesDirty w1" using n by (simp add: w1_def)
  have "map (MatCBIndex \<circ> snd) ms = map (MatCBIndex \<circ> snd) (mMaterials u)"
    unfolding ms_def by (rule AList_update_same_field [OF w]) (simp add: w1_def)
  with d have d1: "distinct (map (MatCBIndex \<circ> snd) ms)" by simp
  from lm have l: "UpdateMaterialCBs_loop (MaterialCB (mFrameResources u ! ?i)) ms
       = Inr (cbM, map (apsnd mat_tick) ms)" by (simp add: ms_def w1_def)
  from len have cb: "MaterialCB (mFrameResources u' ! ?i) = cbM" by (simp add: frs)
  from material_uploads_once [OF l d1 mem dirty] cb idx
  show "count_list
          (uploads_since (MaterialCB (mFrameResources u ! mCurrFrameResourceIndex u'))
                         (MaterialCB (mFrameResources u' ! mCurrFrameResourceIndex u')))
          (MatCBIndex w) = 1" by (simp add: w1_def)
  show "\<forall>j<length (mFrameResources u). j \<noteq> mCurrFrameResourceIndex u' \<longrightarrow>
          MaterialCB (mFrameResources u' ! j) = MaterialCB (mFrameResources u ! j)"
    by (simp add: frs idx)
qed

lemma castle_shared_fit:
  "objects_fit 3 (castle\<lparr>mAllRitems := shared_items\<rparr>)"
  "materials_fit (castle\<lparr>mAllRitems := shared_items\<rparr>)"
  "fences_bounded (castle\<lparr>mAllRitems := shared_items\<rparr>)"
  "mCurrFrameResourceIndex (castle\<lparr>mAllRitems := shared_items\<rparr>) = 0"
  "length (mFrameResources castle) = 3"
proof -
  have c: "objects_fit 3 castle" "materials_fit castle" "fences_bounded castle"
    "mCurrFrameResourceIndex castle = 0"
    by (simp_all add: castle_def Initialize_fit)
  have cap: "\<forall>fr\<in>set (mFrameResources castle). capacity (ObjectCB fr) = 2"
    by (auto simp: castle_def Initialize_def Let_def BuildFrameResources_def
        FrameResource_new_def UploadBuffer_new_def)
  have "\<forall>e\<in>set shared_items. ObjCBIndex e < 2"
    unfolding shared_items_def using BuildRenderItems_index by fastforce
  with c(1) cap show "objects_fit 3 (castle\<lparr>mAllRitems := shared_items\<rparr>)"
    by (simp add: objects_fit_def)
  from c(2) show "materials_fit (castle\<lparr>mAllRitems := shared_items\<rparr>)"
    by (simp add: materials_fit_def)
  from c(3) show "fences_bounded (castle\<lparr>mAllRitems := shared_items\<rparr>)"
    by (simp add: fences_bounded_def)
  from c(4) show "mCurrFrameResourceIndex (castle\<lparr>mAllRitems := shared_items\<rparr>) = 0" by simp
  from c(1) show "length (mFrameResources castle) = 3" by (simp add: objects_fit_def)
qed

lemma castle_materials:
  "distinct (map (MatCBIndex \<circ> snd) (mMaterials castle))"
  "map_of (mMaterials castle) ''water'' = Some (new_Material 3 [[1, 0], [0, 1]] 1 ([1, 1, 1, 1], [0, 0, 0], 0))"
  "MatNumFramesDirty (new_Material 3 [[1, 0], [0, 1]] 1 ([1, 1, 1, 1], [0, 0, 0], 0 :: nat)) = 3"
  by (simp_all add: castle_def Initialize_def Let_def BuildMaterials_eq new_Material_def)

theorem shared_material_uploaded_once_per_frame_witness:
  "\<exists>s' t' u' w.
     Mat (shared_items ! 0) = ''water'' \<and> Mat (shared_items ! 1) = ''water'' \<and>
     map_of (mMaterials castle) ''water'' = Some w \<and>
     UpdateMaterialCBs (castle\<lparr>mAllRitems := shared_items\<rparr>) = Inr s' \<and>
     count_list
       (uploads_since (MaterialCB (mFrameResources castle ! 0)) (MaterialCB (mFrameResources s' ! 0)))
       (MatCBIndex w) = 1 \<and>
     UpdateObjectCBs (castle\<lparr>mAllRitems := shared_items\<rparr>) = Inr t' \<and>
     (\<forall>j<3. MaterialCB (mFrameResources t' ! j) = MaterialCB (mFrameResources castle ! j)) \<and>
     Update 3 steady_gpu id (castle\<lparr>mAllRitems := shared_items\<rparr>) = Some (Inr u') \<and>
     count_list
       (uploads_since (MaterialCB (mFrameResources castle ! mCurrFrameResourceIndex u'))
                      (MaterialCB (mFrameResources u' ! mCurrFrameResourceIndex u')))
       (MatCBIndex w) = 1"
proof -
  let ?c = "castle\<lparr>mAllRitems := shared_items\<rparr>"
  define w where "w = new_Material 3 [[1, 0], [0, 1]] 1 ([1, 1, 1, 1], [0, 0, 0], 0 :: nat)"
  have ww: "map_of (mMaterials castle) ''water'' = Some w" "0 < MatNumFramesDirty w"
    by (simp_all add: w_def castle_materials(2)) (simp add: new_Material_def)
  then have mem: "(''water'', w) \<in> set (mMaterials castle)" by (simp add: map_of_SomeD)
  from UpdateMaterialCBs_total [OF castle_shared_fit(2)] castle_shared_fit(4,5)
  obtain s' where m: "UpdateMaterialCBs ?c = Inr s'" by auto
  from UpdateObjectCBs_total [OF castle_shared_fit(1)] castle_shared_fit(4)
  obtain t' where o: "UpdateObjectCBs ?c = Inr t'" by auto
  have "mCurrentFence ?c \<le> steady_gpu (clock ?c + mCurrentFence ?c)" by (simp add: steady_gpu_def)
  from TexWaves_Update_live [where gpu = steady_gpu and j = "mCurrentFence ?c" and scroll = id,
      OF castle_shared_fit(1,2,3) this]
  obtain u' where u: "Update 3 steady_gpu id ?c = Some (Inr u')" by blast
  have z: "mCurrFrameResourceIndex castle = 0" using castle_shared_fit(4) by simp
  note T = shared_material_uploaded_once_per_frame
    [where s = castle and k = "''water''" and m = w and items = shared_items and s' = s'
       and t = ?c and t' = t' and n = 3 and u = castle and w = w and gpu = steady_gpu
       and scroll = id and items' = shared_items and u' = u']
  from T castle_materials(1) mem ww m z have 1: "count_list
       (uploads_since (MaterialCB (mFrameResources castle ! 0)) (MaterialCB (mFrameResources s' ! 0)))
       (MatCBIndex w) = 1" by simp
  from T o castle_shared_fit(5)
  have 2: "\<forall>j<3. MaterialCB (mFrameResources t' ! j) = MaterialCB (mFrameResources castle ! j)"
    by simp
  from T castle_materials(1) ww u have 3: "count_list
       (uploads_since (MaterialCB (mFrameResources castle ! mCurrFrameResourceIndex u'))
                      (MaterialCB (mFrameResources u' ! mCurrFrameResourceIndex u')))
       (MatCBIndex w) = 1" by simp
  have 4: "Mat (shared_items ! 0) = ''water''" "Mat (shared_items ! 1) = ''water''"
    by (simp_all add: shared_items_def BuildRenderItems_def)
  from 1 2 3 4 ww(1) m o u show ?thesis by blast
qed

subsection \<open>Addresses of the object constants\<close>

lemma bind_address_nowrap:
  fixes i cnt sz base :: nat
  assumes "i < cnt" "cnt * sz < 2 ^ 32" "base + cnt * sz < 2 ^ 64"
  shows "(base + (i * sz) mod 2 ^ 32) mod 2 ^ 64 = base + i * sz"
proof -
  from assms(1) have "i \<le> cnt" by simp
  then have le: "i * sz \<le> cnt * sz" by (rule mult_le_mono1)
  with assms(2) have "i * sz < 2 ^ 32" by linarith
  moreover from le assms(3) have "base + i * sz < 2 ^ 64" by linarith
  ultimately show ?thesis by simp
qed

lemma gpu_read_write_address:
  assumes "CopyData i d cb = Inr cb'"
  shows "gpu_read cb' (write_address cb i) = Some d"
  using assms by (auto simp: CopyData_Inr gpu_read_def write_address_def)

lemma DrawRenderItems_single:
  assumes "DrawRenderItems szObj szMat s [ri] = Inr binds"
  shows "map fst binds =
     [(GetGPUVirtualAddress (ObjectCB (mFrameResources s ! mCurrFrameResourceIndex s))
        + (ObjCBIndex ri * CalcConstantBufferByteSize szObj) mod 2 ^ 32) mod 2 ^ 64]"
  using assms
  by (auto simp: DrawRenderItems_def Let_def split: if_splits option.splits)

lemma object_regions_ok_pass:
  fixes s s' :: "(('c, 'x) ShapesFrameResource_scheme, ('a, 'y) ShapesRenderItem_scheme, 'z) App_scheme"
  assumes ok: "object_regions_ok n szObj s" and p: "object_pass n mk s s'"
  shows "object_regions_ok n szObj s'"
proof -
  let ?i = "(mCurrFrameResourceIndex s + 1) mod n"
  from ok have n: "0 < n" and len: "length (mFrameResources s) = n"
    and dist: "distinct (map ObjCBIndex (mAllRitems s))"
    and idx: "\<forall>e\<in>set (mAllRitems s). ObjCBIndex e < length (mAllRitems s)"
    and frs: "\<forall>fr\<in>set (mFrameResources s).
        alignedRecordSize (ObjectCB fr) = CalcConstantBufferByteSize szObj \<and>
        capacity (ObjectCB fr) = length (mAllRitems s) \<and>
        length (mAllRitems s) * CalcConstantBufferByteSize szObj < 2 ^ 32 \<and>
        GetGPUVirtualAddress (ObjectCB fr) + length (mAllRitems s) * CalcConstantBufferByteSize szObj
          < 2 ^ 64"
    by (simp_all add: object_regions_ok_def)
  from p have i: "?i < length (mFrameResources s)"
    and idx': "mCurrFrameResourceIndex s' = ?i"
    and len': "length (mFrameResources s') = length (mFrameResources s)"
    and items': "mAllRitems s' = map tick (mAllRitems s)"
    and loop: "UpdateObjectCBs_loop mk (ObjectCB (mFrameResources s ! ?i)) (mAllRitems s)
        = Inr (ObjectCB (mFrameResources s' ! ?i), map tick (mAllRitems s))"
    and others: "\<forall>j<length (mFrameResources s). j \<noteq> ?i \<longrightarrow>
         ObjectCB (mFrameResources s' ! j) = ObjectCB (mFrameResources s ! j)"
    by (simp_all add: object_pass_def Let_def)
  note L = UpdateObjectCBs_loop_Inr [OF loop]
  have same: "alignedRecordSize (ObjectCB (mFrameResources s' ! j)) = alignedRecordSize (ObjectCB (mFrameResources s ! j))
      \<and> capacity (ObjectCB (mFrameResources s' ! j)) = capacity (ObjectCB (mFrameResources s ! j))
      \<and> GetGPUVirtualAddress (ObjectCB (mFrameResources s' ! j)) = GetGPUVirtualAddress (ObjectCB (mFrameResources s ! j))"
    if "j < length (mFrameResources s)" for j
  proof (cases "j = ?i")
    case True
    with L show ?thesis by simp
  next
    case False
    with others that show ?thesis by simp
  qed
  show ?thesis
    unfolding object_regions_ok_def
  proof (intro conjI ballI)
    show "0 < n" by (rule n)
    show "length (mFrameResources s') = n" using len len' by simp
    show "mCurrFrameResourceIndex s' < n" using idx' n by simp
    have "map ObjCBIndex (map tick (mAllRitems s)) = map ObjCBIndex (mAllRitems s)" by simp
    then have "distinct (map ObjCBIndex (map tick (mAllRitems s)))" using dist by (rule ssubst)
    then show "distinct (map ObjCBIndex (mAllRitems s'))" unfolding items' .
  next
    fix e assume "e \<in> set (mAllRitems s')"
    with items' idx show "ObjCBIndex e < length (mAllRitems s')" by auto
  next
    fix fr assume "fr \<in> set (mFrameResources s')"
    then obtain j where j: "j < length (mFrameResources s')" and fr: "fr = mFrameResources s' ! j"
      by (auto simp: in_set_conv_nth)
    from j len' have j0: "j < length (mFrameResources s)" by simp
    then have mem: "mFrameResources s ! j \<in> set (mFrameResources s)" by simp
    from same [OF j0] bspec [OF frs mem] fr items'
    show "alignedRecordSize (ObjectCB fr) = CalcConstantBufferByteSize szObj"
      "capacity (ObjectCB fr) = length (mAllRitems s')"
      "length (mAllRitems s') * CalcConstantBufferByteSize szObj < 2 ^ 32"
      "GetGPUVirtualAddress (ObjectCB fr) + length (mAllRitems s') * CalcConstantBufferByteSize szObj
          < 2 ^ 64"
      by simp_all
  qed
qed

lemma object_pass_write_address:
  fixes s s' :: "(('c, 'x) ShapesFrameResource_scheme, ('a, 'y) ShapesRenderItem_scheme, 'z) App_scheme"
  assumes p: "object_pass n mk s s'" and j: "j < length (mFrameResources s)"
  shows "write_address (ObjectCB (mFrameResources s' ! j)) i
       = write_address (ObjectCB (mFrameResources s ! j)) i"
proof -
  let ?i = "(mCurrFrameResourceIndex s + 1) mod n"
  from p have loop: "UpdateObjectCBs_loop mk (ObjectCB (mFrameResources s ! ?i)) (mAllRitems s)
        = Inr (ObjectCB (mFrameResources s' ! ?i), map tick (mAllRitems s))"
    and others: "\<forall>j<length (mFrameResources s). j \<noteq> ?i \<longrightarrow>
         ObjectCB (mFrameResources s' ! j) = ObjectCB (mFrameResources s ! j)"
    by (simp_all add: object_pass_def Let_def)
  show ?thesis
  proof (cases "j = ?i")
    case True
    with UpdateObjectCBs_loop_Inr [OF loop] show ?thesis by (simp add: write_address_def)
  next
    case False
    with others j show ?thesis by simp
  qed
qed

lemma Initialize_regions:
  assumes "0 < n"
    and "length blocks * CalcConstantBufferByteSize szObj < 2 ^ 32"
    and "\<forall>c<n. objBase c + length blocks * CalcConstantBufferByteSize szObj < 2 ^ 64"
  shows "object_regions_ok n szObj (Initialize n objBase matBase szObj szMat ident lit blocks)"
  using assms
  by (auto simp: object_regions_ok_def Initialize_def Let_def BuildFrameResources_def
      FrameResource_new_def UploadBuffer_new_def BuildRenderItems_distinct
      dest: BuildRenderItems_index)

lemma TexWaves_bind_address:
  fixes s :: "'a TexWaves"
  assumes ok: "object_regions_ok n szObj s" and ri: "ri \<in> set (mAllRitems s)"
    and d: "DrawRenderItems szObj szMat s [ri] = Inr binds"
  shows "map fst binds =
     [write_address (ObjectCB (mFrameResources s ! mCurrFrameResourceIndex s)) (ObjCBIndex ri)]"
proof -
  let ?cb = "ObjectCB (mFrameResources s ! mCurrFrameResourceIndex s)"
  from ok have "mCurrFrameResourceIndex s < length (mFrameResources s)"
    by (simp add: object_regions_ok_def)
  then have mem: "mFrameResources s ! mCurrFrameResourceIndex s \<in> set (mFrameResources s)" by simp
  from ok have frs: "\<forall>fr\<in>set (mFrameResources s).
        alignedRecordSize (ObjectCB fr) = CalcConstantBufferByteSize szObj \<and>
        capacity (ObjectCB fr) = length (mAllRitems s) \<and>
        length (mAllRitems s) * CalcConstantBufferByteSize szObj < 2 ^ 32 \<and>
        GetGPUVirtualAddress (ObjectCB fr) + length (mAllRitems s) * CalcConstantBufferByteSize szObj
          < 2 ^ 64"
    by (simp add: object_regions_ok_def)
  from bspec [OF frs mem] have sz: "alignedRecordSize ?cb = CalcConstantBufferByteSize szObj"
    and a: "length (mAllRitems s) * CalcConstantBufferByteSize szObj < 2 ^ 32"
    and b: "GetGPUVirtualAddress ?cb + length (mAllRitems s) * CalcConstantBufferByteSize szObj < 2 ^ 64"
    by simp_all
  from ok ri have i: "ObjCBIndex ri < length (mAllRitems s)" by (simp add: object_regions_ok_def)
  from DrawRenderItems_single [OF d] bind_address_nowrap [OF i a b]
  show ?thesis by (simp add: write_address_def sz)
qed

subsection \<open>The descriptor heap of ShapesApp\<close>

lemma BuildConstantBufferViews_objects_length [simp]:
  "length (BuildConstantBufferViews_objects sz cnt base f is heap) = length heap"
  by (induction "is" arbitrary: heap) (simp_all add: Let_def)

lemma BuildConstantBufferViews_frames_length [simp]:
  "length (BuildConstantBufferViews_frames sz cnt frs fs heap) = length heap"
  by (induction fs arbitrary: heap) simp_all

lemma BuildConstantBufferViews_objects_nth:
  assumes "\<forall>i\<in>set is. f * cnt + i < 2 ^ 32" "j < length heap"
  shows "BuildConstantBufferViews_objects sz cnt base f is heap ! j =
     (if \<exists>i\<in>set is. j = f * cnt + i
      then Some \<lparr> BufferLocation = (base + ((j - f * cnt) * sz) mod 2 ^ 32) mod 2 ^ 64,
                  SizeInBytes = sz \<rparr>
      else heap ! j)"
  using assms
proof (induction "is" arbitrary: heap)
  case Nil
  then show ?case by simp
next
  case (Cons i "is")
  from Cons.prems(1) have i: "(f * cnt + i) mod 2 ^ 32 = f * cnt + i"
    and rest: "\<forall>i\<in>set is. f * cnt + i < 2 ^ 32" by simp_all
  from Cons.prems(2) have j: "j < length (heap[f * cnt + i :=
      Some \<lparr> BufferLocation = (base + (i * sz) mod 2 ^ 32) mod 2 ^ 64, SizeInBytes = sz \<rparr>])"
    by simp
  have step: "BuildConstantBufferViews_objects sz cnt base f (i # is) heap =
      BuildConstantBufferViews_objects sz cnt base f is (heap[f * cnt + i :=
        Some \<lparr> BufferLocation = (base + (i * sz) mod 2 ^ 32) mod 2 ^ 64, SizeInBytes = sz \<rparr>])"
    using i by (simp add: Let_def)
  show ?case
    unfolding step Cons.IH [OF rest j]
    using Cons.prems(2) by (auto simp: nth_list_update)
qed

lemma frame_range:
  fixes f cnt j :: nat
  shows "(\<exists>i\<in>set [0..<cnt]. j = f * cnt + i) \<longleftrightarrow> f * cnt \<le> j \<and> j < f * cnt + cnt"
proof
  assume "\<exists>i\<in>set [0..<cnt]. j = f * cnt + i"
  then show "f * cnt \<le> j \<and> j < f * cnt + cnt" by auto
next
  assume a: "f * cnt \<le> j \<and> j < f * cnt + cnt"
  then have "j - f * cnt \<in> set [0..<cnt]" "j = f * cnt + (j - f * cnt)" by auto
  then show "\<exists>i\<in>set [0..<cnt]. j = f * cnt + i" by blast
qed

lemma frame_range_div:
  fixes f cnt j :: nat
  assumes "f * cnt \<le> j" "j < f * cnt + cnt"
  shows "j div cnt = f" and "j - f * cnt = j mod cnt"
proof -
  define i where "i = j - f * cnt"
  with assms have j: "j = i + f * cnt" and i: "i < cnt" by simp_all
  from i show "j div cnt = f" by (simp add: j)
  from i show "j - f * cnt = j mod cnt" by (simp add: j)
qed

lemma BuildConstantBufferViews_frames_nth:
  assumes "\<forall>f\<in>set fs. f * cnt + cnt \<le> 2 ^ 32" "j < length heap"
  shows "BuildConstantBufferViews_frames sz cnt frs fs heap ! j =
     (if \<exists>f\<in>set fs. f * cnt \<le> j \<and> j < f * cnt + cnt
      then Some \<lparr> BufferLocation =
                    (GetGPUVirtualAddress (ObjectCB (frs ! (j div cnt)))
                       + ((j mod cnt) * sz) mod 2 ^ 32) mod 2 ^ 64,
                  SizeInBytes = sz \<rparr>
      else heap ! j)"
  using assms
proof (induction fs arbitrary: heap)
  case Nil
  then show ?case by simp
next
  case (Cons f fs)
  let ?h = "BuildConstantBufferViews_objects sz cnt
      (GetGPUVirtualAddress (ObjectCB (frs ! f))) f [0..<cnt] heap"
  from Cons.prems(1) have f: "\<forall>i\<in>set [0..<cnt]. f * cnt + i < 2 ^ 32"
    and rest: "\<forall>f\<in>set fs. f * cnt + cnt \<le> 2 ^ 32" by auto
  from Cons.prems(2) have j: "j < length ?h" by simp
  note inner = BuildConstantBufferViews_objects_nth [OF f Cons.prems(2), of sz
      "GetGPUVirtualAddress (ObjectCB (frs ! f))", unfolded frame_range]
  show ?case
  proof (cases "\<exists>g\<in>set fs. g * cnt \<le> j \<and> j < g * cnt + cnt")
    case True
    with Cons.IH [OF rest j] show ?thesis by simp
  next
    case False
    show ?thesis
    proof (cases "f * cnt \<le> j \<and> j < f * cnt + cnt")
      case True
      then have "j div cnt = f" "j - f * cnt = j mod cnt" by (simp_all add: frame_range_div)
      with True False Cons.IH [OF rest j] inner show ?thesis by simp
    next
      case no: False
      with False Cons.IH [OF rest j] inner show ?thesis by auto
    qed
  qed
qed

lemma ShapesApp_Initialize_regions:
  fixes s :: "'a Shapes"
  assumes init: "ShapesApp_Initialize n objBase szObj blocks = Inr s" and n: "0 < n"
    and heap: "(length blocks + 1) * n < 2 ^ 32"
    and sz: "length blocks * CalcConstantBufferByteSize szObj < 2 ^ 32"
    and base: "\<forall>c<n. objBase c + length blocks * CalcConstantBufferByteSize szObj < 2 ^ 64"
  shows "object_regions_ok n szObj s" and "cbv_heap_ok n szObj s"
proof -
  obtain s0 :: "'a Shapes" where i: "ShapesApp_Initialize n objBase szObj blocks = Inr s0"
    and items: "mAllRitems s0 = ShapesApp_BuildRenderItems n blocks"
    and frs: "mFrameResources s0 = ShapesApp_BuildFrameResources n objBase szObj (ShapesApp_BuildRenderItems n blocks)"
    and z: "mCurrFrameResourceIndex s0 = 0"
    and h: "mCbvHeap s0 =
       BuildConstantBufferViews_frames (CalcConstantBufferByteSize szObj) (length blocks)
         (ShapesApp_BuildFrameResources n objBase szObj (ShapesApp_BuildRenderItems n blocks))
         [0..<n] (replicate (((length blocks + 1) * n) mod 2 ^ 32) None)"
    by (rule ShapesApp_Initialize_Inr)
  from i init have s: "s = s0" by simp
  show "object_regions_ok n szObj s"
    using n sz base
    by (auto simp: s object_regions_ok_def items frs z ShapesApp_BuildFrameResources_def
        ShapesFrameResource_new_def UploadBuffer_new_def ShapesApp_BuildRenderItems_distinct
        dest: ShapesApp_BuildRenderItems_index)
  let ?cnt = "length blocks"
  have fits: "\<forall>f\<in>set [0..<n]. f * ?cnt + ?cnt \<le> 2 ^ 32"
  proof
    fix f assume "f \<in> set [0..<n]"
    then have "Suc f \<le> n" by simp
    then have "Suc f * ?cnt \<le> n * ?cnt" by (rule mult_le_mono1)
    also have "\<dots> \<le> (?cnt + 1) * n" by simp
    finally show "f * ?cnt + ?cnt \<le> 2 ^ 32" using heap by simp
  qed
  show "cbv_heap_ok n szObj s"
    unfolding cbv_heap_ok_def
  proof (intro allI impI)
    fix c i assume c: "c < n" and i0: "i < length (mAllRitems s)"
    then have i: "i < ?cnt" by (simp add: s items)
    let ?j = "c * ?cnt + i"
    from c have "Suc c \<le> n" by simp
    then have "Suc c * ?cnt \<le> n * ?cnt" by (rule mult_le_mono1)
    with i have "?j < n * ?cnt" by simp
    also have "\<dots> \<le> (?cnt + 1) * n" by simp
    finally have j: "?j < (?cnt + 1) * n" .
    with heap have len: "?j < length (replicate (((?cnt + 1) * n) mod 2 ^ 32)
        (None :: D3D12_CONSTANT_BUFFER_VIEW_DESC option))" by simp
    from i have pos: "0 < ?cnt" by (cases blocks) simp_all
    from i pos have dm: "?j div ?cnt = c" "?j mod ?cnt = i" by simp_all
    from c have ex: "\<exists>f\<in>set [0..<n]. f * ?cnt \<le> ?j \<and> ?j < f * ?cnt + ?cnt"
      using i by (intro bexI [of _ c]) simp_all
    from base c have b: "objBase c + ?cnt * CalcConstantBufferByteSize szObj < 2 ^ 64" by simp
    have fr: "ObjectCB (ShapesApp_BuildFrameResources n objBase szObj (ShapesApp_BuildRenderItems n blocks) ! c)
        = (UploadBuffer_new (objBase c) szObj ?cnt :: 'a ShapesObjectConstants UploadBuffer)"
      using c by (simp add: ShapesApp_BuildFrameResources_def ShapesFrameResource_new_def)
    have "mCbvHeap s ! ?j =
        Some \<lparr> BufferLocation = (objBase c + (i * CalcConstantBufferByteSize szObj) mod 2 ^ 32) mod 2 ^ 64,
               SizeInBytes = CalcConstantBufferByteSize szObj \<rparr>"
      unfolding s h BuildConstantBufferViews_frames_nth [OF fits len]
      using ex i by (simp add: dm fr UploadBuffer_new_def)
    also have "(objBase c + (i * CalcConstantBufferByteSize szObj) mod 2 ^ 32) mod 2 ^ 64
        = objBase c + i * CalcConstantBufferByteSize szObj"
      using i sz b by (rule bind_address_nowrap)
    finally have "mCbvHeap s ! ?j =
        Some \<lparr> BufferLocation = write_address (ObjectCB (mFrameResources s ! c)) i,
               SizeInBytes = CalcConstantBufferByteSize szObj \<rparr>"
      by (simp add: write_address_def s frs fr UploadBuffer_new_def)
    moreover from len have "?j < length (mCbvHeap s)" by (simp add: s h)
    ultimately show "c * length (mAllRitems s) + i < length (mCbvHeap s) \<and>
        mCbvHeap s ! (c * length (mAllRitems s) + i) =
          Some \<lparr> BufferLocation = write_address (ObjectCB (mFrameResources s ! c)) i,
                 SizeInBytes = CalcConstantBufferByteSize szObj \<rparr>"
      by (simp add: s items)
  qed
qed

lemma cbv_heap_ok_Frame:
  fixes s s' :: "'a Shapes"
  assumes ok: "cbv_heap_ok n szObj s" and len: "length (mFrameResources s) = n"
    and f: "Frame (ShapesApp_Update n gpu) Draw s = Some (Inr s')"
  shows "cbv_heap_ok n szObj s'"
proof -
  from f have p: "object_pass n ShapesApp_objConstants s s'" by (rule ShapesApp_Frame_object_pass)
  from f have h: "mCbvHeap s' = mCbvHeap s" and items: "mAllRitems s' = map tick (mAllRitems s)"
    by (rule ShapesApp_Frame, simp)+
  show ?thesis
    unfolding cbv_heap_ok_def
  proof (intro allI impI)
    fix c i assume c: "c < n" and i: "i < length (mAllRitems s')"
    with items have i0: "i < length (mAllRitems s)" by simp
    from c len have "c < length (mFrameResources s)" by simp
    from object_pass_write_address [OF p this]
    have w: "write_address (ObjectCB (mFrameResources s' ! c)) i
        = write_address (ObjectCB (mFrameResources s ! c)) i" .
    from ok c i0 show "c * length (mAllRitems s') + i < length (mCbvHeap s') \<and>
        mCbvHeap s' ! (c * length (mAllRitems s') + i) =
          Some \<lparr> BufferLocation = write_address (ObjectCB (mFrameResources s' ! c)) i,
                 SizeInBytes = CalcConstantBufferByteSize szObj \<rparr>"
      by (simp add: cbv_heap_ok_def h items w)
  qed
qed

lemma ShapesApp_bind_address:
  fixes s :: "'a Shapes"
  assumes ok: "object_regions_ok n szObj s" and heap: "cbv_heap_ok n szObj s"
    and wrap: "(length (mAllRitems s) + 1) * n < 2 ^ 32"
    and ri: "ri \<in> set (mAllRitems s)"
  shows "map (\<lambda>x. mCbvHeap s ! x) (ShapesApp_DrawRenderItems s [ri]) =
     [Some \<lparr> BufferLocation =
               write_address (ObjectCB (mFrameResources s ! mCurrFrameResourceIndex s)) (ObjCBIndex ri),
             SizeInBytes = CalcConstantBufferByteSize szObj \<rparr>]"
proof -
  let ?cnt = "length (mAllRitems s)" and ?c = "mCurrFrameResourceIndex s"
  from ok have c: "?c < n" by (simp add: object_regions_ok_def)
  from ok ri have i: "ObjCBIndex ri < ?cnt" by (simp add: object_regions_ok_def)
  from c have "Suc ?c \<le> n" by simp
  then have "Suc ?c * ?cnt \<le> n * ?cnt" by (rule mult_le_mono1)
  with i have "?c * ?cnt + ObjCBIndex ri < n * ?cnt" by simp
  also have "\<dots> \<le> (?cnt + 1) * n" by simp
  finally have "?c * ?cnt + ObjCBIndex ri < 2 ^ 32" using wrap by simp
  then have m: "(?c * ?cnt + ObjCBIndex ri) mod 2 ^ 32 = ?c * ?cnt + ObjCBIndex ri" by simp
  from heap c i have "mCbvHeap s ! (?c * ?cnt + ObjCBIndex ri) =
      Some \<lparr> BufferLocation = write_address (ObjectCB (mFrameResources s ! ?c)) (ObjCBIndex ri),
             SizeInBytes = CalcConstantBufferByteSize szObj \<rparr>"
    by (simp add: cbv_heap_ok_def)
  then show ?thesis
    unfolding ShapesApp_DrawRenderItems_def list.map m by simp
qed

subsection \<open>What the GPU reads at the bound address\<close>

lemma gpu_read_CopyData:
  assumes "CopyData i d cb = Inr cb'"
  shows "gpu_read cb' a = (if a = write_address cb i then Some d else gpu_read cb a)"
proof -
  from assms have m: "mapped cb' = (mapped cb)(i * alignedRecordSize cb \<mapsto> d)"
    and b: "GetGPUVirtualAddress cb' = GetGPUVirtualAddress cb"
    by (auto simp: CopyData_def split: if_splits)
  show ?thesis
    by (auto simp: gpu_read_def write_address_def m b)
qed

lemma UpdateObjectCBs_loop_written:
  assumes "UpdateObjectCBs_loop mk cb es = Inr (cb', es')" "distinct (map ObjCBIndex es)"
    and "0 < alignedRecordSize cb" "e \<in> set es" "NumFramesDirty e > 0"
  shows "gpu_read cb' (write_address cb (ObjCBIndex e)) = Some (mk e)"
  using UpdateObjectCBs_loop_mapped_written [OF assms] UpdateObjectCBs_loop_Inr [OF assms(1)]
  by (simp add: gpu_read_def write_address_def)

lemma object_pass_written:
  fixes s s' :: "(('c, 'x) ShapesFrameResource_scheme, ('a, 'y) ShapesRenderItem_scheme, 'z) App_scheme"
  assumes ok: "object_regions_ok n szObj s" and sz: "0 < szObj"
    and p: "object_pass n mk s s'" and e: "e \<in> set (mAllRitems s)" "0 < NumFramesDirty e"
  shows "gpu_read (ObjectCB (mFrameResources s' ! mCurrFrameResourceIndex s'))
           (write_address (ObjectCB (mFrameResources s' ! mCurrFrameResourceIndex s')) (ObjCBIndex e))
         = Some (mk e)"
proof -
  let ?i = "(mCurrFrameResourceIndex s + 1) mod n"
  from p have i: "?i < length (mFrameResources s)"
    and idx': "mCurrFrameResourceIndex s' = ?i"
    and loop: "UpdateObjectCBs_loop mk (ObjectCB (mFrameResources s ! ?i)) (mAllRitems s)
        = Inr (ObjectCB (mFrameResources s' ! ?i), map tick (mAllRitems s))"
    by (simp_all add: object_pass_def Let_def)
  from ok have dist: "distinct (map ObjCBIndex (mAllRitems s))"
    and frs: "\<forall>fr\<in>set (mFrameResources s).
        alignedRecordSize (ObjectCB fr) = CalcConstantBufferByteSize szObj \<and>
        capacity (ObjectCB fr) = length (mAllRitems s) \<and>
        length (mAllRitems s) * CalcConstantBufferByteSize szObj < 2 ^ 32 \<and>
        GetGPUVirtualAddress (ObjectCB fr) + length (mAllRitems s) * CalcConstantBufferByteSize szObj
          < 2 ^ 64"
    by (simp_all add: object_regions_ok_def)
  from i have "mFrameResources s ! ?i \<in> set (mFrameResources s)" by simp
  from bspec [OF frs this] CalcConstantBufferByteSize_pos [OF sz]
  have pos: "0 < alignedRecordSize (ObjectCB (mFrameResources s ! ?i))" by simp
  from UpdateObjectCBs_loop_written [OF loop dist pos e]
  show ?thesis
    unfolding idx' object_pass_write_address [OF p i] .
qed

lemma TexWaves_Run_regions:
  fixes s s' :: "'a TexWaves"
  assumes "object_regions_ok n szObj s" "Run (Update n gpu scroll) Draw k s = Some (Inr s')"
  shows "object_regions_ok n szObj s'"
proof (rule Run_invariant [where P = "object_regions_ok n szObj", OF _ assms])
  fix t t' :: "'a TexWaves"
  assume "object_regions_ok n szObj t" "Frame (Update n gpu scroll) Draw t = Some (Inr t')"
  then show "object_regions_ok n szObj t'"
    by (rule object_regions_ok_pass [OF _ TexWaves_Frame_object_pass])
qed

lemma ShapesApp_Run_regions:
  fixes s s' :: "'a Shapes"
  assumes "object_regions_ok n szObj s \<and> cbv_heap_ok n szObj s"
    and "Run (ShapesApp_Update n gpu) Draw k s = Some (Inr s')"
  shows "object_regions_ok n szObj s' \<and> cbv_heap_ok n szObj s'"
proof (rule Run_invariant [where P = "\<lambda>s. object_regions_ok n szObj s \<and> cbv_heap_ok n szObj s",
      OF _ assms])
  fix t t' :: "'a Shapes"
  assume a: "object_regions_ok n szObj t \<and> cbv_heap_ok n szObj t"
    and f: "Frame (ShapesApp_Update n gpu) Draw t = Some (Inr t')"
  from a have len: "length (mFrameResources t) = n" by (simp add: object_regions_ok_def)
  from a have r: "object_regions_ok n szObj t" and h: "cbv_heap_ok n szObj t" by simp_all
  from r ShapesApp_Frame_object_pass [OF f] have "object_regions_ok n szObj t'"
    by (rule object_regions_ok_pass)
  moreover from h len f have "cbv_heap_ok n szObj t'"
    by (rule cbv_heap_ok_Frame)
  ultimately show "object_regions_ok n szObj t' \<and> cbv_heap_ok n szObj t'" ..
qed

lemma Run_length_items:
  fixes s s' :: "'a Shapes"
  assumes "Run (ShapesApp_Update n gpu) Draw k s = Some (Inr s')"
  shows "length (mAllRitems s') = length (mAllRitems s)"
proof (rule Run_invariant [where P = "\<lambda>t. length (mAllRitems t) = length (mAllRitems s)",
      OF _ _ assms])
  fix t t' :: "'a Shapes"
  assume a: "length (mAllRitems t) = length (mAllRitems s)"
    and f: "Frame (ShapesApp_Update n gpu) Draw t = Some (Inr t')"
  from f have "mAllRitems t' = map tick (mAllRitems t)" by (rule ShapesApp_Frame)
  with a show "length (mAllRitems t') = length (mAllRitems s)" by simp
qed simp

text \<open>
  C3. The address at which the write path stores the constants of object \<open>i\<close> in the
  per-object region of a frame resource is the address that the draw path binds for
  object \<open>i\<close> while that frame resource is current. The write of \<^verbatim>\<open>CopyData\<close>, as the
  spec describes it, changes what the GPU reads at exactly one address, the region's
  base plus \<open>i\<close> records (\<open>write_address\<close>). In every state that the message loop
  reaches from initialisation, with a scene whose regions fit the address arithmetic,
  \<^verbatim>\<open>TexWavesApp::DrawRenderItems\<close> binds that address for every render item, and the
  descriptor that \<^verbatim>\<open>ShapesApp::DrawRenderItems\<close> selects for a render item, built by
  \<^verbatim>\<open>BuildConstantBufferViews\<close>, holds that address. After a frame, the GPU reads at that
  address of the current frame resource the constants of every item that was dirty.
\<close>

theorem write_address_is_bind_address:
  fixes cb cb' :: "'c UploadBuffer" and s s' :: "'a TexWaves" and sh0 sh sh' :: "'b Shapes"
  shows "(CopyData i d cb = Inr cb' \<longrightarrow>
            (\<forall>a. gpu_read cb' a = (if a = write_address cb i then Some d else gpu_read cb a)))
       \<and> (0 < n \<and> 0 < szObj \<and> length blocks * CalcConstantBufferByteSize szObj < 2 ^ 32 \<and>
          (\<forall>c<n. objBase c + length blocks * CalcConstantBufferByteSize szObj < 2 ^ 64) \<and>
          Run (Update n gpu scroll) Draw k (Initialize n objBase matBase szObj szMat ident lit blocks)
            = Some (Inr s) \<longrightarrow>
            (\<forall>e\<in>set (mAllRitems s).
               (\<forall>binds. DrawRenderItems szObj szMat s [e] = Inr binds \<longrightarrow>
                  map fst binds =
                    [write_address (ObjectCB (mFrameResources s ! mCurrFrameResourceIndex s))
                       (ObjCBIndex e)]) \<and>
               (Frame (Update n gpu scroll) Draw s = Some (Inr s') \<and> 0 < NumFramesDirty e \<longrightarrow>
                  gpu_read (ObjectCB (mFrameResources s' ! mCurrFrameResourceIndex s'))
                    (write_address (ObjectCB (mFrameResources s' ! mCurrFrameResourceIndex s'))
                       (ObjCBIndex e))
                  = Some (objConstants e))))
       \<and> (0 < n \<and> 0 < shSz \<and> (length worlds + 1) * n < 2 ^ 32 \<and>
          length worlds * CalcConstantBufferByteSize shSz < 2 ^ 32 \<and>
          (\<forall>c<n. shBase c + length worlds * CalcConstantBufferByteSize shSz < 2 ^ 64) \<and>
          ShapesApp_Initialize n shBase shSz worlds = Inr sh0 \<and>
          Run (ShapesApp_Update n gpu) Draw k sh0 = Some (Inr sh) \<longrightarrow>
            (\<forall>e\<in>set (mAllRitems sh).
               map (\<lambda>x. mCbvHeap sh ! x) (ShapesApp_DrawRenderItems sh [e]) =
                 [Some \<lparr> BufferLocation =
                           write_address (ObjectCB (mFrameResources sh ! mCurrFrameResourceIndex sh))
                             (ObjCBIndex e),
                         SizeInBytes = CalcConstantBufferByteSize shSz \<rparr>] \<and>
               (Frame (ShapesApp_Update n gpu) Draw sh = Some (Inr sh') \<and> 0 < NumFramesDirty e \<longrightarrow>
                  gpu_read (ObjectCB (mFrameResources sh' ! mCurrFrameResourceIndex sh'))
                    (write_address (ObjectCB (mFrameResources sh' ! mCurrFrameResourceIndex sh'))
                       (ObjCBIndex e))
                  = Some (ShapesApp_objConstants e))))"
proof (intro conjI impI)
  assume "CopyData i d cb = Inr cb'"
  then show "\<forall>a. gpu_read cb' a = (if a = write_address cb i then Some d else gpu_read cb a)"
    by (simp add: gpu_read_CopyData)
next
  assume a: "0 < n \<and> 0 < szObj \<and> length blocks * CalcConstantBufferByteSize szObj < 2 ^ 32 \<and>
      (\<forall>c<n. objBase c + length blocks * CalcConstantBufferByteSize szObj < 2 ^ 64) \<and>
      Run (Update n gpu scroll) Draw k (Initialize n objBase matBase szObj szMat ident lit blocks)
        = Some (Inr s)"
  then have "object_regions_ok n szObj (Initialize n objBase matBase szObj szMat ident lit blocks)"
    by (intro Initialize_regions) simp_all
  with a have ok: "object_regions_ok n szObj s" by (elim conjE TexWaves_Run_regions)
  from a have sz: "0 < szObj" by simp
  show "\<forall>e\<in>set (mAllRitems s).
     (\<forall>binds. DrawRenderItems szObj szMat s [e] = Inr binds \<longrightarrow>
        map fst binds =
          [write_address (ObjectCB (mFrameResources s ! mCurrFrameResourceIndex s)) (ObjCBIndex e)]) \<and>
     (Frame (Update n gpu scroll) Draw s = Some (Inr s') \<and> 0 < NumFramesDirty e \<longrightarrow>
        gpu_read (ObjectCB (mFrameResources s' ! mCurrFrameResourceIndex s'))
          (write_address (ObjectCB (mFrameResources s' ! mCurrFrameResourceIndex s')) (ObjCBIndex e))
        = Some (objConstants e))"
  proof (intro ballI conjI allI impI)
    fix e binds assume "e \<in> set (mAllRitems s)" "DrawRenderItems szObj szMat s [e] = Inr binds"
    with ok show "map fst binds =
        [write_address (ObjectCB (mFrameResources s ! mCurrFrameResourceIndex s)) (ObjCBIndex e)]"
      by (rule TexWaves_bind_address)
  next
    fix e assume e: "e \<in> set (mAllRitems s)"
      and f: "Frame (Update n gpu scroll) Draw s = Some (Inr s') \<and> 0 < NumFramesDirty e"
    from f have "Frame (Update n gpu scroll) Draw s = Some (Inr s')" by simp
    then have p: "object_pass n objConstants s s'" by (rule TexWaves_Frame_object_pass)
    from f have "0 < NumFramesDirty e" by simp
    with ok sz p e show "gpu_read (ObjectCB (mFrameResources s' ! mCurrFrameResourceIndex s'))
          (write_address (ObjectCB (mFrameResources s' ! mCurrFrameResourceIndex s')) (ObjCBIndex e))
        = Some (objConstants e)"
      by (rule object_pass_written)
  qed
next
  assume a: "0 < n \<and> 0 < shSz \<and> (length worlds + 1) * n < 2 ^ 32 \<and>
      length worlds * CalcConstantBufferByteSize shSz < 2 ^ 32 \<and>
      (\<forall>c<n. shBase c + length worlds * CalcConstantBufferByteSize shSz < 2 ^ 64) \<and>
      ShapesApp_Initialize n shBase shSz worlds = Inr sh0 \<and>
      Run (ShapesApp_Update n gpu) Draw k sh0 = Some (Inr sh)"
  then have init: "ShapesApp_Initialize n shBase shSz worlds = Inr sh0" and n: "0 < n"
    and w: "(length worlds + 1) * n < 2 ^ 32"
    and b1: "length worlds * CalcConstantBufferByteSize shSz < 2 ^ 32"
    and b2: "\<forall>c<n. shBase c + length worlds * CalcConstantBufferByteSize shSz < 2 ^ 64"
    and run: "Run (ShapesApp_Update n gpu) Draw k sh0 = Some (Inr sh)" and sz: "0 < shSz"
    by simp_all
  note I = ShapesApp_Initialize_regions [OF init n w b1 b2]
  from I have "object_regions_ok n shSz sh0 \<and> cbv_heap_ok n shSz sh0" by simp
  from ShapesApp_Run_regions [OF this run]
  have ok: "object_regions_ok n shSz sh" and heap: "cbv_heap_ok n shSz sh" by simp_all
  obtain t :: "'b Shapes" where "ShapesApp_Initialize n shBase shSz worlds = Inr t"
    and "mAllRitems t = ShapesApp_BuildRenderItems n worlds"
    by (rule ShapesApp_Initialize_Inr)
  with init have "length (mAllRitems sh0) = length worlds" by simp
  with Run_length_items [OF run] w have wrap: "(length (mAllRitems sh) + 1) * n < 2 ^ 32" by simp
  show "\<forall>e\<in>set (mAllRitems sh).
     map (\<lambda>x. mCbvHeap sh ! x) (ShapesApp_DrawRenderItems sh [e]) =
       [Some \<lparr> BufferLocation =
                 write_address (ObjectCB (mFrameResources sh ! mCurrFrameResourceIndex sh))
                   (ObjCBIndex e),
               SizeInBytes = CalcConstantBufferByteSize shSz \<rparr>] \<and>
     (Frame (ShapesApp_Update n gpu) Draw sh = Some (Inr sh') \<and> 0 < NumFramesDirty e \<longrightarrow>
        gpu_read (ObjectCB (mFrameResources sh' ! mCurrFrameResourceIndex sh'))
          (write_address (ObjectCB (mFrameResources sh' ! mCurrFrameResourceIndex sh'))
             (ObjCBIndex e))
        = Some (ShapesApp_objConstants e))"
  proof (intro ballI conjI impI)
    fix e assume "e \<in> set (mAllRitems sh)"
    with ok heap wrap show "map (\<lambda>x. mCbvHeap sh ! x) (ShapesApp_DrawRenderItems sh [e]) =
       [Some \<lparr> BufferLocation =
                 write_address (ObjectCB (mFrameResources sh ! mCurrFrameResourceIndex sh))
                   (ObjCBIndex e),
               SizeInBytes = CalcConstantBufferByteSize shSz \<rparr>]"
      by (rule ShapesApp_bind_address)
  next
    fix e assume e: "e \<in> set (mAllRitems sh)"
      and f: "Frame (ShapesApp_Update n gpu) Draw sh = Some (Inr sh') \<and> 0 < NumFramesDirty e"
    from f have "Frame (ShapesApp_Update n gpu) Draw sh = Some (Inr sh')" by simp
    then have p: "object_pass n ShapesApp_objConstants sh sh'"
      by (rule ShapesApp_Frame_object_pass)
    from f have "0 < NumFramesDirty e" by simp
    with ok sz p e show "gpu_read (ObjectCB (mFrameResources sh' ! mCurrFrameResourceIndex sh'))
          (write_address (ObjectCB (mFrameResources sh' ! mCurrFrameResourceIndex sh'))
             (ObjCBIndex e))
        = Some (ShapesApp_objConstants e)"
      by (rule object_pass_written)
  qed
qed

lemma castle_second_item:
  "mAllRitems castle ! 1 =
     \<lparr> World = [[2, 0], [0, 2]], NumFramesDirty = 3, ObjCBIndex = 1,
       TexTransform = [[1, 0], [0, 1]], Mat = ''stone'' \<rparr>"
  "length (mAllRitems castle) = 2"
  by (simp_all add: castle_def Initialize_def Let_def BuildRenderItems_def)

lemma castle_draw:
  "DrawRenderItems 128 80 castle [mAllRitems castle ! 1] = Inr [(256, 66304)]"
  unfolding castle_second_item
  by (simp add: castle_def Initialize_def Let_def DrawRenderItems_def BuildFrameResources_def
      FrameResource_new_def UploadBuffer_new_def BuildMaterials_eq new_Material_def
      CalcConstantBufferByteSize_def)

theorem write_address_is_bind_address_witness:
  "\<exists>cb' s' sh0 sh'.
     CopyData 1 (7::nat) (UploadBuffer_new 4096 128 2) = Inr cb' \<and>
     gpu_read cb' 4352 = Some 7 \<and> gpu_read cb' 4096 = None \<and>
     Run (Update 3 steady_gpu id) Draw 0 castle = Some (Inr castle) \<and>
     mAllRitems castle ! 1 \<in> set (mAllRitems castle) \<and>
     DrawRenderItems 128 80 castle [mAllRitems castle ! 1] = Inr [(256, 66304)] \<and>
     write_address (ObjectCB (mFrameResources castle ! mCurrFrameResourceIndex castle))
       (ObjCBIndex (mAllRitems castle ! 1)) = 256 \<and>
     Frame (Update 3 steady_gpu id) Draw castle = Some (Inr s') \<and>
     gpu_read (ObjectCB (mFrameResources s' ! mCurrFrameResourceIndex s'))
       (write_address (ObjectCB (mFrameResources s' ! mCurrFrameResourceIndex s')) 1)
       = Some (objConstants (mAllRitems castle ! 1)) \<and>
     ShapesApp_Initialize 3 (\<lambda>i. 4096 * i) 64 shape_worlds = Inr sh0 \<and>
     map (\<lambda>x. mCbvHeap sh0 ! x) (ShapesApp_DrawRenderItems sh0 [mAllRitems sh0 ! 1])
       = [Some \<lparr> BufferLocation = 256, SizeInBytes = 256 \<rparr>] \<and>
     Frame (ShapesApp_Update 3 steady_gpu) Draw sh0 = Some (Inr sh') \<and>
     gpu_read (ObjectCB (mFrameResources sh' ! mCurrFrameResourceIndex sh'))
       (write_address (ObjectCB (mFrameResources sh' ! mCurrFrameResourceIndex sh')) 1)
       = Some (ShapesApp_objConstants (mAllRitems sh0 ! 1))"
proof -
  let ?cb = "UploadBuffer_new 4096 128 2 :: nat UploadBuffer"
  let ?e = "mAllRitems castle ! 1"
  obtain cb' where c: "CopyData 1 (7::nat) ?cb = Inr cb'"
    by (simp add: CopyData_def UploadBuffer_new_def)
  from castle_runs [of 1] obtain s' where "Run (Update 3 steady_gpu id) Draw (Suc 0) castle = Some (Inr s')"
    by auto
  then have f: "Frame (Update 3 steady_gpu id) Draw castle = Some (Inr s')"
    by (auto split: option.splits sum.splits)
  obtain sh0 :: "nat Shapes" where i: "ShapesApp_Initialize 3 (\<lambda>i. 4096 * i) 64 shape_worlds = Inr sh0"
    and items: "mAllRitems sh0 = ShapesApp_BuildRenderItems 3 shape_worlds"
    and frs: "mFrameResources sh0 =
        ShapesApp_BuildFrameResources 3 (\<lambda>i. 4096 * i) 64 (ShapesApp_BuildRenderItems 3 shape_worlds)"
    and z: "mCurrFrameResourceIndex sh0 = 0"
    by (rule ShapesApp_Initialize_Inr)
  from ShapesApp_Run_live [OF ShapesApp_Initialize_fit(1,2) [OF i] steady_gpu_live, of 1]
  obtain sh' where "Run (ShapesApp_Update 3 steady_gpu) Draw (Suc 0) sh0 = Some (Inr sh')" by auto
  then have g: "Frame (ShapesApp_Update 3 steady_gpu) Draw sh0 = Some (Inr sh')"
    by (auto split: option.splits sum.splits)
  have e: "?e \<in> set (mAllRitems castle)" by (simp add: castle_second_item(2))
  have se: "mAllRitems sh0 ! 1 \<in> set (mAllRitems sh0)" by (simp add: items shape_worlds_def)
  have sv: "ObjCBIndex (mAllRitems sh0 ! 1) = 1" "0 < NumFramesDirty (mAllRitems sh0 ! 1)"
    by (simp_all add: items shape_worlds_def ShapesApp_BuildRenderItems_def)
  have ev: "ObjCBIndex ?e = 1" "0 < NumFramesDirty ?e" unfolding castle_second_item(1) by simp_all
  have sizes: "length shape_worlds = 2" "CalcConstantBufferByteSize 128 = 256"
    "CalcConstantBufferByteSize 64 = 256"
    by (simp_all add: shape_worlds_def CalcConstantBufferByteSize_def)
  have r0: "Run (Update 3 steady_gpu id) Draw 0 castle = Some (Inr castle)"
    "Run (ShapesApp_Update 3 steady_gpu) Draw 0 sh0 = Some (Inr sh0)" by simp_all
  note T = write_address_is_bind_address
    [where i = 1 and d = 7 and cb = ?cb and cb' = cb' and n = 3 and szObj = 128
       and blocks = "[([[1, 2], [3, 4]], [[5, 0], [0, 5]], ''water''),
                      ([[2, 0], [0, 2]], [[1, 0], [0, 1]], ''stone'')]
                     :: (nat XMFLOAT4X4 \<times> nat XMFLOAT4X4 \<times> string) list"
       and objBase = "\<lambda>i. 4096 * i" and matBase = "\<lambda>i. 65536 + 4096 * i" and szMat = 80
       and ident = "[[1, 0], [0, 1]]" and lit = "\<lambda>name. ([1, 1, 1, 1], [0, 0, 0], 0)"
       and gpu = steady_gpu and scroll = id and k = 0 and s = castle and s' = s'
       and shSz = 64 and worlds = shape_worlds and shBase = "\<lambda>i. 4096 * i"
       and ?sh0.0 = sh0 and sh = sh0 and sh' = sh', folded castle_def]
  from T c have w: "\<forall>a. gpu_read cb' a = (if a = write_address ?cb 1 then Some 7 else gpu_read ?cb a)"
    by blast
  have wa: "write_address ?cb 1 = 4352"
    by (simp add: write_address_def UploadBuffer_new_def CalcConstantBufferByteSize_def)
  from w wa have 1: "gpu_read cb' 4352 = Some 7" "gpu_read cb' 4096 = None"
    by (simp_all add: gpu_read_def UploadBuffer_new_def)
  have tex: "\<forall>e\<in>set (mAllRitems castle).
       (\<forall>binds. DrawRenderItems 128 80 castle [e] = Inr binds \<longrightarrow>
          map fst binds =
            [write_address (ObjectCB (mFrameResources castle ! mCurrFrameResourceIndex castle))
               (ObjCBIndex e)]) \<and>
       (Frame (Update 3 steady_gpu id) Draw castle = Some (Inr s') \<and> 0 < NumFramesDirty e \<longrightarrow>
          gpu_read (ObjectCB (mFrameResources s' ! mCurrFrameResourceIndex s'))
            (write_address (ObjectCB (mFrameResources s' ! mCurrFrameResourceIndex s')) (ObjCBIndex e))
          = Some (objConstants e))"
    using T r0(1) by (simp add: sizes)
  from bspec [OF tex e] castle_draw
  have 2: "write_address (ObjectCB (mFrameResources castle ! mCurrFrameResourceIndex castle))
       (ObjCBIndex ?e) = 256" by simp
  from bspec [OF tex e] f ev
  have 3: "gpu_read (ObjectCB (mFrameResources s' ! mCurrFrameResourceIndex s'))
       (write_address (ObjectCB (mFrameResources s' ! mCurrFrameResourceIndex s')) 1)
       = Some (objConstants ?e)" by simp
  have sh: "\<forall>e\<in>set (mAllRitems sh0).
       map (\<lambda>x. mCbvHeap sh0 ! x) (ShapesApp_DrawRenderItems sh0 [e]) =
         [Some \<lparr> BufferLocation =
                   write_address (ObjectCB (mFrameResources sh0 ! mCurrFrameResourceIndex sh0))
                     (ObjCBIndex e),
                 SizeInBytes = CalcConstantBufferByteSize 64 \<rparr>] \<and>
       (Frame (ShapesApp_Update 3 steady_gpu) Draw sh0 = Some (Inr sh') \<and> 0 < NumFramesDirty e \<longrightarrow>
          gpu_read (ObjectCB (mFrameResources sh' ! mCurrFrameResourceIndex sh'))
            (write_address (ObjectCB (mFrameResources sh' ! mCurrFrameResourceIndex sh'))
               (ObjCBIndex e))
          = Some (ShapesApp_objConstants e))"
    using T i r0(2) by (simp add: sizes)
  have swa: "write_address (ObjectCB (mFrameResources sh0 ! mCurrFrameResourceIndex sh0)) 1 = 256"
    by (simp add: z frs write_address_def ShapesApp_BuildFrameResources_def
        ShapesFrameResource_new_def UploadBuffer_new_def sizes)
  from bspec [OF sh se] sv swa
  have 4: "map (\<lambda>x. mCbvHeap sh0 ! x) (ShapesApp_DrawRenderItems sh0 [mAllRitems sh0 ! 1])
       = [Some \<lparr> BufferLocation = 256, SizeInBytes = 256 \<rparr>]"
    by (simp add: sizes)
  from bspec [OF sh se] g sv
  have 5: "gpu_read (ObjectCB (mFrameResources sh' ! mCurrFrameResourceIndex sh'))
       (write_address (ObjectCB (mFrameResources sh' ! mCurrFrameResourceIndex sh')) 1)
       = Some (ShapesApp_objConstants (mAllRitems sh0 ! 1))" by simp
  show ?thesis
    by (rule exI [of _ cb'], rule exI [of _ s'], rule exI [of _ sh0], rule exI [of _ sh'])
      (intro conjI c 1 r0(1) e castle_draw 2 f 3 i 4 g 5)
qed

subsection \<open>The offset of an object's constants\<close>

lemma object_regions_ok_size:
  assumes "object_regions_ok n szObj s" "j < n"
  shows "alignedRecordSize (ObjectCB (mFrameResources s ! j)) = CalcConstantBufferByteSize szObj"
proof -
  from assms have "mFrameResources s ! j \<in> set (mFrameResources s)"
    by (simp add: object_regions_ok_def)
  with assms(1) show ?thesis by (simp add: object_regions_ok_def)
qed

lemma object_pass_stored:
  fixes s s' :: "(('c, 'x) ShapesFrameResource_scheme, ('a, 'y) ShapesRenderItem_scheme, 'z) App_scheme"
  assumes ok: "object_regions_ok n szObj s" and sz: "0 < szObj"
    and p: "object_pass n mk s s'" and e: "e \<in> set (mAllRitems s)" "0 < NumFramesDirty e"
  shows "mapped (ObjectCB (mFrameResources s' ! mCurrFrameResourceIndex s'))
           (ObjCBIndex e * CalcConstantBufferByteSize szObj) = Some (mk e)"
proof -
  from ok p have ok': "object_regions_ok n szObj s'" by (rule object_regions_ok_pass)
  then have "mCurrFrameResourceIndex s' < n" by (simp add: object_regions_ok_def)
  from object_regions_ok_size [OF ok' this] object_pass_written [OF ok sz p e]
  show ?thesis by (simp add: gpu_read_def write_address_def)
qed

lemma ShapesApp_DrawRenderItems_index:
  fixes s :: "'a Shapes"
  assumes ok: "object_regions_ok n szObj s"
    and wrap: "(length (mAllRitems s) + 1) * n < 2 ^ 32"
    and ri: "ri \<in> set (mAllRitems s)"
  shows "ShapesApp_DrawRenderItems s [ri] =
     [ring_offset (mCurrFrameResourceIndex s) (length (mAllRitems s)) (ObjCBIndex ri)]"
proof -
  let ?cnt = "length (mAllRitems s)" and ?c = "mCurrFrameResourceIndex s"
  from ok have c: "?c < n" by (simp add: object_regions_ok_def)
  from ok ri have i: "ObjCBIndex ri < ?cnt" by (simp add: object_regions_ok_def)
  from c have "Suc ?c \<le> n" by simp
  then have "Suc ?c * ?cnt \<le> n * ?cnt" by (rule mult_le_mono1)
  with i have "?c * ?cnt + ObjCBIndex ri < n * ?cnt" by simp
  also have "\<dots> \<le> (?cnt + 1) * n" by simp
  finally have "?c * ?cnt + ObjCBIndex ri < 2 ^ 32" using wrap by simp
  then have m: "(?c * ?cnt + ObjCBIndex ri) mod 2 ^ 32 = ?c * ?cnt + ObjCBIndex ri" by simp
  show ?thesis
    unfolding ShapesApp_DrawRenderItems_def list.map m ring_offset_def ..
qed

lemma cbv_heap_ok_offset:
  fixes s :: "'a Shapes"
  assumes ok: "object_regions_ok n szObj s" and heap: "cbv_heap_ok n szObj s"
    and c: "c < n" and i: "i < length (mAllRitems s)"
  shows "mCbvHeap s ! ring_offset c (length (mAllRitems s)) i =
     Some \<lparr> BufferLocation =
              GetGPUVirtualAddress (ObjectCB (mFrameResources s ! c)) + i * CalcConstantBufferByteSize szObj,
            SizeInBytes = CalcConstantBufferByteSize szObj \<rparr>"
  using heap c i object_regions_ok_size [OF ok c]
  by (simp add: cbv_heap_ok_def ring_offset_def write_address_def)

lemma castle_slot_1:
  "Update_wait 3 steady_gpu castle = Some (Inr (castle\<lparr>mCurrFrameResourceIndex := 1\<rparr>))"
  "GetGPUVirtualAddress (ObjectCB (mFrameResources castle ! 1)) = 4096"
  "alignedRecordSize (ObjectCB (mFrameResources castle ! 1)) = 256"
  "capacity (ObjectCB (mFrameResources castle ! 1)) = 2"
  by (simp_all add: Update_wait_def castle_def Initialize_def Let_def BuildFrameResources_def
      FrameResource_new_def UploadBuffer_new_def CalcConstantBufferByteSize_def
      BuildRenderItems_def)

lemma castle_draw_slot_1:
  "DrawRenderItems 128 80 (castle\<lparr>mCurrFrameResourceIndex := 1\<rparr>) [mAllRitems castle ! 1]
     = Inr [(4352, 70400)]"
  unfolding castle_second_item
  by (simp add: castle_def Initialize_def Let_def DrawRenderItems_def BuildFrameResources_def
      FrameResource_new_def UploadBuffer_new_def BuildMaterials_eq new_Material_def
      CalcConstantBufferByteSize_def)

text \<open>
  The specification places the constants of object \<open>i\<close>, inside the per-object region of
  frame resource \<open>s\<close>, at offset \<open>s\<close> times drawable count plus \<open>i\<close>. The code does not:
  each frame resource has a region of its own, and the offset inside it does not depend
  on \<open>s\<close>. In the scene \<open>castle\<close> (three frame resources, two items) the first \<^verbatim>\<open>Update\<close>
  selects frame resource 1; for the item with index 1 \<^verbatim>\<open>DrawRenderItems\<close> binds the base
  of that region plus one record, \<open>4096 + 1 * 256\<close>, while the specification's offset is
  \<open>1 * 2 + 1 = 3\<close> records, which is not even an element of the region (its capacity
  is 2).
\<close>

theorem object_offset_is_not_ring_offset:
  "Update_wait 3 steady_gpu castle = Some (Inr (castle\<lparr>mCurrFrameResourceIndex := 1\<rparr>))
   \<and> length (mAllRitems castle) = 2
   \<and> ObjCBIndex (mAllRitems castle ! 1) = 1
   \<and> GetGPUVirtualAddress (ObjectCB (mFrameResources castle ! 1)) = 4096
   \<and> alignedRecordSize (ObjectCB (mFrameResources castle ! 1)) = 256
   \<and> DrawRenderItems 128 80 (castle\<lparr>mCurrFrameResourceIndex := 1\<rparr>) [mAllRitems castle ! 1]
        = Inr [(4096 + 1 * 256, 70400)]
   \<and> ring_offset 1 (length (mAllRitems castle)) (ObjCBIndex (mAllRitems castle ! 1)) = 3
   \<and> (4096 :: nat) + 1 * 256
        \<noteq> 4096 + ring_offset 1 (length (mAllRitems castle)) (ObjCBIndex (mAllRitems castle ! 1)) * 256
   \<and> capacity (ObjectCB (mFrameResources castle ! 1)) = 2
   \<and> CopyData (ring_offset 1 (length (mAllRitems castle)) (ObjCBIndex (mAllRitems castle ! 1)))
        (objConstants (mAllRitems castle ! 1)) (ObjectCB (mFrameResources castle ! 1))
        = Inl OutOfRange"
proof -
  have i: "ObjCBIndex (mAllRitems castle ! 1) = 1" unfolding castle_second_item(1) by simp
  have r: "ring_offset 1 (length (mAllRitems castle)) (ObjCBIndex (mAllRitems castle ! 1)) = 3"
    unfolding i castle_second_item(2) by (simp add: ring_offset_def)
  have c: "CopyData (ring_offset 1 (length (mAllRitems castle)) (ObjCBIndex (mAllRitems castle ! 1)))
        (objConstants (mAllRitems castle ! 1)) (ObjectCB (mFrameResources castle ! 1))
        = Inl OutOfRange"
    unfolding r using castle_slot_1(4) by (simp add: CopyData_def)
  have d: "DrawRenderItems 128 80 (castle\<lparr>mCurrFrameResourceIndex := 1\<rparr>) [mAllRitems castle ! 1]
        = Inr [(4096 + 1 * 256, 70400)]"
    using castle_draw_slot_1 by simp
  have ne: "(4096 :: nat) + 1 * 256
        \<noteq> 4096 + ring_offset 1 (length (mAllRitems castle)) (ObjCBIndex (mAllRitems castle ! 1)) * 256"
    unfolding r by simp
  show ?thesis
    by (intro conjI castle_slot_1 castle_second_item(2) i d r ne c)
qed

text \<open>
  C4. For every frame resource \<open>s\<close> and every object with index \<open>i\<close>, the offset of the
  object's constants inside the per-object region of \<open>s\<close> is \<open>i\<close> records, the same in
  every frame resource; the write path and the draw path both use it. In every state that
  the message loop reaches from initialisation: \<^verbatim>\<open>TexWavesApp::DrawRenderItems\<close> binds the
  base of the current region plus \<open>i\<close> records, and a frame stores the constants of a dirty
  item at byte offset \<open>i\<close> records of the current region. In \<^verbatim>\<open>ShapesApp\<close> the number \<open>s\<close>
  times drawable count plus \<open>i\<close> is the index of a descriptor in the descriptor heap: for
  every \<open>s\<close> and \<open>i\<close> that descriptor holds the base of the region of \<open>s\<close> plus \<open>i\<close> records,
  \<^verbatim>\<open>DrawRenderItems\<close> selects it for the current frame resource, and a frame stores the
  constants of a dirty item at byte offset \<open>i\<close> records of the current region.
\<close>

theorem object_offset_is_index_in_every_slot:
  fixes s s' :: "'a TexWaves" and sh0 sh sh' :: "'b Shapes"
  shows "(0 < n \<and> 0 < szObj \<and> length blocks * CalcConstantBufferByteSize szObj < 2 ^ 32 \<and>
          (\<forall>c<n. objBase c + length blocks * CalcConstantBufferByteSize szObj < 2 ^ 64) \<and>
          Run (Update n gpu scroll) Draw k (Initialize n objBase matBase szObj szMat ident lit blocks)
            = Some (Inr s) \<longrightarrow>
            (\<forall>e\<in>set (mAllRitems s).
               (\<forall>binds. DrawRenderItems szObj szMat s [e] = Inr binds \<longrightarrow>
                  map fst binds =
                    [GetGPUVirtualAddress (ObjectCB (mFrameResources s ! mCurrFrameResourceIndex s))
                       + ObjCBIndex e * CalcConstantBufferByteSize szObj]) \<and>
               (Frame (Update n gpu scroll) Draw s = Some (Inr s') \<and> 0 < NumFramesDirty e \<longrightarrow>
                  mapped (ObjectCB (mFrameResources s' ! mCurrFrameResourceIndex s'))
                    (ObjCBIndex e * CalcConstantBufferByteSize szObj)
                  = Some (objConstants e))))
       \<and> (0 < n \<and> 0 < shSz \<and> (length worlds + 1) * n < 2 ^ 32 \<and>
          length worlds * CalcConstantBufferByteSize shSz < 2 ^ 32 \<and>
          (\<forall>c<n. shBase c + length worlds * CalcConstantBufferByteSize shSz < 2 ^ 64) \<and>
          ShapesApp_Initialize n shBase shSz worlds = Inr sh0 \<and>
          Run (ShapesApp_Update n gpu) Draw k sh0 = Some (Inr sh) \<longrightarrow>
            (\<forall>c<n. \<forall>i<length (mAllRitems sh).
               mCbvHeap sh ! ring_offset c (length (mAllRitems sh)) i =
                 Some \<lparr> BufferLocation =
                           GetGPUVirtualAddress (ObjectCB (mFrameResources sh ! c))
                             + i * CalcConstantBufferByteSize shSz,
                         SizeInBytes = CalcConstantBufferByteSize shSz \<rparr>) \<and>
            (\<forall>e\<in>set (mAllRitems sh).
               ShapesApp_DrawRenderItems sh [e] =
                 [ring_offset (mCurrFrameResourceIndex sh) (length (mAllRitems sh)) (ObjCBIndex e)] \<and>
               (Frame (ShapesApp_Update n gpu) Draw sh = Some (Inr sh') \<and> 0 < NumFramesDirty e \<longrightarrow>
                  mapped (ObjectCB (mFrameResources sh' ! mCurrFrameResourceIndex sh'))
                    (ObjCBIndex e * CalcConstantBufferByteSize shSz)
                  = Some (ShapesApp_objConstants e))))"
proof (rule conjI; rule impI)
  assume a: "0 < n \<and> 0 < szObj \<and> length blocks * CalcConstantBufferByteSize szObj < 2 ^ 32 \<and>
      (\<forall>c<n. objBase c + length blocks * CalcConstantBufferByteSize szObj < 2 ^ 64) \<and>
      Run (Update n gpu scroll) Draw k (Initialize n objBase matBase szObj szMat ident lit blocks)
        = Some (Inr s)"
  then have "object_regions_ok n szObj (Initialize n objBase matBase szObj szMat ident lit blocks)"
    by (intro Initialize_regions) simp_all
  with a have ok: "object_regions_ok n szObj s" by (elim conjE TexWaves_Run_regions)
  from a have sz: "0 < szObj" by simp
  from ok have "mCurrFrameResourceIndex s < n" by (simp add: object_regions_ok_def)
  note size = object_regions_ok_size [OF ok this]
  show "\<forall>e\<in>set (mAllRitems s).
     (\<forall>binds. DrawRenderItems szObj szMat s [e] = Inr binds \<longrightarrow>
        map fst binds =
          [GetGPUVirtualAddress (ObjectCB (mFrameResources s ! mCurrFrameResourceIndex s))
             + ObjCBIndex e * CalcConstantBufferByteSize szObj]) \<and>
     (Frame (Update n gpu scroll) Draw s = Some (Inr s') \<and> 0 < NumFramesDirty e \<longrightarrow>
        mapped (ObjectCB (mFrameResources s' ! mCurrFrameResourceIndex s'))
          (ObjCBIndex e * CalcConstantBufferByteSize szObj)
        = Some (objConstants e))"
  proof (intro ballI conjI allI impI)
    fix e binds assume "e \<in> set (mAllRitems s)" "DrawRenderItems szObj szMat s [e] = Inr binds"
    with ok have "map fst binds =
        [write_address (ObjectCB (mFrameResources s ! mCurrFrameResourceIndex s)) (ObjCBIndex e)]"
      by (rule TexWaves_bind_address)
    then show "map fst binds =
        [GetGPUVirtualAddress (ObjectCB (mFrameResources s ! mCurrFrameResourceIndex s))
           + ObjCBIndex e * CalcConstantBufferByteSize szObj]"
      by (simp add: write_address_def size)
  next
    fix e assume e: "e \<in> set (mAllRitems s)"
      and f: "Frame (Update n gpu scroll) Draw s = Some (Inr s') \<and> 0 < NumFramesDirty e"
    from f have "Frame (Update n gpu scroll) Draw s = Some (Inr s')" by simp
    then have p: "object_pass n objConstants s s'" by (rule TexWaves_Frame_object_pass)
    from f have "0 < NumFramesDirty e" by simp
    with ok sz p e show "mapped (ObjectCB (mFrameResources s' ! mCurrFrameResourceIndex s'))
          (ObjCBIndex e * CalcConstantBufferByteSize szObj) = Some (objConstants e)"
      by (rule object_pass_stored)
  qed
next
  assume a: "0 < n \<and> 0 < shSz \<and> (length worlds + 1) * n < 2 ^ 32 \<and>
      length worlds * CalcConstantBufferByteSize shSz < 2 ^ 32 \<and>
      (\<forall>c<n. shBase c + length worlds * CalcConstantBufferByteSize shSz < 2 ^ 64) \<and>
      ShapesApp_Initialize n shBase shSz worlds = Inr sh0 \<and>
      Run (ShapesApp_Update n gpu) Draw k sh0 = Some (Inr sh)"
  then have init: "ShapesApp_Initialize n shBase shSz worlds = Inr sh0" and n: "0 < n"
    and w: "(length worlds + 1) * n < 2 ^ 32"
    and b1: "length worlds * CalcConstantBufferByteSize shSz < 2 ^ 32"
    and b2: "\<forall>c<n. shBase c + length worlds * CalcConstantBufferByteSize shSz < 2 ^ 64"
    and run: "Run (ShapesApp_Update n gpu) Draw k sh0 = Some (Inr sh)" and sz: "0 < shSz"
    by simp_all
  note I = ShapesApp_Initialize_regions [OF init n w b1 b2]
  from I have "object_regions_ok n shSz sh0 \<and> cbv_heap_ok n shSz sh0" by simp
  from ShapesApp_Run_regions [OF this run]
  have ok: "object_regions_ok n shSz sh" and heap: "cbv_heap_ok n shSz sh" by simp_all
  obtain t :: "'b Shapes" where "ShapesApp_Initialize n shBase shSz worlds = Inr t"
    and "mAllRitems t = ShapesApp_BuildRenderItems n worlds"
    by (rule ShapesApp_Initialize_Inr)
  with init have "length (mAllRitems sh0) = length worlds" by simp
  with Run_length_items [OF run] w have wrap: "(length (mAllRitems sh) + 1) * n < 2 ^ 32" by simp
  show "(\<forall>c<n. \<forall>i<length (mAllRitems sh).
       mCbvHeap sh ! ring_offset c (length (mAllRitems sh)) i =
         Some \<lparr> BufferLocation =
                   GetGPUVirtualAddress (ObjectCB (mFrameResources sh ! c))
                     + i * CalcConstantBufferByteSize shSz,
                 SizeInBytes = CalcConstantBufferByteSize shSz \<rparr>) \<and>
    (\<forall>e\<in>set (mAllRitems sh).
       ShapesApp_DrawRenderItems sh [e] =
         [ring_offset (mCurrFrameResourceIndex sh) (length (mAllRitems sh)) (ObjCBIndex e)] \<and>
       (Frame (ShapesApp_Update n gpu) Draw sh = Some (Inr sh') \<and> 0 < NumFramesDirty e \<longrightarrow>
          mapped (ObjectCB (mFrameResources sh' ! mCurrFrameResourceIndex sh'))
            (ObjCBIndex e * CalcConstantBufferByteSize shSz)
          = Some (ShapesApp_objConstants e)))"
  proof (intro ballI conjI allI impI)
    fix c i assume "c < n" "i < length (mAllRitems sh)"
    with ok heap show "mCbvHeap sh ! ring_offset c (length (mAllRitems sh)) i =
         Some \<lparr> BufferLocation =
                   GetGPUVirtualAddress (ObjectCB (mFrameResources sh ! c))
                     + i * CalcConstantBufferByteSize shSz,
                 SizeInBytes = CalcConstantBufferByteSize shSz \<rparr>"
      by (rule cbv_heap_ok_offset)
  next
    fix e assume "e \<in> set (mAllRitems sh)"
    with ok wrap show "ShapesApp_DrawRenderItems sh [e] =
         [ring_offset (mCurrFrameResourceIndex sh) (length (mAllRitems sh)) (ObjCBIndex e)]"
      by (rule ShapesApp_DrawRenderItems_index)
  next
    fix e assume e: "e \<in> set (mAllRitems sh)"
      and f: "Frame (ShapesApp_Update n gpu) Draw sh = Some (Inr sh') \<and> 0 < NumFramesDirty e"
    from f have "Frame (ShapesApp_Update n gpu) Draw sh = Some (Inr sh')" by simp
    then have p: "object_pass n ShapesApp_objConstants sh sh'"
      by (rule ShapesApp_Frame_object_pass)
    from f have "0 < NumFramesDirty e" by simp
    with ok sz p e show "mapped (ObjectCB (mFrameResources sh' ! mCurrFrameResourceIndex sh'))
          (ObjCBIndex e * CalcConstantBufferByteSize shSz) = Some (ShapesApp_objConstants e)"
      by (rule object_pass_stored)
  qed
qed

theorem object_offset_is_index_in_every_slot_witness:
  "\<exists>s' sh0 sh'.
     Run (Update 3 steady_gpu id) Draw 0 castle = Some (Inr castle) \<and>
     mAllRitems castle ! 1 \<in> set (mAllRitems castle) \<and>
     DrawRenderItems 128 80 castle [mAllRitems castle ! 1] = Inr [(256, 66304)] \<and>
     GetGPUVirtualAddress (ObjectCB (mFrameResources castle ! mCurrFrameResourceIndex castle))
       + ObjCBIndex (mAllRitems castle ! 1) * CalcConstantBufferByteSize 128 = 256 \<and>
     Frame (Update 3 steady_gpu id) Draw castle = Some (Inr s') \<and>
     mapped (ObjectCB (mFrameResources s' ! mCurrFrameResourceIndex s')) 256
       = Some (objConstants (mAllRitems castle ! 1)) \<and>
     ShapesApp_Initialize 3 (\<lambda>i. 4096 * i) 64 shape_worlds = Inr sh0 \<and>
     mCbvHeap sh0 ! ring_offset 1 2 1 = Some \<lparr> BufferLocation = 4352, SizeInBytes = 256 \<rparr> \<and>
     ShapesApp_DrawRenderItems sh0 [mAllRitems sh0 ! 1] = [ring_offset 0 2 1] \<and>
     Frame (ShapesApp_Update 3 steady_gpu) Draw sh0 = Some (Inr sh') \<and>
     mapped (ObjectCB (mFrameResources sh' ! mCurrFrameResourceIndex sh')) 256
       = Some (ShapesApp_objConstants (mAllRitems sh0 ! 1))"
proof -
  let ?e = "mAllRitems castle ! 1"
  from castle_runs [of 1] obtain s' where "Run (Update 3 steady_gpu id) Draw (Suc 0) castle = Some (Inr s')"
    by auto
  then have f: "Frame (Update 3 steady_gpu id) Draw castle = Some (Inr s')"
    by (auto split: option.splits sum.splits)
  obtain sh0 :: "nat Shapes" where i: "ShapesApp_Initialize 3 (\<lambda>i. 4096 * i) 64 shape_worlds = Inr sh0"
    and items: "mAllRitems sh0 = ShapesApp_BuildRenderItems 3 shape_worlds"
    and frs: "mFrameResources sh0 =
        ShapesApp_BuildFrameResources 3 (\<lambda>i. 4096 * i) 64 (ShapesApp_BuildRenderItems 3 shape_worlds)"
    and z: "mCurrFrameResourceIndex sh0 = 0"
    by (rule ShapesApp_Initialize_Inr)
  from ShapesApp_Run_live [OF ShapesApp_Initialize_fit(1,2) [OF i] steady_gpu_live, of 1]
  obtain sh' where "Run (ShapesApp_Update 3 steady_gpu) Draw (Suc 0) sh0 = Some (Inr sh')" by auto
  then have g: "Frame (ShapesApp_Update 3 steady_gpu) Draw sh0 = Some (Inr sh')"
    by (auto split: option.splits sum.splits)
  have e: "?e \<in> set (mAllRitems castle)" by (simp add: castle_second_item(2))
  have se: "mAllRitems sh0 ! 1 \<in> set (mAllRitems sh0)" by (simp add: items shape_worlds_def)
  have sl: "length (mAllRitems sh0) = 2" by (simp add: items shape_worlds_def)
  have sv: "ObjCBIndex (mAllRitems sh0 ! 1) = 1" "0 < NumFramesDirty (mAllRitems sh0 ! 1)"
    by (simp_all add: items shape_worlds_def ShapesApp_BuildRenderItems_def)
  have ev: "ObjCBIndex ?e = 1" "0 < NumFramesDirty ?e" unfolding castle_second_item(1) by simp_all
  have sizes: "length shape_worlds = 2" "CalcConstantBufferByteSize 128 = 256"
    "CalcConstantBufferByteSize 64 = 256"
    by (simp_all add: shape_worlds_def CalcConstantBufferByteSize_def)
  have r0: "Run (Update 3 steady_gpu id) Draw 0 castle = Some (Inr castle)"
    "Run (ShapesApp_Update 3 steady_gpu) Draw 0 sh0 = Some (Inr sh0)" by simp_all
  note T = object_offset_is_index_in_every_slot
    [where n = 3 and szObj = 128
       and blocks = "[([[1, 2], [3, 4]], [[5, 0], [0, 5]], ''water''),
                      ([[2, 0], [0, 2]], [[1, 0], [0, 1]], ''stone'')]
                     :: (nat XMFLOAT4X4 \<times> nat XMFLOAT4X4 \<times> string) list"
       and objBase = "\<lambda>i. 4096 * i" and matBase = "\<lambda>i. 65536 + 4096 * i" and szMat = 80
       and ident = "[[1, 0], [0, 1]]" and lit = "\<lambda>name. ([1, 1, 1, 1], [0, 0, 0], 0)"
       and gpu = steady_gpu and scroll = id and k = 0 and s = castle and s' = s'
       and shSz = 64 and worlds = shape_worlds and shBase = "\<lambda>i. 4096 * i"
       and ?sh0.0 = sh0 and sh = sh0 and sh' = sh', folded castle_def]
  have tex: "\<forall>e\<in>set (mAllRitems castle).
       (\<forall>binds. DrawRenderItems 128 80 castle [e] = Inr binds \<longrightarrow>
          map fst binds =
            [GetGPUVirtualAddress (ObjectCB (mFrameResources castle ! mCurrFrameResourceIndex castle))
               + ObjCBIndex e * CalcConstantBufferByteSize 128]) \<and>
       (Frame (Update 3 steady_gpu id) Draw castle = Some (Inr s') \<and> 0 < NumFramesDirty e \<longrightarrow>
          mapped (ObjectCB (mFrameResources s' ! mCurrFrameResourceIndex s'))
            (ObjCBIndex e * CalcConstantBufferByteSize 128)
          = Some (objConstants e))"
    using T r0(1) by (simp add: sizes)
  from bspec [OF tex e] castle_draw
  have 2: "GetGPUVirtualAddress (ObjectCB (mFrameResources castle ! mCurrFrameResourceIndex castle))
       + ObjCBIndex ?e * CalcConstantBufferByteSize 128 = 256" by simp
  from bspec [OF tex e] f ev
  have 3: "mapped (ObjectCB (mFrameResources s' ! mCurrFrameResourceIndex s')) 256
       = Some (objConstants ?e)" by (simp add: sizes)
  have sh: "(\<forall>c<3. \<forall>i<length (mAllRitems sh0).
       mCbvHeap sh0 ! ring_offset c (length (mAllRitems sh0)) i =
         Some \<lparr> BufferLocation =
                   GetGPUVirtualAddress (ObjectCB (mFrameResources sh0 ! c))
                     + i * CalcConstantBufferByteSize 64,
                 SizeInBytes = CalcConstantBufferByteSize 64 \<rparr>) \<and>
    (\<forall>e\<in>set (mAllRitems sh0).
       ShapesApp_DrawRenderItems sh0 [e] =
         [ring_offset (mCurrFrameResourceIndex sh0) (length (mAllRitems sh0)) (ObjCBIndex e)] \<and>
       (Frame (ShapesApp_Update 3 steady_gpu) Draw sh0 = Some (Inr sh') \<and> 0 < NumFramesDirty e \<longrightarrow>
          mapped (ObjectCB (mFrameResources sh' ! mCurrFrameResourceIndex sh'))
            (ObjCBIndex e * CalcConstantBufferByteSize 64)
          = Some (ShapesApp_objConstants e)))"
    using T i r0(2) by (simp add: sizes)
  have base1: "GetGPUVirtualAddress (ObjectCB (mFrameResources sh0 ! 1)) = 4096"
    by (simp add: frs ShapesApp_BuildFrameResources_def ShapesFrameResource_new_def
        UploadBuffer_new_def)
  from sh have "\<forall>c<3. \<forall>i<length (mAllRitems sh0).
       mCbvHeap sh0 ! ring_offset c (length (mAllRitems sh0)) i =
         Some \<lparr> BufferLocation =
                   GetGPUVirtualAddress (ObjectCB (mFrameResources sh0 ! c))
                     + i * CalcConstantBufferByteSize 64,
                 SizeInBytes = CalcConstantBufferByteSize 64 \<rparr>" ..
  then have "mCbvHeap sh0 ! ring_offset 1 (length (mAllRitems sh0)) 1 =
         Some \<lparr> BufferLocation =
                   GetGPUVirtualAddress (ObjectCB (mFrameResources sh0 ! 1))
                     + 1 * CalcConstantBufferByteSize 64,
                 SizeInBytes = CalcConstantBufferByteSize 64 \<rparr>"
    using sl by simp
  then have 4: "mCbvHeap sh0 ! ring_offset 1 2 1 = Some \<lparr> BufferLocation = 4352, SizeInBytes = 256 \<rparr>"
    unfolding sl base1 sizes by simp
  from sh have items_sh: "\<forall>e\<in>set (mAllRitems sh0).
       ShapesApp_DrawRenderItems sh0 [e] =
         [ring_offset (mCurrFrameResourceIndex sh0) (length (mAllRitems sh0)) (ObjCBIndex e)] \<and>
       (Frame (ShapesApp_Update 3 steady_gpu) Draw sh0 = Some (Inr sh') \<and> 0 < NumFramesDirty e \<longrightarrow>
          mapped (ObjectCB (mFrameResources sh' ! mCurrFrameResourceIndex sh'))
            (ObjCBIndex e * CalcConstantBufferByteSize 64)
          = Some (ShapesApp_objConstants e))" ..
  from bspec [OF items_sh se] sv
  have 5: "ShapesApp_DrawRenderItems sh0 [mAllRitems sh0 ! 1] = [ring_offset 0 2 1]"
    by (simp add: z sl)
  from bspec [OF items_sh se] g sv
  have 6: "mapped (ObjectCB (mFrameResources sh' ! mCurrFrameResourceIndex sh')) 256
       = Some (ShapesApp_objConstants (mAllRitems sh0 ! 1))" by (simp add: sizes)
  show ?thesis
    by (rule exI [of _ s'], rule exI [of _ sh0], rule exI [of _ sh'])
      (intro conjI r0(1) e castle_draw 2 f 3 i 4 5 g 6)
qed

end
